theory Spec2Isabelle
  imports Complex_Main "HOL-Library.Word" "HOL-Library.Sublist" "HOL-Library.Char_ord"
    "HOL-Library.List_Lexorder"
begin

unbundle bit_operations_syntax

section \<open>Volumes, masks and their geometry\<close>

text \<open>
  The program (\<^verbatim>\<open>Post_Processing/tubercle_recovery.py\<close>) works on SimpleITK images. An image
  is a voxel grid with a size, a spacing and an origin; a voxel index is \<open>(x, y, z)\<close>, while the
  numpy view \<^verbatim>\<open>arr(img)\<close> is indexed \<open>[z, y, x]\<close>. Intensities (Hounsfield units, distances,
  fractions) are floating-point numbers; a float is modelled by the real number it
  denotes, and an arithmetic operation of the program on floats by the exact operation
  followed by rounding to the nearest double (\<open>fl64\<close> below). The arithmetic inside the
  toolkit (the transforms between indices and physical points) is exact. Masks are images
  of unsigned bytes. Direction cosines are taken to be the identity (axis-aligned volumes).
\<close>

type_synonym idx = "int \<times> int \<times> int"
type_synonym pnt = "real \<times> real \<times> real"
type_synonym u8 = "8 word"

abbreviation c0 :: "'a \<times> 'a \<times> 'a \<Rightarrow> 'a" where "c0 t \<equiv> fst t"
abbreviation c1 :: "'a \<times> 'a \<times> 'a \<Rightarrow> 'a" where "c1 t \<equiv> fst (snd t)"
abbreviation c2 :: "'a \<times> 'a \<times> 'a \<Rightarrow> 'a" where "c2 t \<equiv> snd (snd t)"

record geom =
  gsize :: "nat \<times> nat \<times> nat"
  gspacing :: pnt
  gorigin :: pnt

record 'a image =
  geo :: geom
  vox :: "idx \<Rightarrow> 'a"

text \<open>Exceptions of the Python program, as values.\<close>

datatype error =
  ZeroDivisionError
  | ShapeMismatch
  | FileNotFound string
  | ToolkitFailure string

text \<open>A Python float that may be \<^verbatim>\<open>nan\<close> (numpy's mean of an empty array).\<close>

datatype pyfloat = Num real | NaN

definition inside :: "geom \<Rightarrow> idx \<Rightarrow> bool" where
  "inside g i \<longleftrightarrow>
     0 \<le> c0 i \<and> c0 i < int (c0 (gsize g)) \<and>
     0 \<le> c1 i \<and> c1 i < int (c1 (gsize g)) \<and>
     0 \<le> c2 i \<and> c2 i < int (c2 (gsize g))"

text \<open>All voxel indices of a grid in the order of \<^verbatim>\<open>np.argwhere\<close>: z outermost, x innermost.\<close>

definition indices :: "geom \<Rightarrow> idx list" where
  "indices g =
     concat (map (\<lambda>z. concat (map (\<lambda>y. map (\<lambda>x. (x, y, z))
       [0 .. int (c0 (gsize g)) - 1]) [0 .. int (c1 (gsize g)) - 1])) [0 .. int (c2 (gsize g)) - 1])"

definition TransformIndexToPhysicalPoint :: "geom \<Rightarrow> idx \<Rightarrow> pnt" where
  "TransformIndexToPhysicalPoint g i =
     (c0 (gorigin g) + c0 (gspacing g) * of_int (c0 i),
      c1 (gorigin g) + c1 (gspacing g) * of_int (c1 i),
      c2 (gorigin g) + c2 (gspacing g) * of_int (c2 i))"

text \<open>ITK rounds the continuous index half up; \<^const>\<open>round\<close> is \<open>\<lfloor>x + 1/2\<rfloor>\<close>.\<close>

definition TransformPhysicalPointToIndex :: "geom \<Rightarrow> pnt \<Rightarrow> idx" where
  "TransformPhysicalPointToIndex g p =
     (round ((c0 p - c0 (gorigin g)) / c0 (gspacing g)),
      round ((c1 p - c1 (gorigin g)) / c1 (gspacing g)),
      round ((c2 p - c2 (gorigin g)) / c2 (gspacing g)))"

text \<open>ITK refuses a zero spacing; a loaded image always has a positive one.\<close>

definition valid_geom :: "geom \<Rightarrow> bool" where
  "valid_geom g \<longleftrightarrow> 0 < c0 (gspacing g) \<and> 0 < c1 (gspacing g) \<and> 0 < c2 (gspacing g)"

text \<open>Foreground of a mask: the voxels of the grid with a non-zero value.\<close>

definition fg :: "('a::zero) image \<Rightarrow> idx set" where
  "fg m = {i. inside (geo m) i \<and> vox m i \<noteq> 0}"

definition any_nonzero :: "('a::zero) image \<Rightarrow> bool" where
  "any_nonzero m = list_ex (\<lambda>i. vox m i \<noteq> 0) (indices (geo m))"

definition binary :: "u8 image \<Rightarrow> bool" where
  "binary m \<longleftrightarrow> list_all (\<lambda>i. vox m i = 0 \<or> vox m i = 1) (indices (geo m))"

section \<open>Floating-point arithmetic\<close>

text \<open>Python's \<^verbatim>\<open>round\<close>: half to even.\<close>

definition py_round :: "real \<Rightarrow> int" where
  "py_round x =
     (let f = \<lfloor>x\<rfloor>; d = x - of_int f
      in if d < 1 / 2 then f else if 1 / 2 < d then f + 1 else if even f then f else f + 1)"

text \<open>
  Rounding of a real number to the nearest IEEE double (53 significant bits, ties to even):
  \<open>ilog2 x\<close> is the exponent \<open>\<lfloor>log\<^sub>2 x\<rfloor>\<close> of a positive \<open>x\<close>, and the result is the multiple
  of the unit in the last place nearest to \<open>x\<close>. Overflow and subnormal numbers are left
  out: the quantities of the program are far from both. A float literal such as
  \<^verbatim>\<open>0.55\<close> denotes \<open>fl64 (55 / 100)\<close>, and the product \<^verbatim>\<open>a * b\<close> of two floats is
  \<open>fl64 (a * b)\<close>; an integer below \<open>2\<^sup>5\<^sup>3\<close> is converted to a float exactly.
\<close>

fun bit_length :: "nat \<Rightarrow> nat" where
  "bit_length n = (if n = 0 then 0 else Suc (bit_length (n div 2)))"

declare bit_length.simps [simp del]

definition ilog2 :: "real \<Rightarrow> int" where
  "ilog2 x = (if 1 \<le> x then int (bit_length (nat \<lfloor>x\<rfloor>)) - 1
              else - int (bit_length (nat (\<lceil>1 / x\<rceil> - 1))))"

definition fl64 :: "real \<Rightarrow> real" where
  "fl64 x =
     (if x = 0 then 0
      else let e = ilog2 \<bar>x\<bar> - 52;
               ulp = (if 0 \<le> e then 2 ^ nat e else 1 / 2 ^ nat (- e))
           in of_int (py_round (x / ulp)) * ulp)"

section \<open>Knobs\<close>

definition UPPER_HU :: real where "UPPER_HU = 1200"
definition NBHD_RADIUS_MM :: real where "NBHD_RADIUS_MM = 12"
definition NBHD_BONE_HU :: real where "NBHD_BONE_HU = 600"
definition NBHD_BONE_FRAC_LEFT_CUTOFF :: real where "NBHD_BONE_FRAC_LEFT_CUTOFF = fl64 (5 / 100)"
definition NBHD_BONE_FRAC_RIGHT_CUTOFF :: real where "NBHD_BONE_FRAC_RIGHT_CUTOFF = fl64 (5 / 1000)"
definition POSTERIOR_Y_IDX_MIN_FRAC :: real where "POSTERIOR_Y_IDX_MIN_FRAC = fl64 (55 / 100)"
definition MIDLINE_X_TOL_MM :: real where "MIDLINE_X_TOL_MM = 50"
definition PCTL_ROBUST :: real where "PCTL_ROBUST = 40"
definition LOWER_PCTL_FLOOR_R :: real where "LOWER_PCTL_FLOOR_R = 200"
definition R_RIB_MM_R :: real where "R_RIB_MM_R = 10"
definition R_TIP_MM_R :: real where "R_TIP_MM_R = 14"
definition LOWER_HU_RIGHT_MIN :: real where "LOWER_HU_RIGHT_MIN = 400"
definition SPINE_HU :: real where "SPINE_HU = 480"
definition SPINE_MID_TOL_MM :: real where "SPINE_MID_TOL_MM = 20"
definition SPINE_Z_EXT_MM :: real where "SPINE_Z_EXT_MM = 60"
definition SPINE_CLEAR_MM :: real where "SPINE_CLEAR_MM = 8"
definition FINAL_CLOSING :: "nat \<times> nat \<times> nat" where "FINAL_CLOSING = (8, 0, 8)"

section \<open>Helpers\<close>

text \<open>\<^verbatim>\<open>to_u8(img) = sitk.Cast(img > 0, sitkUInt8)\<close>: the comparison gives 1 or 0.\<close>

definition to_u8 :: "('a::{zero,ord}) image \<Rightarrow> u8 image" where
  "to_u8 img = \<lparr>geo = geo img, vox = (\<lambda>i. if 0 < vox img i then 1 else 0)\<rparr>"

text \<open>A mask read as a float image, as it is stored in a file.\<close>

definition of_u8 :: "u8 image \<Rightarrow> real image" where
  "of_u8 m = \<lparr>geo = geo m, vox = (\<lambda>i. real (unat (vox m i)))\<rparr>"

text \<open>
  \<^verbatim>\<open>resample_like\<close>: nearest-neighbour resampling with the identity transform. The voxel
  \<open>i\<close> of the result, on the grid of \<open>fixed\<close>, takes the value of the voxel of \<open>moving\<close>
  nearest to its physical point, and the default value 0 when that index lies outside the
  grid of \<open>moving\<close>.
\<close>

definition resample_like :: "('a::zero) image \<Rightarrow> 'b image \<Rightarrow> 'a image" where
  "resample_like moving fixed =
     \<lparr>geo = geo fixed,
      vox = (\<lambda>i. let j = TransformPhysicalPointToIndex (geo moving)
                           (TransformIndexToPhysicalPoint (geo fixed) i)
                 in if inside (geo moving) j then vox moving j else 0)\<rparr>"

text \<open>
  The indices selected by the slice \<^verbatim>\<open>a[lo:hi]\<close> of an axis of length \<open>n\<close>, for
  \<open>lo \<ge> 0\<close>: a negative stop counts from the end.
\<close>

definition py_slice :: "nat \<Rightarrow> int \<Rightarrow> int \<Rightarrow> int list" where
  "py_slice n lo hi =
     (let stop = (if hi < 0 then max 0 (hi + int n) else min hi (int n))
      in [min lo (int n) .. stop - 1])"

text \<open>
  \<^verbatim>\<open>a.mean()\<close> of an array of booleans: the number of true entries divided, as floats, by
  the number of entries; \<^verbatim>\<open>nan\<close> for an empty array.
\<close>

definition mean_bool :: "bool list \<Rightarrow> pyfloat" where
  "mean_bool bs =
     (if bs = [] then NaN
      else Num (fl64 (real (length (filter (\<lambda>b. b) bs)) / real (length bs))))"

section \<open>Endpoint classifier\<close>

text \<open>
  The anatomical position check: posterior along y (by index) and near the midline along x.
  The index is compared with the float product \<^verbatim>\<open>Y * y_frac_min\<close>, the physical coordinate
  with the float \<^verbatim>\<open>origin[0] + sp[0] * (X / 2.0)\<close>.
\<close>

definition is_posterior_y :: "real image \<Rightarrow> pnt \<Rightarrow> real \<Rightarrow> bool" where
  "is_posterior_y ct ep_phys y_frac_min =
     (let idx = TransformPhysicalPointToIndex (geo ct) ep_phys;
          mid_y_idx = fl64 (real (c1 (gsize (geo ct))) * y_frac_min)
      in mid_y_idx \<le> of_int (c1 idx))"

definition is_near_midline_x :: "real image \<Rightarrow> pnt \<Rightarrow> real \<Rightarrow> bool" where
  "is_near_midline_x ct ep_phys x_tol_mm =
     (let mid_x_phys = fl64 (c0 (gorigin (geo ct)) +
                         fl64 (c0 (gspacing (geo ct)) * fl64 (real (c0 (gsize (geo ct))) / 2)))
      in \<bar>fl64 (c0 ep_phys - mid_x_phys)\<bar> \<le> x_tol_mm)"

text \<open>The box of voxels inspected around the endpoint, clipped to the grid.\<close>

definition nbhd_roi :: "real image \<Rightarrow> pnt \<Rightarrow> real \<Rightarrow> idx list" where
  "nbhd_roi ct ep_phys nbhd_mm =
     (let sp = gspacing (geo ct);
          idx = TransformPhysicalPointToIndex (geo ct) ep_phys;
          X = c0 (gsize (geo ct)); Y = c1 (gsize (geo ct)); Z = c2 (gsize (geo ct));
          rx = max 1 (py_round (fl64 (nbhd_mm / c0 sp)));
          ry = max 1 (py_round (fl64 (nbhd_mm / c1 sp)));
          rz = max 1 (py_round (fl64 (nbhd_mm / c2 sp)));
          x0 = max 0 (c0 idx - rx); x1 = min (int X - 1) (c0 idx + rx);
          y0 = max 0 (c1 idx - ry); y1 = min (int Y - 1) (c1 idx + ry);
          z0 = max 0 (c2 idx - rz); z1 = min (int Z - 1) (c2 idx + rz)
      in concat (map (\<lambda>z. concat (map (\<lambda>y. map (\<lambda>x. (x, y, z))
           (py_slice X x0 (x1 + 1))) (py_slice Y y0 (y1 + 1)))) (py_slice Z z0 (z1 + 1))))"

text \<open>
  Returns the fraction of dense non-rib bone in the neighbourhood of the endpoint, and
  1.0 when the endpoint is not posterior or not near the midline. The division by the
  spacing raises for a zero spacing. The two arrays are sliced with the same bounds; the
  repair always passes a mask resampled onto the CT grid, and only this case is modelled:
  for a mask of another size, where numpy would broadcast the two slices or raise, the
  model raises.
\<close>

definition endpoint_is_posterior_missing_tubercle ::
  "real image \<Rightarrow> u8 image \<Rightarrow> pnt \<Rightarrow> real \<Rightarrow> real \<Rightarrow> real \<Rightarrow> real \<Rightarrow> error + pyfloat" where
  "endpoint_is_posterior_missing_tubercle ct ribs_u8 ep_phys nbhd_mm bone_hu y_frac_min x_tol_mm =
     (let sp = gspacing (geo ct)
      in if \<not> (is_posterior_y ct ep_phys y_frac_min \<and> is_near_midline_x ct ep_phys x_tol_mm)
         then Inr (Num 1)
         else if c0 sp = 0 \<or> c1 sp = 0 \<or> c2 sp = 0 then Inl ZeroDivisionError
         else if gsize (geo ribs_u8) \<noteq> gsize (geo ct) then Inl ShapeMismatch
         else
           let other_bone = map (\<lambda>i. bone_hu \<le> vox ct i \<and> vox ribs_u8 i = 0)
                               (nbhd_roi ct ep_phys nbhd_mm)
           in Inr (mean_bool other_bone))"

text \<open>The hard cutoff of the repair loop: \<^verbatim>\<open>frac <= active_cutoff\<close>; false for \<^verbatim>\<open>nan\<close>.\<close>

fun frac_le :: "pyfloat \<Rightarrow> real \<Rightarrow> bool" where
  "frac_le (Num f) c = (f \<le> c)"
| "frac_le NaN c = False"


section \<open>Toolkit operations\<close>

definition bindE :: "error + 'a \<Rightarrow> ('a \<Rightarrow> error + 'b) \<Rightarrow> error + 'b" where
  "bindE m f = (case m of Inl e \<Rightarrow> Inl e | Inr x \<Rightarrow> f x)"

definition idx_add :: "idx \<Rightarrow> idx \<Rightarrow> idx" where
  "idx_add i d = (c0 i + c0 d, c1 i + c1 d, c2 i + c2 d)"

definition idx_sub :: "idx \<Rightarrow> idx \<Rightarrow> idx" where
  "idx_sub i d = (c0 i - c0 d, c1 i - c1 d, c2 i - c2 d)"

text \<open>\<^verbatim>\<open>sitk.Image(size, sitkUInt8)\<close> followed by \<^verbatim>\<open>CopyInformation\<close>: an all-zero mask.\<close>

definition zero_mask :: "geom \<Rightarrow> u8 image" where
  "zero_mask g = \<lparr>geo = g, vox = (\<lambda>i. 0)\<rparr>"

text \<open>The comparisons \<^verbatim>\<open>img >= c\<close> and \<^verbatim>\<open>img <= c\<close> of an image with a constant.\<close>

definition img_ge :: "real image \<Rightarrow> real \<Rightarrow> u8 image" where
  "img_ge img c = \<lparr>geo = geo img, vox = (\<lambda>i. if c \<le> vox img i then 1 else 0)\<rparr>"

definition img_le :: "real image \<Rightarrow> real \<Rightarrow> u8 image" where
  "img_le img c = \<lparr>geo = geo img, vox = (\<lambda>i. if vox img i \<le> c then 1 else 0)\<rparr>"

text \<open>
  The voxel-wise filters raise when their two inputs do not lie on the same grid.
  \<^verbatim>\<open>sitk.And\<close> and \<^verbatim>\<open>sitk.Or\<close> are bitwise on unsigned bytes; \<^verbatim>\<open>sitk.Mask\<close> keeps
  the voxels where the mask is non-zero and writes the outside value elsewhere.
\<close>

definition sitk_And :: "u8 image \<Rightarrow> u8 image \<Rightarrow> error + u8 image" where
  "sitk_And a b =
     (if geo a = geo b then Inr \<lparr>geo = geo a, vox = (\<lambda>i. vox a i AND vox b i)\<rparr>
      else Inl ShapeMismatch)"

definition sitk_Or :: "u8 image \<Rightarrow> u8 image \<Rightarrow> error + u8 image" where
  "sitk_Or a b =
     (if geo a = geo b then Inr \<lparr>geo = geo a, vox = (\<lambda>i. vox a i OR vox b i)\<rparr>
      else Inl ShapeMismatch)"

definition sitk_Mask :: "real image \<Rightarrow> u8 image \<Rightarrow> real \<Rightarrow> error + real image" where
  "sitk_Mask img mask_u8 outsideValue =
     (if geo img = geo mask_u8
      then Inr \<lparr>geo = geo img, vox = (\<lambda>i. if vox mask_u8 i \<noteq> 0 then vox img i else outsideValue)\<rparr>
      else Inl ShapeMismatch)"

definition BinaryThreshold :: "nat image \<Rightarrow> nat \<Rightarrow> nat \<Rightarrow> u8 \<Rightarrow> u8 \<Rightarrow> u8 image" where
  "BinaryThreshold img lo hi insideValue outsideValue =
     \<lparr>geo = geo img,
      vox = (\<lambda>i. if lo \<le> vox img i \<and> vox img i \<le> hi then insideValue else outsideValue)\<rparr>"

text \<open>
  The services the program consumes without reimplementing them are parameters of the
  model: binary thinning, the signed distance map (in millimetres, negative inside),
  connected-component labelling, the ball structuring element of given voxel radii, and
  \<^verbatim>\<open>np.percentile\<close> of a non-empty sample (computed by numpy in the precision of the CT
  array). Each filter may raise; its result lies on the grid of its input. Thinning only
  removes voxels and marks the voxels it keeps with 1: its result is a 0/1 mask that is
  zero wherever its input is.
\<close>

record toolkit =
  thinning_vox :: "u8 image \<Rightarrow> error + (idx \<Rightarrow> u8)"
  distance_vox :: "u8 image \<Rightarrow> error + (idx \<Rightarrow> real)"
  component_vox :: "u8 image \<Rightarrow> error + (idx \<Rightarrow> nat)"
  ball :: "nat \<times> nat \<times> nat \<Rightarrow> idx list"
  np_percentile :: "real list \<Rightarrow> real \<Rightarrow> real"

definition skeleton :: "toolkit \<Rightarrow> u8 image \<Rightarrow> error + u8 image" where
  "skeleton tk bin_u8 =
     bindE (thinning_vox tk bin_u8) (\<lambda>f.
       Inr \<lparr>geo = geo bin_u8, vox = (\<lambda>i. if vox bin_u8 i = 0 \<or> f i = 0 then 0 else 1)\<rparr>)"

definition dist_map_mm :: "toolkit \<Rightarrow> u8 image \<Rightarrow> error + real image" where
  "dist_map_mm tk bin_u8 = bindE (distance_vox tk bin_u8) (\<lambda>f. Inr \<lparr>geo = geo bin_u8, vox = f\<rparr>)"

definition ConnectedComponent :: "toolkit \<Rightarrow> u8 image \<Rightarrow> error + nat image" where
  "ConnectedComponent tk img = bindE (component_vox tk img) (\<lambda>f. Inr \<lparr>geo = geo img, vox = f\<rparr>)"

text \<open>
  \<^verbatim>\<open>sitk.BinaryDilate\<close> with foreground value 1: a voxel becomes foreground when the
  structuring element placed on a foreground voxel covers it; other voxels keep their value.
\<close>

definition BinaryDilate :: "toolkit \<Rightarrow> u8 image \<Rightarrow> nat \<times> nat \<times> nat \<Rightarrow> u8 image" where
  "BinaryDilate tk img rad =
     \<lparr>geo = geo img,
      vox = (\<lambda>i. if vox img i = 1 \<or>
                    list_ex (\<lambda>b. inside (geo img) (idx_sub i b) \<and> vox img (idx_sub i b) = 1) (ball tk rad)
                 then 1 else vox img i)\<rparr>"

text \<open>
  \<^verbatim>\<open>sitk.BinaryMorphologicalClosing\<close> with foreground value 1 and the safe border: the
  image is padded by the kernel radius, dilated, eroded and cropped, so that the dilation
  and the erosion are those of the unbounded grid.
\<close>

definition BinaryMorphologicalClosing :: "toolkit \<Rightarrow> u8 image \<Rightarrow> nat \<times> nat \<times> nat \<Rightarrow> u8 image" where
  "BinaryMorphologicalClosing tk img rad =
     \<lparr>geo = geo img,
      vox = (\<lambda>i. if list_all (\<lambda>b. list_ex (\<lambda>b'. inside (geo img) (idx_sub (idx_add i b) b') \<and>
                                   vox img (idx_sub (idx_add i b) b') = 1) (ball tk rad)) (ball tk rad)
                 then 1 else vox img i)\<rparr>"

text \<open>
  \<^verbatim>\<open>sitk.ConnectedThreshold\<close> with its default face connectivity: the voxels reachable
  from a seed through face-adjacent voxels whose intensity lies in \<open>[lower, upper]\<close>; a seed
  outside the grid or outside the interval starts nothing. One round adds the admissible
  face neighbours of the voxels reached so far; as many rounds as the grid has voxels
  reach everything.
\<close>

definition face_offsets :: "idx list" where
  "face_offsets = [(- 1, 0, 0), (1, 0, 0), (0, - 1, 0), (0, 1, 0), (0, 0, - 1), (0, 0, 1)]"

definition flood_step :: "geom \<Rightarrow> (idx \<Rightarrow> bool) \<Rightarrow> idx set \<Rightarrow> idx set" where
  "flood_step g ok S =
     S \<union> Set.filter (\<lambda>v. ok v \<and> list_ex (\<lambda>d. idx_add v d \<in> S) face_offsets) (set (indices g))"

definition ConnectedThreshold :: "real image \<Rightarrow> idx list \<Rightarrow> real \<Rightarrow> real \<Rightarrow> u8 image" where
  "ConnectedThreshold img seedList lower upper =
     (let ok = (\<lambda>v. lower \<le> vox img v \<and> vox img v \<le> upper);
          S0 = Set.filter (\<lambda>v. v \<in> set seedList \<and> ok v) (set (indices (geo img)));
          S = (flood_step (geo img) ok ^^ length (indices (geo img))) S0
      in \<lparr>geo = geo img, vox = (\<lambda>i. if i \<in> S then 1 else 0)\<rparr>)"

text \<open>
  \<^verbatim>\<open>LabelShapeStatisticsImageFilter\<close>: the labels present (zero is the background), the
  centroid of a label in physical space and the extent of its bounding box along z.
\<close>

definition GetLabels :: "nat image \<Rightarrow> nat list" where
  "GetLabels cc = sort (remdups (filter (\<lambda>l. l \<noteq> 0) (map (vox cc) (indices (geo cc)))))"

definition label_voxels :: "nat image \<Rightarrow> nat \<Rightarrow> idx list" where
  "label_voxels cc L = filter (\<lambda>i. vox cc i = L) (indices (geo cc))"

definition GetCentroid_x :: "nat image \<Rightarrow> nat \<Rightarrow> real" where
  "GetCentroid_x cc L =
     sum_list (map (\<lambda>i. c0 (TransformIndexToPhysicalPoint (geo cc) i)) (label_voxels cc L))
       / real (length (label_voxels cc L))"

definition GetBoundingBox_sz :: "nat image \<Rightarrow> nat \<Rightarrow> int" where
  "GetBoundingBox_sz cc L =
     (let zs = map (\<lambda>i. c2 i) (label_voxels cc L)
      in if zs = [] then 0 else fold max zs (hd zs) - fold min zs (hd zs) + 1)"

section \<open>Skeleton endpoints\<close>

text \<open>
  \<^verbatim>\<open>scipy.ndimage.convolve\<close> of the skeleton with a 3x3x3 kernel of ones, zero outside the
  grid (\<^verbatim>\<open>mode="constant", cval=0\<close>), in unsigned bytes.
\<close>

definition offsets27 :: "idx list" where
  "offsets27 = concat (map (\<lambda>dz. concat (map (\<lambda>dy. map (\<lambda>dx. (dx, dy, dz))
      [- 1, 0, 1]) [- 1, 0, 1])) [- 1, 0, 1])"

definition convolve_ones :: "u8 image \<Rightarrow> idx \<Rightarrow> u8" where
  "convolve_ones sk i =
     sum_list (map (\<lambda>d. if inside (geo sk) (idx_add i d) then vox sk (idx_add i d) else 0) offsets27)"

definition endpoint_indices :: "u8 image \<Rightarrow> idx list" where
  "endpoint_indices skel_u8 =
     filter (\<lambda>i. vox skel_u8 i = 1 \<and> convolve_ones skel_u8 i = 2) (indices (geo skel_u8))"

definition endpoints_from_skeleton :: "u8 image \<Rightarrow> pnt list" where
  "endpoints_from_skeleton skel_u8 =
     map (TransformIndexToPhysicalPoint (geo skel_u8)) (endpoint_indices skel_u8)"

section \<open>Intensity percentiles inside a mask\<close>

text \<open>
  The CT values at the voxels of the mask, and their percentiles; 300.0 for each requested
  percentile when the mask is empty. Indexing the CT array with a boolean array of
  another shape raises.
\<close>

definition stats_percentiles_in_mask ::
  "toolkit \<Rightarrow> real image \<Rightarrow> u8 image \<Rightarrow> real list \<Rightarrow> error + real list" where
  "stats_percentiles_in_mask tk ct mask_u8 pcts =
     (if gsize (geo mask_u8) \<noteq> gsize (geo ct) then Inl ShapeMismatch
      else
        let hu = map (vox ct) (filter (\<lambda>i. 0 < vox mask_u8 i) (indices (geo mask_u8)))
        in if hu = [] then Inr (map (\<lambda>p. 300) pcts)
           else Inr (map (np_percentile tk hu) pcts))"


section \<open>Spine mask\<close>

text \<open>
  High-intensity components near the midline with a large extent along z, dilated by one
  voxel. The loop over the labels accumulates the kept components with \<^verbatim>\<open>sitk.Or\<close>.
\<close>

fun spine_loop :: "real image \<Rightarrow> nat image \<Rightarrow> real \<Rightarrow> nat list \<Rightarrow> u8 image \<Rightarrow> error + u8 image" where
  "spine_loop ct cc mid_x_phys [] out = Inr out"
| "spine_loop ct cc mid_x_phys (L # Ls) out =
     (if \<bar>fl64 (GetCentroid_x cc L - mid_x_phys)\<bar> \<le> SPINE_MID_TOL_MM \<and>
         SPINE_Z_EXT_MM \<le> fl64 (of_int (GetBoundingBox_sz cc L) * c2 (gspacing (geo ct)))
      then (case sitk_Or out (to_u8 (BinaryThreshold cc L L 1 0)) of
              Inl e \<Rightarrow> Inl e
            | Inr out' \<Rightarrow> spine_loop ct cc mid_x_phys Ls out')
      else spine_loop ct cc mid_x_phys Ls out)"

definition build_spine_mask :: "toolkit \<Rightarrow> real image \<Rightarrow> error + u8 image" where
  "build_spine_mask tk ct =
     (let mid_x_phys = fl64 (c0 (gorigin (geo ct)) +
                         fl64 (c0 (gspacing (geo ct)) * fl64 (real (c0 (gsize (geo ct))) / 2)));
          high = to_u8 (img_ge ct SPINE_HU)
      in if \<not> any_nonzero high then Inr (zero_mask (geo ct))
         else bindE (ConnectedComponent tk high) (\<lambda>cc.
              bindE (spine_loop ct cc mid_x_phys (GetLabels cc) (zero_mask (geo ct))) (\<lambda>out.
              Inr (if any_nonzero out then BinaryDilate tk out (1, 1, 1) else out))))"

section \<open>Corridor, region growing and component filter\<close>

text \<open>The endpoint sphere: the seed voxel, when it lies on the grid, dilated by the tip radius.\<close>

definition seed_image :: "u8 image \<Rightarrow> pnt \<Rightarrow> u8 image" where
  "seed_image ribs_u8 ep_phys =
     (let center_idx = TransformPhysicalPointToIndex (geo ribs_u8) ep_phys
      in if inside (geo ribs_u8) center_idx
         then \<lparr>geo = geo ribs_u8, vox = (\<lambda>i. if i = center_idx then 1 else 0)\<rparr>
         else zero_mask (geo ribs_u8))"

definition tip_radius :: "u8 image \<Rightarrow> real \<Rightarrow> nat \<times> nat \<times> nat" where
  "tip_radius ribs_u8 r_tip_mm =
     (nat (max 1 (py_round (fl64 (r_tip_mm / c0 (gspacing (geo ribs_u8)))))),
      nat (max 1 (py_round (fl64 (r_tip_mm / c1 (gspacing (geo ribs_u8)))))),
      nat (max 1 (py_round (fl64 (r_tip_mm / c2 (gspacing (geo ribs_u8)))))))"

definition endpoint_sphere :: "toolkit \<Rightarrow> u8 image \<Rightarrow> pnt \<Rightarrow> real \<Rightarrow> u8 image" where
  "endpoint_sphere tk ribs_u8 ep_phys r_tip_mm =
     BinaryDilate tk (seed_image ribs_u8 ep_phys) (tip_radius ribs_u8 r_tip_mm)"

text \<open>Corridor = near-rib band, intersected with the endpoint sphere and the spine clearance.\<close>

definition corridor_for_tip ::
  "toolkit \<Rightarrow> u8 image \<Rightarrow> u8 image \<Rightarrow> pnt \<Rightarrow> real \<Rightarrow> real \<Rightarrow> error + u8 image" where
  "corridor_for_tip tk ribs_u8 spine_u8 ep_phys r_rib_mm r_tip_mm =
     bindE (dist_map_mm tk ribs_u8) (\<lambda>d_rib.
       let near_rib = to_u8 (img_le d_rib r_rib_mm);
           sp = gspacing (geo ribs_u8)
       in if c0 sp = 0 \<or> c1 sp = 0 \<or> c2 sp = 0 then Inl ZeroDivisionError
          else
            bindE (sitk_And near_rib (endpoint_sphere tk ribs_u8 ep_phys r_tip_mm)) (\<lambda>cor.
              if any_nonzero spine_u8
              then bindE (dist_map_mm tk spine_u8) (\<lambda>d_spine.
                     sitk_And cor (to_u8 (img_ge d_spine SPINE_CLEAR_MM)))
              else Inr cor))"

text \<open>\<^verbatim>\<open>ConnectedThreshold\<close> inside the corridor only: outside it the CT is set to -2000.\<close>

definition region_grow_local ::
  "real image \<Rightarrow> pnt list \<Rightarrow> real \<Rightarrow> real \<Rightarrow> u8 image \<Rightarrow> error + u8 image" where
  "region_grow_local ct seeds_phys lo hi corridor_u8 =
     (if seeds_phys = [] then Inr (zero_mask (geo ct))
      else
        bindE (sitk_Mask ct corridor_u8 (- 2000)) (\<lambda>ct_masked.
          let seed_idx = map (TransformPhysicalPointToIndex (geo ct)) seeds_phys;
              rg = ConnectedThreshold ct_masked seed_idx lo hi
          in Inr (to_u8 rg)))"

text \<open>Keep only the grown components that touch the rib dilated by one voxel.\<close>

fun keep_loop :: "nat image \<Rightarrow> u8 image \<Rightarrow> nat list \<Rightarrow> u8 image \<Rightarrow> error + u8 image" where
  "keep_loop cc rib_d [] out = Inr out"
| "keep_loop cc rib_d (L # Ls) out =
     (case sitk_And (to_u8 (BinaryThreshold cc L L 1 0)) rib_d of
        Inl e \<Rightarrow> Inl e
      | Inr touching \<Rightarrow>
          if any_nonzero touching
          then (case sitk_Or out (to_u8 (BinaryThreshold cc L L 1 0)) of
                  Inl e \<Rightarrow> Inl e
                | Inr out' \<Rightarrow> keep_loop cc rib_d Ls out')
          else keep_loop cc rib_d Ls out)"

definition keep_growth_touching_rib :: "toolkit \<Rightarrow> u8 image \<Rightarrow> u8 image \<Rightarrow> error + u8 image" where
  "keep_growth_touching_rib tk grow_u8 rib_u8 =
     (if \<not> any_nonzero grow_u8 then Inr grow_u8
      else
        let rib_d = BinaryDilate tk rib_u8 (1, 1, 1)
        in bindE (ConnectedComponent tk grow_u8) (\<lambda>cc.
             keep_loop cc rib_d (GetLabels cc) (zero_mask (geo grow_u8))))"

section \<open>Side selection\<close>

text \<open>The substring test \<^verbatim>\<open>needle in haystack\<close> and \<^verbatim>\<open>os.path.basename\<close>.\<close>

fun str_contains :: "string \<Rightarrow> string \<Rightarrow> bool" where
  "str_contains needle [] = (needle = [])"
| "str_contains needle (c # cs) = (prefix needle (c # cs) \<or> str_contains needle cs)"

definition basename :: "string \<Rightarrow> string" where
  "basename p = rev (takeWhile (\<lambda>c. c \<noteq> CHR ''/'') (rev p))"

record side_cfg =
  active_cutoff :: real
  side_tag :: string
  target_hu_floor :: real

definition side_select :: "string \<Rightarrow> side_cfg" where
  "side_select rib_filename =
     (if str_contains ''rib_right_1'' rib_filename
      then \<lparr>active_cutoff = NBHD_BONE_FRAC_RIGHT_CUTOFF, side_tag = ''Right'',
            target_hu_floor = LOWER_HU_RIGHT_MIN\<rparr>
      else \<lparr>active_cutoff = NBHD_BONE_FRAC_LEFT_CUTOFF, side_tag = ''Left'',
            target_hu_floor = LOWER_PCTL_FLOOR_R\<rparr>)"

section \<open>Repair of one first rib\<close>

text \<open>The files on disk and the lines printed so far.\<close>

datatype event =
  InfoEndpoints string string nat real nat
  | SkipNoCandidates
  | InfoGrowth real nat
  | Saved string
  | ErrorRib string string error

record world =
  files :: "string \<Rightarrow> real image option"
  printed :: "event list"

definition print_ev :: "event \<Rightarrow> world \<Rightarrow> world" where
  "print_ev e w = w\<lparr>printed := printed w @ [e]\<rparr>"

definition read_img :: "world \<Rightarrow> string \<Rightarrow> error + real image" where
  "read_img w p = (case files w p of None \<Rightarrow> Inl (FileNotFound p) | Some img \<Rightarrow> Inr img)"

definition write_img :: "real image \<Rightarrow> string \<Rightarrow> world \<Rightarrow> world" where
  "write_img img p w = w\<lparr>files := (files w)(p \<mapsto> img)\<rparr>"

text \<open>The classification loop: an endpoint is a candidate when \<^verbatim>\<open>frac <= active_cutoff\<close>.\<close>

fun classify_endpoints :: "real image \<Rightarrow> u8 image \<Rightarrow> real \<Rightarrow> pnt list \<Rightarrow> error + (pnt \<times> pyfloat) list" where
  "classify_endpoints ct rib cutoff [] = Inr []"
| "classify_endpoints ct rib cutoff (ep # eps) =
     (case endpoint_is_posterior_missing_tubercle ct rib ep NBHD_RADIUS_MM NBHD_BONE_HU
             POSTERIOR_Y_IDX_MIN_FRAC MIDLINE_X_TOL_MM of
        Inl e \<Rightarrow> Inl e
      | Inr fr \<Rightarrow>
          (case classify_endpoints ct rib cutoff eps of
             Inl e \<Rightarrow> Inl e
           | Inr rest \<Rightarrow> Inr (if frac_le fr cutoff then (ep, fr) # rest else rest)))"

text \<open>The growth loop: corridor, growth, component filter, union. Nothing catches an exception here.\<close>

fun grow_loop ::
  "toolkit \<Rightarrow> real image \<Rightarrow> u8 image \<Rightarrow> u8 image \<Rightarrow> real \<Rightarrow> (pnt \<times> pyfloat) list \<Rightarrow> u8 image
     \<Rightarrow> error + u8 image" where
  "grow_loop tk ct rib spine lower_hu [] grow_union = Inr grow_union"
| "grow_loop tk ct rib spine lower_hu ((ep, fr) # rest) grow_union =
     (case corridor_for_tip tk rib spine ep R_RIB_MM_R R_TIP_MM_R of
        Inl e \<Rightarrow> Inl e
      | Inr corridor \<Rightarrow>
          (case region_grow_local ct [ep] lower_hu UPPER_HU corridor of
             Inl e \<Rightarrow> Inl e
           | Inr growth \<Rightarrow>
               (case keep_growth_touching_rib tk growth rib of
                  Inl e \<Rightarrow> Inl e
                | Inr growth' \<Rightarrow>
                    (case sitk_Or grow_union growth' of
                       Inl e \<Rightarrow> Inl e
                     | Inr grow_union' \<Rightarrow> grow_loop tk ct rib spine lower_hu rest grow_union'))))"

definition repair_first_rib ::
  "toolkit \<Rightarrow> real image \<Rightarrow> string \<Rightarrow> string \<Rightarrow> world \<Rightarrow> (error + unit) \<times> world" where
  "repair_first_rib tk ct rib_path out_path w =
     (case read_img w rib_path of
        Inl e \<Rightarrow> (Inl e, w)
      | Inr rib_raw \<Rightarrow>
     (let rib = to_u8 (resample_like (to_u8 rib_raw) ct)
      in
     (case build_spine_mask tk ct of
        Inl e \<Rightarrow> (Inl e, w)
      | Inr spine \<Rightarrow>
     (let rib_filename = basename rib_path;
          cfg = side_select rib_filename
      in
     (case skeleton tk rib of
        Inl e \<Rightarrow> (Inl e, w)
      | Inr skel \<Rightarrow>
     (let endpoints = endpoints_from_skeleton skel
      in
     (case classify_endpoints ct rib (active_cutoff cfg) endpoints of
        Inl e \<Rightarrow> (Inl e, w)
      | Inr growth_candidates \<Rightarrow>
     (let w1 = print_ev (InfoEndpoints rib_filename (side_tag cfg) (length endpoints)
                  (active_cutoff cfg) (length growth_candidates)) w
      in
      if growth_candidates = []
      then (Inr (), write_img rib_raw out_path (print_ev SkipNoCandidates w1))
      else
     (case stats_percentiles_in_mask tk ct rib [PCTL_ROBUST, 0] of
        Inl e \<Rightarrow> (Inl e, w1)
      | Inr pctls \<Rightarrow>
     (let lower_hu = max (hd pctls) (target_hu_floor cfg);
          w2 = print_ev (InfoGrowth lower_hu (length growth_candidates)) w1
      in
     (case grow_loop tk ct rib spine lower_hu growth_candidates (zero_mask (geo ct)) of
        Inl e \<Rightarrow> (Inl e, w2)
      | Inr grow_union \<Rightarrow>
     (case sitk_Or rib grow_union of
        Inl e \<Rightarrow> (Inl e, w2)
      | Inr pre \<Rightarrow>
     (let refined = BinaryMorphologicalClosing tk pre FINAL_CLOSING;
          refined_out = resample_like refined rib_raw
      in (Inr (), print_ev (Saved out_path) (write_img (of_u8 refined_out) out_path w2)))))))))))))))"

section \<open>Driver: the loop over the rib files of one subject\<close>

text \<open>\<^verbatim>\<open>s.replace(old, "")\<close> for a non-empty \<open>old\<close>, and \<^verbatim>\<open>os.path.join\<close> of two parts.\<close>

fun str_remove :: "string \<Rightarrow> string \<Rightarrow> string" where
  "str_remove old [] = []"
| "str_remove old (c # cs) =
     (if old \<noteq> [] \<and> prefix old (c # cs) then str_remove old (drop (length old - 1) cs)
      else c # str_remove old cs)"

definition path_join :: "string \<Rightarrow> string \<Rightarrow> string" where
  "path_join a b =
     (if prefix ''/'' b then b
      else if a = [] \<or> suffix ''/'' a then a @ b
      else a @ ''/'' @ b)"

definition rib_base :: "string \<Rightarrow> string" where
  "rib_base rib_path = str_remove ''.nii'' (str_remove ''.nii.gz'' (basename rib_path))"

definition rib_out_path :: "string \<Rightarrow> string \<Rightarrow> string \<Rightarrow> string" where
  "rib_out_path out_dir subj rib_path =
     path_join out_dir (subj @ ''_'' @ rib_base rib_path @ ''_postprocessed.nii.gz'')"

text \<open>\<^verbatim>\<open>try: repair_first_rib(...) except Exception as e: print(...)\<close>, for each rib in turn.\<close>

fun rib_loop :: "toolkit \<Rightarrow> real image \<Rightarrow> string \<Rightarrow> string \<Rightarrow> string list \<Rightarrow> world \<Rightarrow> world" where
  "rib_loop tk ct out_dir subj [] w = w"
| "rib_loop tk ct out_dir subj (rib_path # rest) w =
     (case repair_first_rib tk ct rib_path (rib_out_path out_dir subj rib_path) w of
        (Inl e, w') \<Rightarrow> rib_loop tk ct out_dir subj rest (print_ev (ErrorRib subj (rib_base rib_path) e) w')
      | (Inr u, w') \<Rightarrow> rib_loop tk ct out_dir subj rest w')"

definition process_rib_files :: "toolkit \<Rightarrow> real image \<Rightarrow> string \<Rightarrow> string \<Rightarrow> string list \<Rightarrow> world \<Rightarrow> world" where
  "process_rib_files tk ct out_dir subj rib_files w = rib_loop tk ct out_dir subj (sort rib_files) w"

section \<open>File matching\<close>

text \<open>
  Only files whose lower-cased stem matches \<^verbatim>\<open>^rib[-_](left|right)[-_]0?1$\<close> are
  repaired. In Python, \<^verbatim>\<open>$\<close> also matches before a final newline. Characters are bytes
  here, and \<^verbatim>\<open>lower\<close> acts on the ASCII letters.
\<close>

definition lower_char :: "char \<Rightarrow> char" where
  "lower_char c = (if CHR ''A'' \<le> c \<and> c \<le> CHR ''Z'' then char_of (of_char c + (32::nat)) else c)"

definition str_lower :: "string \<Rightarrow> string" where
  "str_lower s = map lower_char s"

definition stem_no_ext :: "string \<Rightarrow> string" where
  "stem_no_ext filename =
     (let f = str_lower filename
      in if suffix ''.nii.gz'' f then take (length f - 7) f
         else if suffix ''.nii'' f then take (length f - 4) f
         else f)"

definition STEM_RE_match :: "string \<Rightarrow> bool" where
  "STEM_RE_match s \<longleftrightarrow>
     str_lower s \<in> set (concat (map (\<lambda>a. concat (map (\<lambda>sd. concat (map (\<lambda>b. concat (map (\<lambda>z.
        map (\<lambda>nl. ''rib'' @ a @ sd @ b @ z @ ''1'' @ nl) ['''', [CHR 0x0A]])
        ['''', ''0''])) [''-'', ''_''])) [''left'', ''right''])) [''-'', ''_'']))"

definition is_first_rib_file :: "string \<Rightarrow> bool" where
  "is_first_rib_file f =
     (let lf = str_lower f
      in (suffix ''.nii'' lf \<or> suffix ''.nii.gz'' lf) \<and> STEM_RE_match (stem_no_ext lf))"

section \<open>Synthetic volumes\<close>

text \<open>
  Small volumes on which the classifier is evaluated: a column of three voxels of dense
  bone, and a column of fifty voxels, 0.25 mm apart along y, with a single dense voxel.
\<close>

definition line_geom :: geom where
  "line_geom = \<lparr>gsize = (1, 3, 1), gspacing = (1, 1, 1), gorigin = (0, 0, 0)\<rparr>"
definition dense_ct :: "real image" where
  "dense_ct = \<lparr>geo = line_geom, vox = (\<lambda>i. 700)\<rparr>"

definition fine_geom :: geom where
  "fine_geom = \<lparr>gsize = (1, 50, 1), gspacing = (1, 1 / 4, 1), gorigin = (0, 0, 0)\<rparr>"
definition speck_ct :: "real image" where
  "speck_ct = \<lparr>geo = fine_geom, vox = (\<lambda>i. if i = (0, 10, 0) then 700 else 300)\<rparr>"

section \<open>A reference toolkit\<close>

text \<open>
  An instance of the toolkit on which the model can be run. The distance is the Euclidean
  distance in millimetres to the nearest voxel of the mask (zero on the mask), a component
  is labelled after the position of its first voxel, the ball is the ellipsoid whose
  semi-axes are the radii plus one half, and the percentile interpolates linearly between
  the two nearest ranks.
\<close>

definition euclid_mm :: "geom \<Rightarrow> idx \<Rightarrow> idx \<Rightarrow> real" where
  "euclid_mm g i j =
     sqrt ((c0 (gspacing g) * of_int (c0 i - c0 j))\<^sup>2 + (c1 (gspacing g) * of_int (c1 i - c1 j))\<^sup>2
           + (c2 (gspacing g) * of_int (c2 i - c2 j))\<^sup>2)"

definition nearest_mm :: "u8 image \<Rightarrow> idx \<Rightarrow> real" where
  "nearest_mm m i =
     (let ds = map (euclid_mm (geo m) i) (filter (\<lambda>j. vox m j \<noteq> 0) (indices (geo m)))
      in if ds = [] then 1000000 else fold min (tl ds) (hd ds))"

definition component_of :: "u8 image \<Rightarrow> idx \<Rightarrow> idx set" where
  "component_of m i =
     (flood_step (geo m) (\<lambda>v. vox m v \<noteq> 0) ^^ length (indices (geo m))) {i}"

definition component_label :: "u8 image \<Rightarrow> idx \<Rightarrow> nat" where
  "component_label m i =
     (if vox m i = 0 then 0
      else 1 + length (takeWhile (\<lambda>v. v \<notin> component_of m i) (indices (geo m))))"

definition ellipsoid :: "nat \<times> nat \<times> nat \<Rightarrow> idx list" where
  "ellipsoid rad =
     (let ax = 2 * int (c0 rad) + 1; ay = 2 * int (c1 rad) + 1; az = 2 * int (c2 rad) + 1
      in filter (\<lambda>d. (2 * c0 d * ay * az)\<^sup>2 + (2 * c1 d * ax * az)\<^sup>2 + (2 * c2 d * ax * ay)\<^sup>2
                      \<le> (ax * ay * az)\<^sup>2)
           (concat (map (\<lambda>dz. concat (map (\<lambda>dy. map (\<lambda>dx. (dx, dy, dz))
              [- int (c0 rad) .. int (c0 rad)]) [- int (c1 rad) .. int (c1 rad)]))
              [- int (c2 rad) .. int (c2 rad)])))"

definition linear_percentile :: "real list \<Rightarrow> real \<Rightarrow> real" where
  "linear_percentile hu q =
     (let s = sort hu; n = length s;
          pos = q / 100 * real (n - 1);
          lo = nat \<lfloor>pos\<rfloor>; hi = min (lo + 1) (n - 1);
          g = pos - real lo
      in s ! lo + g * (s ! hi - s ! lo))"

text \<open>
  Thinning is done for masks that are thin already. The thinning filter works slice by
  slice and removes a foreground voxel only if, among its eight neighbours in the slice
  (read with the edge-replicating boundary: a neighbour outside the grid has the value of
  the nearest voxel of the grid), between two and six are foreground and, going round
  them, the value changes from background to foreground exactly once. A mask none of
  whose voxels qualifies is returned as it is, with the value 1 on its foreground; the
  reference toolkit raises for any other mask.
\<close>

definition clamp_idx :: "geom \<Rightarrow> idx \<Rightarrow> idx" where
  "clamp_idx g i =
     (max 0 (min (int (c0 (gsize g)) - 1) (c0 i)),
      max 0 (min (int (c1 (gsize g)) - 1) (c1 i)),
      max 0 (min (int (c2 (gsize g)) - 1) (c2 i)))"

definition ring8 :: "idx list" where
  "ring8 = [(0, - 1, 0), (1, - 1, 0), (1, 0, 0), (1, 1, 0), (0, 1, 0), (- 1, 1, 0), (- 1, 0, 0), (- 1, - 1, 0)]"

definition ring_values :: "u8 image \<Rightarrow> idx \<Rightarrow> bool list" where
  "ring_values m i = map (\<lambda>d. vox m (clamp_idx (geo m) (idx_add i d)) \<noteq> 0) ring8"

definition transitions :: "bool list \<Rightarrow> nat" where
  "transitions bs = length (filter (\<lambda>p. \<not> fst p \<and> snd p) (zip (last bs # butlast bs) bs))"

definition thinning_candidate :: "u8 image \<Rightarrow> idx \<Rightarrow> bool" where
  "thinning_candidate m i \<longleftrightarrow>
     vox m i \<noteq> 0 \<and>
     (let bs = ring_values m i; n = length (filter (\<lambda>b. b) bs)
      in 2 \<le> n \<and> n \<le> 6 \<and> transitions bs = 1)"

definition thin_line_thinning :: "u8 image \<Rightarrow> error + (idx \<Rightarrow> u8)" where
  "thin_line_thinning m =
     (if list_ex (thinning_candidate m) (indices (geo m)) then Inl (ToolkitFailure ''BinaryThinning'')
      else Inr (\<lambda>i. if vox m i \<noteq> 0 then 1 else 0))"

definition reference_toolkit :: toolkit where
  "reference_toolkit =
     \<lparr>thinning_vox = thin_line_thinning,
      distance_vox = (\<lambda>m. Inr (nearest_mm m)),
      component_vox = (\<lambda>m. Inr (component_label m)),
      ball = ellipsoid,
      np_percentile = linear_percentile\<rparr>"

text \<open>
  A rod of two voxels in the middle column of a slice of 3x6 voxels, 7 mm apart, of
  intensity 300 HU; its posterior end is the voxel \<open>(1, 4, 0)\<close>, and the voxel behind it is
  missing.
\<close>

definition rod_geom :: geom where
  "rod_geom = \<lparr>gsize = (3, 6, 1), gspacing = (7, 7, 7), gorigin = (0, 0, 0)\<rparr>"

definition rod_ct :: "real image" where
  "rod_ct = \<lparr>geo = rod_geom, vox = (\<lambda>i. 300)\<rparr>"

definition rod_mask :: "real image" where
  "rod_mask = \<lparr>geo = rod_geom, vox = (\<lambda>i. if i = (1, 3, 0) \<or> i = (1, 4, 0) then 1 else 0)\<rparr>"

definition rod_rib :: "u8 image" where
  "rod_rib = to_u8 (resample_like (to_u8 rod_mask) rod_ct)"

text \<open>A toolkit whose distance map and labelling never raise, and a grid with no zero spacing.\<close>

definition toolkit_total :: "toolkit \<Rightarrow> bool" where
  "toolkit_total tk \<longleftrightarrow>
     (\<forall>m. \<exists>f. distance_vox tk m = Inr f) \<and>
     (\<forall>m. \<exists>f. component_vox tk m = Inr f)"

definition nonzero_spacing :: "geom \<Rightarrow> bool" where
  "nonzero_spacing g \<longleftrightarrow> c0 (gspacing g) \<noteq> 0 \<and> c1 (gspacing g) \<noteq> 0 \<and> c2 (gspacing g) \<noteq> 0"

definition rod_world :: world where
  "rod_world = \<lparr>files = [''/in/rib_left_1.nii.gz'' \<mapsto> rod_mask], printed = []\<rparr>"

text \<open>
  A grown mask on the grid of the rod: two voxels behind the rod, and a blob in a front
  corner, detached from the rest. A second world holds the rod as a right first rib.
\<close>

definition rod_world_right :: world where
  "rod_world_right = \<lparr>files = [''/in/rib_right_1.nii.gz'' \<mapsto> rod_mask], printed = []\<rparr>"


definition blob_grow :: "u8 image" where
  "blob_grow = \<lparr>geo = rod_geom,
                 vox = (\<lambda>i. if i = (0, 0, 0) \<or> i = (1, 4, 0) \<or> i = (1, 5, 0) then 1 else 0)\<rparr>"

text \<open>The rod in dense bone: every voxel of the CT at 700 HU.\<close>

definition dense_rod_ct :: "real image" where
  "dense_rod_ct = \<lparr>geo = rod_geom, vox = (\<lambda>i. 700)\<rparr>"

text \<open>
  A rib file whose grid has one row more along y than the CT of the rod, with a voxel of
  that last row in the mask.
\<close>

definition long_geom :: geom where
  "long_geom = \<lparr>gsize = (3, 7, 1), gspacing = (7, 7, 7), gorigin = (0, 0, 0)\<rparr>"

definition long_mask :: "real image" where
  "long_mask = \<lparr>geo = long_geom,
                 vox = (\<lambda>i. if i = (1, 3, 0) \<or> i = (1, 4, 0) \<or> i = (1, 6, 0) then 1 else 0)\<rparr>"


definition long_rib :: "u8 image" where
  "long_rib = to_u8 (resample_like (to_u8 long_mask) rod_ct)"

text \<open>
  A bar of five voxels along x in the row \<open>y = 4\<close> of a slice of 7x6 voxels, 7 mm apart,
  away from the border: both ends are posterior and near the midline. The fragile toolkit
  is the reference toolkit, except that its distance map raises.
\<close>

definition bar_geom :: geom where
  "bar_geom = \<lparr>gsize = (7, 6, 1), gspacing = (7, 7, 7), gorigin = (0, 0, 0)\<rparr>"

definition bar_ct :: "real image" where
  "bar_ct = \<lparr>geo = bar_geom, vox = (\<lambda>i. 300)\<rparr>"

definition bar_mask :: "real image" where
  "bar_mask = \<lparr>geo = bar_geom,
                vox = (\<lambda>i. if c1 i = 4 \<and> c2 i = 0 \<and> 1 \<le> c0 i \<and> c0 i \<le> 5 then 1 else 0)\<rparr>"

definition bar_rib :: "u8 image" where
  "bar_rib = to_u8 (resample_like (to_u8 bar_mask) bar_ct)"

definition bar_world :: world where
  "bar_world = \<lparr>files = [''/in/rib_left_1.nii.gz'' \<mapsto> bar_mask], printed = []\<rparr>"

definition fragile_toolkit :: toolkit where
  "fragile_toolkit =
     reference_toolkit\<lparr>distance_vox := (\<lambda>m. Inl (ToolkitFailure ''SignedMaurerDistanceMap''))\<rparr>"

section \<open>Notions used to state the properties\<close>



text \<open>The three calls of the growth loop for one endpoint: corridor, growth, component filter.\<close>

definition endpoint_growth ::
  "toolkit \<Rightarrow> real image \<Rightarrow> u8 image \<Rightarrow> u8 image \<Rightarrow> real \<Rightarrow> pnt \<Rightarrow> error + u8 image" where
  "endpoint_growth tk ct rib spine lower_hu ep =
     bindE (corridor_for_tip tk rib spine ep R_RIB_MM_R R_TIP_MM_R) (\<lambda>corridor.
     bindE (region_grow_local ct [ep] lower_hu UPPER_HU corridor) (\<lambda>growth.
     keep_growth_touching_rib tk growth rib))"

section \<open>Basic facts\<close>

lemma bindE_Inl: "bindE (Inl e) f = Inl e"
  by (simp add: bindE_def)

lemma bindE_Inr: "bindE (Inr x) f = f x"
  by (simp add: bindE_def)

lemma bindE_eq_Inr: "bindE m f = Inr y \<longleftrightarrow> (\<exists>x. m = Inr x \<and> f x = Inr y)"
  by (cases m) (simp_all add: bindE_def)

lemma bindE_eq_Inl: "bindE m f = Inl e \<longleftrightarrow> m = Inl e \<or> (\<exists>x. m = Inr x \<and> f x = Inl e)"
  by (cases m) (simp_all add: bindE_def)

lemma set_indices: "set (indices g) = {i. inside g i}"
  by (auto simp: indices_def inside_def image_iff)

lemma concat_map_product:
  "concat (map (\<lambda>a. map (\<lambda>b. f a b) ys) xs) = map (\<lambda>(a, b). f a b) (List.product xs ys)"
  by (induction xs) (simp_all)

lemma indices_product:
  "indices g = map (\<lambda>(z, y, x). (x, y, z))
     (List.product [0 .. int (c2 (gsize g)) - 1]
        (List.product [0 .. int (c1 (gsize g)) - 1] [0 .. int (c0 (gsize g)) - 1]))"
proof -
  have inner: "\<And>z. concat (map (\<lambda>y. map (\<lambda>x. (x, y, z)) [0 .. int (c0 (gsize g)) - 1])
                  [0 .. int (c1 (gsize g)) - 1])
        = map (\<lambda>(y, x). (x, y, z))
            (List.product [0 .. int (c1 (gsize g)) - 1] [0 .. int (c0 (gsize g)) - 1])"
    by (rule concat_map_product)
  show ?thesis
    unfolding indices_def inner
    by (simp add: concat_map_product [where f = "\<lambda>z p. (case p of (y, x) \<Rightarrow> (x, y, z))"]
        case_prod_beta)
qed

lemma distinct_indices: "distinct (indices g)"
  unfolding indices_product
  by (auto simp: distinct_map distinct_product inj_on_def)

section \<open>Floating-point facts\<close>

lemma fl64_zero [simp]: "fl64 0 = 0"
  by (simp add: fl64_def)

lemma fl64_one [simp]: "fl64 1 = 1"
  by code_simp

lemma cutoff_values:
  "NBHD_BONE_FRAC_LEFT_CUTOFF = 3602879701896397 / 72057594037927936"
  "NBHD_BONE_FRAC_RIGHT_CUTOFF = 5764607523034235 / 1152921504606846976"
  unfolding NBHD_BONE_FRAC_LEFT_CUTOFF_def NBHD_BONE_FRAC_RIGHT_CUTOFF_def by code_simp+

lemma fraction_002:
  "fl64 (2 / 100) \<le> NBHD_BONE_FRAC_LEFT_CUTOFF"
  "\<not> fl64 (2 / 100) \<le> NBHD_BONE_FRAC_RIGHT_CUTOFF"
  unfolding NBHD_BONE_FRAC_LEFT_CUTOFF_def NBHD_BONE_FRAC_RIGHT_CUTOFF_def by code_simp+

lemma py_round_of_int [simp]: "py_round (of_int n) = n"
  by (simp add: py_round_def)

lemma py_round_numeral [simp]: "py_round (numeral n) = numeral n"
  using py_round_of_int [of "numeral n"] by simp

section \<open>Endpoint classification\<close>

lemma classifier_gate_fail:
  "\<not> (is_posterior_y ct ep yf \<and> is_near_midline_x ct ep xt) \<Longrightarrow>
   endpoint_is_posterior_missing_tubercle ct rib ep nb hu yf xt = Inr (Num 1)"
  by (simp add: endpoint_is_posterior_missing_tubercle_def Let_def)

lemma classify_endpoints_set:
  "classify_endpoints ct rib cutoff eps = Inr cands \<Longrightarrow>
   set cands = {(ep, fr). ep \<in> set eps \<and>
      endpoint_is_posterior_missing_tubercle ct rib ep NBHD_RADIUS_MM NBHD_BONE_HU
        POSTERIOR_Y_IDX_MIN_FRAC MIDLINE_X_TOL_MM = Inr fr \<and> frac_le fr cutoff}"
proof (induction eps arbitrary: cands)
  case Nil
  then show ?case by simp
next
  case (Cons ep eps)
  then show ?case
    by (auto split: sum.splits if_splits)
qed

lemma classify_endpoints_total:
  "classify_endpoints ct rib cutoff eps = Inr cands \<Longrightarrow> ep \<in> set eps \<Longrightarrow>
   \<exists>fr. endpoint_is_posterior_missing_tubercle ct rib ep NBHD_RADIUS_MM NBHD_BONE_HU
        POSTERIOR_Y_IDX_MIN_FRAC MIDLINE_X_TOL_MM = Inr fr"
proof (induction eps arbitrary: cands)
  case Nil
  then show ?case by simp
next
  case (Cons a eps)
  then show ?case
    by (auto split: sum.splits if_splits)
qed

lemma cutoff_below_one: "active_cutoff (side_select name) < 1"
  by (simp add: side_select_def cutoff_values)

text \<open>
  Claim C4, as amended. An endpoint that fails the anatomical gate gets the value 1.0, the
  same value as a neighbourhood made of dense non-rib bone only; the value exceeds both
  cutoffs, so the endpoint is never a growth candidate, whatever the file name.
\<close>

theorem ineligible_endpoint_returns_one:
  assumes "\<not> (is_posterior_y ct ep POSTERIOR_Y_IDX_MIN_FRAC \<and> is_near_midline_x ct ep MIDLINE_X_TOL_MM)"
  shows "endpoint_is_posterior_missing_tubercle ct rib ep NBHD_RADIUS_MM NBHD_BONE_HU
           POSTERIOR_Y_IDX_MIN_FRAC MIDLINE_X_TOL_MM = Inr (Num 1) \<and>
         (\<forall>name eps cands.
            classify_endpoints ct rib (active_cutoff (side_select name)) eps = Inr cands \<longrightarrow>
            ep \<notin> fst ` set cands)"
proof -
  have one: "endpoint_is_posterior_missing_tubercle ct rib ep NBHD_RADIUS_MM NBHD_BONE_HU
           POSTERIOR_Y_IDX_MIN_FRAC MIDLINE_X_TOL_MM = Inr (Num 1)"
    using assms by (rule classifier_gate_fail)
  have "ep \<notin> fst ` set cands"
    if "classify_endpoints ct rib (active_cutoff (side_select name)) eps = Inr cands"
    for name eps cands
    using classify_endpoints_set [OF that] one cutoff_below_one [of name] by auto
  with one show ?thesis by blast
qed

lemma line_eval:
  "\<not> is_posterior_y dense_ct (0, 0, 0) POSTERIOR_Y_IDX_MIN_FRAC"
  "is_posterior_y dense_ct (0, 2, 0) POSTERIOR_Y_IDX_MIN_FRAC"
  "is_near_midline_x dense_ct (0, 2, 0) MIDLINE_X_TOL_MM"
  by code_simp+

text \<open>
  The outcome of an endpoint that fails the gate is not distinct from a contamination
  value: in a column of dense bone, the anterior end (gate failed) and the posterior end
  (gate passed, every inspected voxel dense) both yield 1.0.
\<close>

theorem sentinel_conflated_counterexample:
  "\<not> (is_posterior_y dense_ct (0, 0, 0) POSTERIOR_Y_IDX_MIN_FRAC \<and>
       is_near_midline_x dense_ct (0, 0, 0) MIDLINE_X_TOL_MM) \<and>
   is_posterior_y dense_ct (0, 2, 0) POSTERIOR_Y_IDX_MIN_FRAC \<and>
   is_near_midline_x dense_ct (0, 2, 0) MIDLINE_X_TOL_MM \<and>
   endpoint_is_posterior_missing_tubercle dense_ct (zero_mask line_geom) (0, 0, 0)
     NBHD_RADIUS_MM NBHD_BONE_HU POSTERIOR_Y_IDX_MIN_FRAC MIDLINE_X_TOL_MM = Inr (Num 1) \<and>
   endpoint_is_posterior_missing_tubercle dense_ct (zero_mask line_geom) (0, 2, 0)
     NBHD_RADIUS_MM NBHD_BONE_HU POSTERIOR_Y_IDX_MIN_FRAC MIDLINE_X_TOL_MM = Inr (Num 1)"
  by code_simp

lemma classifier_eligible:
  assumes "is_posterior_y ct ep yf" "is_near_midline_x ct ep xt"
    and "endpoint_is_posterior_missing_tubercle ct rib ep nb hu yf xt = Inr fr"
  shows "fr = mean_bool (map (\<lambda>i. hu \<le> vox ct i \<and> vox rib i = 0) (nbhd_roi ct ep nb))"
  using assms
  by (simp add: endpoint_is_posterior_missing_tubercle_def Let_def split: if_splits)


text \<open>
  Claim C6. An endpoint that passes the anatomical gate is a growth candidate exactly when
  the fraction of dense non-rib voxels in its neighbourhood is at most the cutoff of the
  side; the fraction 0.02 is accepted by the left cutoff 0.05 and rejected by the right
  cutoff 0.005. The gate is the one the program computes in floating point, and the
  fraction and the cutoffs are the floats of the program.
\<close>

theorem acceptance_iff_fraction_within_cutoff:
  assumes "is_posterior_y ct ep POSTERIOR_Y_IDX_MIN_FRAC"
    and "is_near_midline_x ct ep MIDLINE_X_TOL_MM"
    and "classify_endpoints ct rib (active_cutoff (side_select name)) eps = Inr cands"
    and "ep \<in> set eps"
  shows "(ep \<in> fst ` set cands \<longleftrightarrow>
          frac_le (mean_bool (map (\<lambda>i. NBHD_BONE_HU \<le> vox ct i \<and> vox rib i = 0)
                                 (nbhd_roi ct ep NBHD_RADIUS_MM)))
                  (active_cutoff (side_select name))) \<and>
         frac_le (Num (fl64 (2 / 100))) NBHD_BONE_FRAC_LEFT_CUTOFF \<and>
         \<not> frac_le (Num (fl64 (2 / 100))) NBHD_BONE_FRAC_RIGHT_CUTOFF"
proof -
  obtain fr where fr: "endpoint_is_posterior_missing_tubercle ct rib ep NBHD_RADIUS_MM NBHD_BONE_HU
        POSTERIOR_Y_IDX_MIN_FRAC MIDLINE_X_TOL_MM = Inr fr"
    using classify_endpoints_total [OF assms(3,4)] by blast
  have eq: "fr = mean_bool (map (\<lambda>i. NBHD_BONE_HU \<le> vox ct i \<and> vox rib i = 0)
                                 (nbhd_roi ct ep NBHD_RADIUS_MM))"
    by (rule classifier_eligible [OF assms(1,2) fr])
  have "ep \<in> fst ` set cands \<longleftrightarrow> frac_le fr (active_cutoff (side_select name))"
    using classify_endpoints_set [OF assms(3)] fr assms(4) by force
  then show ?thesis
    using fraction_002 by (simp add: eq)
qed

lemma speck_gate:
  "is_posterior_y speck_ct (0, 12, 0) POSTERIOR_Y_IDX_MIN_FRAC"
  "is_near_midline_x speck_ct (0, 12, 0) MIDLINE_X_TOL_MM"
  by code_simp+

lemma speck_fraction:
  "endpoint_is_posterior_missing_tubercle speck_ct (zero_mask fine_geom) (0, 12, 0)
     NBHD_RADIUS_MM NBHD_BONE_HU POSTERIOR_Y_IDX_MIN_FRAC MIDLINE_X_TOL_MM
   = Inr (Num (fl64 (2 / 100)))"
  by code_simp

theorem side_asymmetry_witness:
  "classify_endpoints speck_ct (zero_mask fine_geom)
      (active_cutoff (side_select ''rib_left_1.nii.gz'')) [(0, 12, 0)]
     = Inr [((0, 12, 0), Num (fl64 (2 / 100)))] \<and>
   classify_endpoints speck_ct (zero_mask fine_geom)
      (active_cutoff (side_select ''rib_right_1.nii.gz'')) [(0, 12, 0)] = Inr [] \<and>
   frac_le (mean_bool (map (\<lambda>i. NBHD_BONE_HU \<le> vox speck_ct i \<and> vox (zero_mask fine_geom) i = 0)
                                 (nbhd_roi speck_ct (0, 12, 0) NBHD_RADIUS_MM)))
                  (active_cutoff (side_select ''rib_left_1.nii.gz''))"
proof -
  have c: "classify_endpoints speck_ct (zero_mask fine_geom)
      (active_cutoff (side_select ''rib_left_1.nii.gz'')) [(0, 12, 0)]
     = Inr [((0, 12, 0), Num (fl64 (2 / 100)))]"
    using fraction_002 by (simp add: speck_fraction side_select_def)
  have d: "classify_endpoints speck_ct (zero_mask fine_geom)
      (active_cutoff (side_select ''rib_right_1.nii.gz'')) [(0, 12, 0)] = Inr []"
    using fraction_002 by (simp add: speck_fraction side_select_def)
  have m: "(0, 12, 0) \<in> set [(0::real, 12::real, 0::real)]" by simp
  from acceptance_iff_fraction_within_cutoff [OF speck_gate c m] c d show ?thesis
    by (simp del: fl64_zero)
qed

theorem ineligible_endpoint_witness:
  "endpoint_is_posterior_missing_tubercle dense_ct (zero_mask line_geom) (0, 0, 0)
     NBHD_RADIUS_MM NBHD_BONE_HU POSTERIOR_Y_IDX_MIN_FRAC MIDLINE_X_TOL_MM = Inr (Num 1) \<and>
   classify_endpoints dense_ct (zero_mask line_geom)
      (active_cutoff (side_select ''rib_left_1.nii.gz'')) [(0, 0, 0)] = Inr [] \<and>
   (0, 0, 0) \<notin> fst ` set ([] :: (pnt \<times> pyfloat) list)"
proof -
  have g: "\<not> (is_posterior_y dense_ct (0, 0, 0) POSTERIOR_Y_IDX_MIN_FRAC \<and>
       is_near_midline_x dense_ct (0, 0, 0) MIDLINE_X_TOL_MM)"
    using line_eval(1) by simp
  note t = ineligible_endpoint_returns_one [OF g, of "zero_mask line_geom"]
  have "classify_endpoints dense_ct (zero_mask line_geom)
      (active_cutoff (side_select ''rib_left_1.nii.gz'')) [(0, 0, 0)] = Inr []"
    using t by (simp add: side_select_def cutoff_values)
  with t show ?thesis by simp
qed

section \<open>Geometry of the results, region growing and the corridor\<close>

lemma geo_simps [simp]:
  "geo (to_u8 m) = geo m"
  "geo (of_u8 m') = geo m'"
  "geo (resample_like a b) = geo b"
  "geo (zero_mask g) = g"
  "geo (img_ge r c) = geo r"
  "geo (img_le r c) = geo r"
  "geo (BinaryThreshold n lo hi iv ov) = geo n"
  "geo (BinaryDilate tk m' rad) = geo m'"
  "geo (BinaryMorphologicalClosing tk m' rad) = geo m'"
  "geo (ConnectedThreshold r seeds l u) = geo r"
  by (simp_all add: to_u8_def of_u8_def resample_like_def zero_mask_def img_ge_def img_le_def
      BinaryThreshold_def BinaryDilate_def BinaryMorphologicalClosing_def ConnectedThreshold_def Let_def)

lemma geo_seed_image [simp]: "geo (seed_image m ep) = geo m"
  by (simp add: seed_image_def Let_def)

lemma geo_endpoint_sphere [simp]: "geo (endpoint_sphere tk m ep r) = geo m"
  by (simp add: endpoint_sphere_def)

lemma sitk_And_Inr: "sitk_And a b = Inr c \<longleftrightarrow> geo a = geo b \<and> c = \<lparr>geo = geo a, vox = (\<lambda>i. vox a i AND vox b i)\<rparr>"
  by (auto simp: sitk_And_def)

lemma sitk_Or_Inr: "sitk_Or a b = Inr c \<longleftrightarrow> geo a = geo b \<and> c = \<lparr>geo = geo a, vox = (\<lambda>i. vox a i OR vox b i)\<rparr>"
  by (auto simp: sitk_Or_def)

lemma sitk_Mask_Inr:
  "sitk_Mask img m v = Inr c \<longleftrightarrow>
     geo img = geo m \<and> c = \<lparr>geo = geo img, vox = (\<lambda>i. if vox m i \<noteq> 0 then vox img i else v)\<rparr>"
  by (auto simp: sitk_Mask_def)

lemma dist_map_mm_Inr: "dist_map_mm tk m = Inr d \<Longrightarrow> geo d = geo m"
  by (auto simp: dist_map_mm_def bindE_def split: sum.splits)

lemma ConnectedComponent_Inr: "ConnectedComponent tk m = Inr cc \<Longrightarrow> geo cc = geo m"
  by (auto simp: ConnectedComponent_def bindE_def split: sum.splits)

lemma skeleton_Inr: "skeleton tk m = Inr sk \<Longrightarrow> geo sk = geo m"
  by (auto simp: skeleton_def bindE_def split: sum.splits)

lemma skeleton_sub: "skeleton tk m = Inr sk \<Longrightarrow> vox sk i \<noteq> 0 \<Longrightarrow> vox m i \<noteq> 0"
  by (auto simp: skeleton_def bindE_eq_Inr split: if_splits)

lemma skeleton_values: "skeleton tk m = Inr sk \<Longrightarrow> vox sk i = 0 \<or> vox sk i = 1"
  by (auto simp: skeleton_def bindE_eq_Inr split: if_splits)

lemma word_and_nonzero: "(a::u8) AND b \<noteq> 0 \<Longrightarrow> a \<noteq> 0 \<and> b \<noteq> 0"
  by auto

lemma flood_step_subset:
  "S \<subseteq> {v. inside g v \<and> ok v} \<Longrightarrow> flood_step g ok S \<subseteq> {v. inside g v \<and> ok v}"
  by (auto simp: flood_step_def set_indices)

lemma flood_funpow_subset:
  "S \<subseteq> {v. inside g v \<and> ok v} \<Longrightarrow> (flood_step g ok ^^ n) S \<subseteq> {v. inside g v \<and> ok v}"
  by (induction n) (auto dest: flood_step_subset [THEN subsetD, rotated])

lemma ConnectedThreshold_in_range:
  assumes "vox (ConnectedThreshold img seeds lo hi) i \<noteq> 0"
  shows "inside (geo img) i \<and> lo \<le> vox img i \<and> vox img i \<le> hi"
proof -
  let ?ok = "\<lambda>v. lo \<le> vox img v \<and> vox img v \<le> hi"
  let ?S0 = "Set.filter (\<lambda>v. v \<in> set seeds \<and> ?ok v) (set (indices (geo img)))"
  have "?S0 \<subseteq> {v. inside (geo img) v \<and> ?ok v}"
    by (auto simp: set_indices)
  then have "(flood_step (geo img) ?ok ^^ length (indices (geo img))) ?S0
      \<subseteq> {v. inside (geo img) v \<and> ?ok v}"
    by (rule flood_funpow_subset)
  moreover have "i \<in> (flood_step (geo img) ?ok ^^ length (indices (geo img))) ?S0"
    using assms by (simp add: ConnectedThreshold_def Let_def split: if_splits)
  ultimately show ?thesis by blast
qed

lemma region_grow_local_masked:
  assumes "region_grow_local ct seeds lo hi corridor = Inr growth" and "vox growth i \<noteq> 0"
  shows "geo growth = geo ct \<and> geo corridor = geo ct \<and> inside (geo ct) i \<and>
         lo \<le> (if vox corridor i \<noteq> 0 then vox ct i else - 2000) \<and>
         (if vox corridor i \<noteq> 0 then vox ct i else - 2000) \<le> hi"
proof (cases "seeds = []")
  case True
  with assms show ?thesis by (auto simp: region_grow_local_def zero_mask_def)
next
  case False
  with assms(1) obtain m where m: "sitk_Mask ct corridor (- 2000) = Inr m"
    and g: "growth = to_u8 (ConnectedThreshold m (map (TransformPhysicalPointToIndex (geo ct)) seeds) lo hi)"
    by (auto simp: region_grow_local_def bindE_eq_Inr Let_def)
  from assms(2) g have "vox (ConnectedThreshold m (map (TransformPhysicalPointToIndex (geo ct)) seeds) lo hi) i \<noteq> 0"
    by (auto simp: to_u8_def split: if_splits)
  from ConnectedThreshold_in_range [OF this] m g show ?thesis
    by (auto simp: sitk_Mask_Inr)
qed

lemma corridor_for_tip_voxel:
  assumes "corridor_for_tip tk rib spine ep r_rib r_tip = Inr corridor" and "vox corridor i \<noteq> 0"
  shows "geo corridor = geo rib \<and>
         (\<exists>d_rib. dist_map_mm tk rib = Inr d_rib \<and> vox d_rib i \<le> r_rib) \<and>
         vox (endpoint_sphere tk rib ep r_tip) i \<noteq> 0 \<and>
         (any_nonzero spine \<longrightarrow> (\<exists>d_spine. dist_map_mm tk spine = Inr d_spine \<and> SPINE_CLEAR_MM \<le> vox d_spine i))"
proof -
  from assms(1) obtain d_rib cor where d: "dist_map_mm tk rib = Inr d_rib"
    and cor: "sitk_And (to_u8 (img_le d_rib r_rib)) (endpoint_sphere tk rib ep r_tip) = Inr cor"
    and fin: "(if any_nonzero spine
               then bindE (dist_map_mm tk spine) (\<lambda>d_spine. sitk_And cor (to_u8 (img_ge d_spine SPINE_CLEAR_MM)))
               else Inr cor) = Inr corridor"
    by (auto simp: corridor_for_tip_def bindE_eq_Inr Let_def split: if_splits)
  have gd: "geo d_rib = geo rib" using d by (rule dist_map_mm_Inr)
  have gcor: "geo cor = geo rib" using cor gd by (auto simp: sitk_And_Inr)
  have sub: "vox corridor i \<noteq> 0 \<Longrightarrow> vox cor i \<noteq> 0" and gc: "geo corridor = geo cor"
    and sp: "any_nonzero spine \<longrightarrow> (\<exists>d_spine. dist_map_mm tk spine = Inr d_spine \<and> SPINE_CLEAR_MM \<le> vox d_spine i)"
    using fin assms(2)
    by (auto simp: bindE_eq_Inr sitk_And_Inr to_u8_def img_ge_def split: if_splits dest: word_and_nonzero)
  from sub [OF assms(2)] cor have "vox d_rib i \<le> r_rib \<and> vox (endpoint_sphere tk rib ep r_tip) i \<noteq> 0"
    by (auto simp: sitk_And_Inr to_u8_def img_le_def split: if_splits)
  with d gc gcor sp show ?thesis by auto
qed

lemma floor_ge_200: "200 \<le> target_hu_floor (side_select name)"
  by (simp add: side_select_def LOWER_HU_RIGHT_MIN_def LOWER_PCTL_FLOOR_R_def)

lemma growth_voxel_in_corridor:
  assumes "corridor_for_tip tk rib spine ep R_RIB_MM_R R_TIP_MM_R = Inr corridor"
    and "region_grow_local ct [ep] (max pctl (target_hu_floor (side_select name))) UPPER_HU corridor
           = Inr growth"
    and "i \<in> fg growth"
  shows "i \<in> fg corridor \<and>
         (\<exists>d_rib. dist_map_mm tk rib = Inr d_rib \<and> vox d_rib i \<le> R_RIB_MM_R) \<and>
         i \<in> fg (endpoint_sphere tk rib ep R_TIP_MM_R) \<and>
         (any_nonzero spine \<longrightarrow>
            (\<exists>d_spine. dist_map_mm tk spine = Inr d_spine \<and> SPINE_CLEAR_MM \<le> vox d_spine i))"
proof -
  from assms(3) have nz: "vox growth i \<noteq> 0" by (simp add: fg_def)
  note m = region_grow_local_masked [OF assms(2) nz]
  have "- 2000 < max pctl (target_hu_floor (side_select name))"
    using floor_ge_200 [of name] by simp
  with m have c: "vox corridor i \<noteq> 0" by (auto split: if_splits)
  note k = corridor_for_tip_voxel [OF assms(1) c]
  from m k c show ?thesis by (auto simp: fg_def)
qed


lemma stats_percentiles_nonempty:
  assumes "fg rib \<noteq> {}" and "stats_percentiles_in_mask tk ct rib pcts = Inr ps"
  shows "ps = map (np_percentile tk (map (vox ct) (filter (\<lambda>i. 0 < vox rib i) (indices (geo rib))))) pcts"
proof -
  from assms(1) obtain i where "inside (geo rib) i" "vox rib i \<noteq> 0"
    by (auto simp: fg_def)
  then have "i \<in> set (filter (\<lambda>i. 0 < vox rib i) (indices (geo rib)))"
    by (simp add: set_indices word_neq_0_conv)
  then have "filter (\<lambda>i. 0 < vox rib i) (indices (geo rib)) \<noteq> []"
    by (metis empty_iff list.set(1))
  with assms(2) show ?thesis
    by (simp add: stats_percentiles_in_mask_def Let_def split: if_splits)
qed

lemma endpoint_index_fg: "i \<in> set (endpoint_indices sk) \<Longrightarrow> inside (geo sk) i \<and> vox sk i = 1"
  by (simp add: endpoint_indices_def set_indices)

lemma candidates_rib_nonempty:
  assumes "skeleton tk rib = Inr skel"
    and "classify_endpoints ct rib cutoff (endpoints_from_skeleton skel) = Inr cands"
    and "cands \<noteq> []"
  shows "fg rib \<noteq> {}"
proof -
  from assms(3) obtain ep fr where "(ep, fr) \<in> set cands" by (cases cands) auto
  with classify_endpoints_set [OF assms(2)] have "ep \<in> set (endpoints_from_skeleton skel)"
    by auto
  then obtain i where i: "i \<in> set (endpoint_indices skel)"
    by (auto simp: endpoints_from_skeleton_def)
  from endpoint_index_fg [OF i] have "inside (geo skel) i" "vox skel i \<noteq> 0" by simp_all
  with skeleton_sub [OF assms(1)] skeleton_Inr [OF assms(1)] have "i \<in> fg rib"
    by (simp add: fg_def)
  then show ?thesis by blast
qed

lemma masked_growth:
  assumes "- 2000 < lower_hu"
    and "region_grow_local ct [ep] lower_hu UPPER_HU corridor = Inr growth"
  shows "\<exists>ct_masked. sitk_Mask ct corridor (- 2000) = Inr ct_masked \<and>
            growth = to_u8 (ConnectedThreshold ct_masked
                       [TransformPhysicalPointToIndex (geo ct) ep] lower_hu UPPER_HU) \<and>
            (\<forall>i. inside (geo ct) i \<and> i \<notin> fg corridor \<longrightarrow>
                 vox ct_masked i = - 2000 \<and> vox ct_masked i < lower_hu \<and> i \<notin> fg growth)"
proof -
  from assms(2) obtain m where m: "sitk_Mask ct corridor (- 2000) = Inr m"
    and g: "growth = to_u8 (ConnectedThreshold m [TransformPhysicalPointToIndex (geo ct) ep] lower_hu UPPER_HU)"
    by (auto simp: region_grow_local_def bindE_eq_Inr Let_def)
  have out: "vox m i = - 2000 \<and> vox m i < lower_hu \<and> i \<notin> fg growth"
    if "inside (geo ct) i \<and> i \<notin> fg corridor" for i
  proof -
    from m have gc: "geo corridor = geo ct" by (auto simp: sitk_Mask_Inr)
    with that have z: "vox corridor i = 0" by (auto simp: fg_def)
    with m have v: "vox m i = - 2000" by (auto simp: sitk_Mask_Inr)
    have "vox growth i = 0"
    proof (rule ccontr)
      assume "vox growth i \<noteq> 0"
      from region_grow_local_masked [OF assms(2) this] z assms(1) show False by simp
    qed
    with v assms(1) show ?thesis by (simp add: fg_def)
  qed
  from m g out show ?thesis by blast
qed

section \<open>Component filter\<close>

lemma vox_component:
  "vox (to_u8 (BinaryThreshold cc L L 1 0)) i = (if vox cc i = L then 1 else 0)"
  by (simp add: to_u8_def BinaryThreshold_def)

lemma any_nonzero_iff: "any_nonzero m \<longleftrightarrow> (\<exists>i. inside (geo m) i \<and> vox m i \<noteq> 0)"
  by (auto simp: any_nonzero_def list_ex_iff set_indices)

lemma any_nonzero_fg: "any_nonzero m \<longleftrightarrow> fg m \<noteq> {}"
  by (auto simp: any_nonzero_iff fg_def)

lemma binary_iff: "binary m \<longleftrightarrow> (\<forall>i. inside (geo m) i \<longrightarrow> vox m i = 0 \<or> vox m i = 1)"
  by (auto simp: binary_def list_all_iff set_indices)

lemma binary_to_u8: "binary (to_u8 m)"
  by (simp add: binary_iff to_u8_def)

lemma binary_BinaryDilate: "binary m \<Longrightarrow> binary (BinaryDilate tk m rad)"
  by (auto simp: binary_iff BinaryDilate_def)

lemma one_and_binary: "(w::u8) = 0 \<or> w = 1 \<Longrightarrow> 1 AND w \<noteq> 0 \<longleftrightarrow> w \<noteq> 0"
  by auto

lemma set_GetLabels: "set (GetLabels cc) = {vox cc i | i. inside (geo cc) i \<and> vox cc i \<noteq> 0}"
  by (auto simp: GetLabels_def set_indices)

lemma keep_loop_char:
  assumes "keep_loop cc rib_d Ls out = Inr res"
  shows "geo res = geo out \<and> (Ls \<noteq> [] \<longrightarrow> geo cc = geo rib_d) \<and>
         (\<forall>i. vox res i \<noteq> 0 \<longleftrightarrow>
              vox out i \<noteq> 0 \<or>
              (vox cc i \<in> set Ls \<and>
               (\<exists>w. inside (geo cc) w \<and> vox cc w = vox cc i \<and> 1 AND vox rib_d w \<noteq> 0)))"
  using assms
proof (induction Ls arbitrary: out)
  case Nil
  then show ?case by simp
next
  case (Cons L Ls)
  let ?comp = "to_u8 (BinaryThreshold cc L L 1 0)"
  from Cons.prems obtain t where t: "sitk_And ?comp rib_d = Inr t"
    by (auto split: sum.splits)
  then have gt: "geo cc = geo rib_d" and vt: "\<And>i. vox t i = (if vox cc i = L then 1 else 0) AND vox rib_d i"
    and geot: "geo t = geo cc"
    by (auto simp: sitk_And_Inr vox_component)
  have touch: "any_nonzero t \<longleftrightarrow> (\<exists>w. inside (geo cc) w \<and> vox cc w = L \<and> 1 AND vox rib_d w \<noteq> 0)"
    by (auto simp: any_nonzero_iff geot vt split: if_splits)
  show ?case
  proof (cases "any_nonzero t")
    case True
    with Cons.prems t obtain out' where o: "sitk_Or out ?comp = Inr out'"
      and r: "keep_loop cc rib_d Ls out' = Inr res"
      by (auto split: sum.splits)
    from o have vo: "\<And>i. vox out' i \<noteq> 0 \<longleftrightarrow> vox out i \<noteq> 0 \<or> vox cc i = L" and go: "geo out' = geo out"
      by (auto simp: sitk_Or_Inr vox_component or_eq_0_iff)
    from True touch have tc: "\<exists>w. inside (geo cc) w \<and> vox cc w = L \<and> 1 AND vox rib_d w \<noteq> 0"
      by simp
    note ih = Cons.IH [OF r]
    have "vox res i \<noteq> 0 \<longleftrightarrow>
              vox out i \<noteq> 0 \<or>
              (vox cc i \<in> set (L # Ls) \<and>
               (\<exists>w. inside (geo cc) w \<and> vox cc w = vox cc i \<and> 1 AND vox rib_d w \<noteq> 0))" for i
    proof (cases "vox cc i = L")
      case True
      with ih vo tc show ?thesis by (auto simp del: split_paired_All split_paired_Ex)
    next
      case False
      with ih vo show ?thesis by (auto simp del: split_paired_All split_paired_Ex)
    qed
    with ih go gt show ?thesis by (auto simp del: split_paired_All split_paired_Ex)
  next
    case False
    with Cons.prems t have r: "keep_loop cc rib_d Ls out = Inr res"
      by auto
    from False touch have tc: "\<not> (\<exists>w. inside (geo cc) w \<and> vox cc w = L \<and> 1 AND vox rib_d w \<noteq> 0)"
      by simp
    note ih = Cons.IH [OF r]
    have "vox res i \<noteq> 0 \<longleftrightarrow>
              vox out i \<noteq> 0 \<or>
              (vox cc i \<in> set (L # Ls) \<and>
               (\<exists>w. inside (geo cc) w \<and> vox cc w = vox cc i \<and> 1 AND vox rib_d w \<noteq> 0))" for i
    proof (cases "vox cc i = L")
      case True
      with ih tc show ?thesis by (auto simp del: split_paired_All split_paired_Ex)
    next
      case False
      with ih show ?thesis by (auto simp del: split_paired_All split_paired_Ex)
    qed
    with ih gt show ?thesis by (auto simp del: split_paired_All split_paired_Ex)
  qed
qed

text \<open>
  Claim C9. The component filter keeps a voxel of the grown mask exactly when its connected
  component (its label class) shares a voxel with the rib mask dilated by one voxel: a
  component that touches the dilated rib is kept whole, any other is removed whole.
\<close>

theorem component_filter_keeps_touching:
  assumes "binary rib"
    and "keep_growth_touching_rib tk grow rib = Inr out"
    and "ConnectedComponent tk grow = Inr cc"
    and "\<forall>i. inside (geo grow) i \<longrightarrow> (vox cc i \<noteq> 0 \<longleftrightarrow> vox grow i \<noteq> 0)"
  shows "\<forall>i. i \<in> fg out \<longleftrightarrow>
              i \<in> fg grow \<and>
              (\<exists>w. w \<in> fg (BinaryDilate tk rib (1, 1, 1)) \<and> inside (geo grow) w \<and> vox cc w = vox cc i)"
proof (cases "any_nonzero grow")
  case False
  with assms(2) have "out = grow" by (simp add: keep_growth_touching_rib_def)
  with False show ?thesis by (auto simp: any_nonzero_fg)
next
  case True
  let ?rib_d = "BinaryDilate tk rib (1, 1, 1)"
  have gcc: "geo cc = geo grow" using assms(3) by (rule ConnectedComponent_Inr)
  from True assms(2,3) have k: "keep_loop cc ?rib_d (GetLabels cc) (zero_mask (geo grow)) = Inr out"
    by (simp add: keep_growth_touching_rib_def bindE_def)
  from True obtain j where j: "inside (geo grow) j" "vox grow j \<noteq> 0"
    by (auto simp: any_nonzero_iff)
  from assms(4) j have "vox cc j \<noteq> 0" by blast
  with j gcc have "vox cc j \<in> set (GetLabels cc)"
    unfolding set_GetLabels by (simp del: split_paired_Ex) blast
  then have ne: "GetLabels cc \<noteq> []" by auto
  note c = keep_loop_char [OF k]
  from c ne have gr: "geo ?rib_d = geo grow" and go: "geo out = geo grow"
    using gcc by auto
  then have grib: "geo rib = geo grow" by simp
  have bin: "\<And>w. inside (geo grow) w \<Longrightarrow> 1 AND vox ?rib_d w \<noteq> 0 \<longleftrightarrow> vox ?rib_d w \<noteq> 0"
    using binary_BinaryDilate [OF assms(1), of tk "(1, 1, 1)"] grib
    by (intro one_and_binary) (simp add: binary_iff del: split_paired_All)
  show ?thesis
  proof
    fix i
    show "i \<in> fg out \<longleftrightarrow>
              i \<in> fg grow \<and>
              (\<exists>w. w \<in> fg ?rib_d \<and> inside (geo grow) w \<and> vox cc w = vox cc i)"
    proof (cases "inside (geo grow) i")
      case False
      then show ?thesis by (simp add: fg_def go)
    next
      case ins: True
      have lab: "vox cc i \<in> set (GetLabels cc) \<longleftrightarrow> vox grow i \<noteq> 0"
      proof
        assume "vox cc i \<in> set (GetLabels cc)"
        then obtain k where "vox cc i = vox cc k" "vox cc k \<noteq> 0"
          unfolding set_GetLabels by blast
        then have "vox cc i \<noteq> 0" by simp
        with assms(4) ins show "vox grow i \<noteq> 0" by blast
      next
        assume "vox grow i \<noteq> 0"
        with assms(4) ins have "vox cc i \<noteq> 0" by blast
        with ins gcc show "vox cc i \<in> set (GetLabels cc)"
          unfolding set_GetLabels by (simp del: split_paired_Ex) blast
      qed
      have "vox out i \<noteq> 0 \<longleftrightarrow>
            vox cc i \<in> set (GetLabels cc) \<and>
            (\<exists>w. inside (geo cc) w \<and> vox cc w = vox cc i \<and> 1 AND vox ?rib_d w \<noteq> 0)"
        using c by (simp add: zero_mask_def del: split_paired_All split_paired_Ex)
      also have "\<dots> \<longleftrightarrow> vox grow i \<noteq> 0 \<and>
            (\<exists>w. inside (geo grow) w \<and> vox cc w = vox cc i \<and> vox ?rib_d w \<noteq> 0)"
        using lab bin gcc by (simp del: split_paired_All split_paired_Ex) blast
      finally show ?thesis
        using ins go grib by (auto simp: fg_def)
    qed
  qed
qed

section \<open>When the steps succeed\<close>

lemma reference_toolkit_total: "toolkit_total reference_toolkit"
  by (simp add: toolkit_total_def reference_toolkit_def)

lemma dist_map_mm_total: "toolkit_total tk \<Longrightarrow> \<exists>d. dist_map_mm tk m = Inr d \<and> geo d = geo m"
  unfolding toolkit_total_def dist_map_mm_def
  by (metis bindE_Inr image.select_convs(1))

lemma ConnectedComponent_total:
  "toolkit_total tk \<Longrightarrow> \<exists>cc. ConnectedComponent tk m = Inr cc \<and> geo cc = geo m"
  unfolding toolkit_total_def ConnectedComponent_def
  by (metis bindE_Inr image.select_convs(1))

lemma spine_loop_total:
  "geo out = geo cc \<Longrightarrow> \<exists>r. spine_loop ct cc mid Ls out = Inr r \<and> geo r = geo cc"
proof (induction Ls arbitrary: out)
  case Nil
  then show ?case by simp
next
  case (Cons L Ls)
  have "\<exists>o'. sitk_Or out (to_u8 (BinaryThreshold cc L L 1 0)) = Inr o' \<and> geo o' = geo cc"
    using Cons.prems by (simp add: sitk_Or_def)
  then obtain o' where o: "sitk_Or out (to_u8 (BinaryThreshold cc L L 1 0)) = Inr o'" "geo o' = geo cc"
    by blast
  from Cons.IH [OF o(2)] Cons.IH [OF Cons.prems] o(1) show ?case
    by simp
qed

lemma build_spine_mask_total:
  assumes "toolkit_total tk"
  shows "\<exists>s. build_spine_mask tk ct = Inr s \<and> geo s = geo ct"
proof (cases "any_nonzero (to_u8 (img_ge ct SPINE_HU))")
  case False
  then show ?thesis by (simp add: build_spine_mask_def Let_def)
next
  case True
  obtain cc where cc: "ConnectedComponent tk (to_u8 (img_ge ct SPINE_HU)) = Inr cc" "geo cc = geo ct"
    using ConnectedComponent_total [OF assms, of "to_u8 (img_ge ct SPINE_HU)"] by auto
  define mid where "mid = fl64 (c0 (gorigin (geo ct)) +
                         fl64 (c0 (gspacing (geo ct)) * fl64 (real (c0 (gsize (geo ct))) / 2)))"
  have "geo (zero_mask (geo ct)) = geo cc" using cc(2) by simp
  from spine_loop_total [OF this, of ct mid "GetLabels cc"]
  obtain r where r: "spine_loop ct cc mid (GetLabels cc) (zero_mask (geo ct)) = Inr r" "geo r = geo cc"
    by blast
  from True cc r show ?thesis
    unfolding build_spine_mask_def Let_def mid_def [symmetric]
    by (simp add: bindE_Inr)
qed

lemma classifier_total:
  assumes "nonzero_spacing (geo ct)" and "gsize (geo rib) = gsize (geo ct)"
  shows "\<exists>fr. endpoint_is_posterior_missing_tubercle ct rib ep nb hu yf xt = Inr fr"
  using assms by (simp add: endpoint_is_posterior_missing_tubercle_def nonzero_spacing_def Let_def)

lemma classify_endpoints_succeeds:
  assumes "nonzero_spacing (geo ct)" and "gsize (geo rib) = gsize (geo ct)"
  shows "\<exists>cands. classify_endpoints ct rib cutoff eps = Inr cands"
proof (induction eps)
  case Nil
  then show ?case by simp
next
  case (Cons ep eps)
  obtain fr where "endpoint_is_posterior_missing_tubercle ct rib ep NBHD_RADIUS_MM NBHD_BONE_HU
      POSTERIOR_Y_IDX_MIN_FRAC MIDLINE_X_TOL_MM = Inr fr"
    using classifier_total [OF assms] by blast
  with Cons show ?case by auto
qed

lemma stats_percentiles_total:
  "gsize (geo rib) = gsize (geo ct) \<Longrightarrow> \<exists>ps. stats_percentiles_in_mask tk ct rib pcts = Inr ps"
  by (simp add: stats_percentiles_in_mask_def Let_def)

lemma corridor_for_tip_total:
  assumes "toolkit_total tk" and "nonzero_spacing (geo rib)" and "geo spine = geo rib"
  shows "\<exists>c. corridor_for_tip tk rib spine ep r_rib r_tip = Inr c \<and> geo c = geo rib"
proof -
  obtain d where d: "dist_map_mm tk rib = Inr d" "geo d = geo rib"
    using dist_map_mm_total [OF assms(1)] by blast
  obtain ds where ds: "dist_map_mm tk spine = Inr ds" "geo ds = geo spine"
    using dist_map_mm_total [OF assms(1)] by blast
  from d ds assms(2,3) show ?thesis
    by (simp add: corridor_for_tip_def bindE_Inr Let_def nonzero_spacing_def sitk_And_def)
qed

lemma region_grow_local_total:
  "geo corridor = geo ct \<Longrightarrow> \<exists>g. region_grow_local ct seeds lo hi corridor = Inr g \<and> geo g = geo ct"
  by (simp add: region_grow_local_def sitk_Mask_def bindE_Inr Let_def)

lemma keep_loop_total:
  "geo out = geo cc \<Longrightarrow> geo rib_d = geo cc \<Longrightarrow>
   \<exists>r. keep_loop cc rib_d Ls out = Inr r \<and> geo r = geo cc"
proof (induction Ls arbitrary: out)
  case Nil
  then show ?case by simp
next
  case (Cons L Ls)
  obtain t where t: "sitk_And (to_u8 (BinaryThreshold cc L L 1 0)) rib_d = Inr t"
    using Cons.prems by (simp add: sitk_And_def)
  obtain o' where o: "sitk_Or out (to_u8 (BinaryThreshold cc L L 1 0)) = Inr o'" "geo o' = geo cc"
    using Cons.prems by (simp add: sitk_Or_def)
  from Cons.IH [OF o(2) Cons.prems(2)] Cons.IH [OF Cons.prems] o(1) t show ?case
    by simp
qed

lemma keep_growth_geo:
  "keep_growth_touching_rib tk grow rib = Inr r \<Longrightarrow> geo r = geo grow"
  using keep_loop_char [of _ _ _ "zero_mask (geo grow)" r]
  by (auto simp: keep_growth_touching_rib_def bindE_eq_Inr Let_def split: if_splits)

lemma keep_growth_total:
  assumes "toolkit_total tk" and "geo grow = geo rib"
  shows "\<exists>r. keep_growth_touching_rib tk grow rib = Inr r \<and> geo r = geo grow"
proof (cases "any_nonzero grow")
  case False
  then show ?thesis by (simp add: keep_growth_touching_rib_def)
next
  case True
  obtain cc where cc: "ConnectedComponent tk grow = Inr cc" "geo cc = geo grow"
    using ConnectedComponent_total [OF assms(1)] by blast
  obtain r where "keep_loop cc (BinaryDilate tk rib (1, 1, 1)) (GetLabels cc) (zero_mask (geo grow)) = Inr r"
      "geo r = geo cc"
    using keep_loop_total [of "zero_mask (geo grow)" cc "BinaryDilate tk rib (1, 1, 1)"] cc(2) assms(2)
    by auto
  with True cc show ?thesis
    by (simp add: keep_growth_touching_rib_def bindE_Inr Let_def)
qed

lemma grow_loop_total:
  assumes "toolkit_total tk" and "nonzero_spacing (geo ct)" and "geo rib = geo ct" and "geo spine = geo ct"
  shows "geo gu0 = geo ct \<Longrightarrow> \<exists>gu. grow_loop tk ct rib spine lower cands gu0 = Inr gu \<and> geo gu = geo ct"
proof (induction cands arbitrary: gu0)
  case Nil
  then show ?case by simp
next
  case (Cons c cands)
  obtain ep fr where c: "c = (ep, fr)" by (cases c)
  obtain cor where cor: "corridor_for_tip tk rib spine ep R_RIB_MM_R R_TIP_MM_R = Inr cor" "geo cor = geo rib"
    using corridor_for_tip_total [OF assms(1), of rib spine ep R_RIB_MM_R R_TIP_MM_R] assms(2,3,4)
    by auto
  obtain g where g: "region_grow_local ct [ep] lower UPPER_HU cor = Inr g" "geo g = geo ct"
    using region_grow_local_total [of cor ct "[ep]" lower UPPER_HU] cor(2) assms(3) by auto
  obtain g' where g': "keep_growth_touching_rib tk g rib = Inr g'" "geo g' = geo g"
    using keep_growth_total [OF assms(1), of g rib] g(2) assms(3) by auto
  obtain u where u: "sitk_Or gu0 g' = Inr u" "geo u = geo ct"
    using Cons.prems g'(2) g(2) by (simp add: sitk_Or_def)
  from Cons.IH [OF u(2)] cor g g' u c show ?case
    by simp
qed

lemma grow_loop_steps:
  assumes "grow_loop tk ct rib spine lower cands gu0 = Inr gu" and "(ep, fr) \<in> set cands"
  shows "\<exists>corridor growth growth'.
           corridor_for_tip tk rib spine ep R_RIB_MM_R R_TIP_MM_R = Inr corridor \<and>
           region_grow_local ct [ep] lower UPPER_HU corridor = Inr growth \<and>
           keep_growth_touching_rib tk growth rib = Inr growth'"
  using assms
proof (induction cands arbitrary: gu0)
  case Nil
  then show ?case by simp
next
  case (Cons c cands)
  obtain ep' fr' where c: "c = (ep', fr')" by (cases c)
  from Cons.prems(1) c obtain cor g g' u where
    s: "corridor_for_tip tk rib spine ep' R_RIB_MM_R R_TIP_MM_R = Inr cor"
       "region_grow_local ct [ep'] lower UPPER_HU cor = Inr g"
       "keep_growth_touching_rib tk g rib = Inr g'"
       "sitk_Or gu0 g' = Inr u"
       "grow_loop tk ct rib spine lower cands u = Inr gu"
    by (auto split: sum.splits)
  show ?case
  proof (cases "(ep, fr) = c")
    case True
    with c s show ?thesis by auto
  next
    case False
    with Cons.prems(2) have "(ep, fr) \<in> set cands" by simp
    from Cons.IH [OF s(5) this] show ?thesis .
  qed
qed

lemma grow_loop_failure:
  assumes "(ep, fr) \<in> set cands"
    and "corridor_for_tip tk rib spine ep R_RIB_MM_R R_TIP_MM_R = Inl e
         \<or> (\<exists>corridor. corridor_for_tip tk rib spine ep R_RIB_MM_R R_TIP_MM_R = Inr corridor \<and>
               (region_grow_local ct [ep] lower UPPER_HU corridor = Inl e
                \<or> (\<exists>growth. region_grow_local ct [ep] lower UPPER_HU corridor = Inr growth \<and>
                      keep_growth_touching_rib tk growth rib = Inl e)))"
  shows "\<exists>e'. grow_loop tk ct rib spine lower cands gu0 = Inl e'"
proof (cases "grow_loop tk ct rib spine lower cands gu0")
  case (Inl a)
  then show ?thesis by blast
next
  case (Inr gu)
  from grow_loop_steps [OF Inr assms(1)] assms(2) show ?thesis by auto
qed

section \<open>The paths through the repair of one rib\<close>

lemma repair_skip:
  assumes "read_img w rib_path = Inr rib_raw"
    and "build_spine_mask tk ct = Inr spine"
    and "skeleton tk (to_u8 (resample_like (to_u8 rib_raw) ct)) = Inr skel"
    and "classify_endpoints ct (to_u8 (resample_like (to_u8 rib_raw) ct))
           (active_cutoff (side_select (basename rib_path))) (endpoints_from_skeleton skel) = Inr []"
  shows "repair_first_rib tk ct rib_path out_path w =
           (Inr (), write_img rib_raw out_path (print_ev SkipNoCandidates
              (print_ev (InfoEndpoints (basename rib_path) (side_tag (side_select (basename rib_path)))
                 (length (endpoints_from_skeleton skel))
                 (active_cutoff (side_select (basename rib_path))) 0) w)))"
  using assms by (simp add: repair_first_rib_def Let_def)

lemma repair_growth:
  assumes "read_img w rib_path = Inr rib_raw"
    and "build_spine_mask tk ct = Inr spine"
    and "skeleton tk (to_u8 (resample_like (to_u8 rib_raw) ct)) = Inr skel"
    and "classify_endpoints ct (to_u8 (resample_like (to_u8 rib_raw) ct))
           (active_cutoff (side_select (basename rib_path))) (endpoints_from_skeleton skel) = Inr cands"
    and "cands \<noteq> []"
    and "stats_percentiles_in_mask tk ct (to_u8 (resample_like (to_u8 rib_raw) ct)) [PCTL_ROBUST, 0] = Inr pctls"
    and "grow_loop tk ct (to_u8 (resample_like (to_u8 rib_raw) ct)) spine
           (max (hd pctls) (target_hu_floor (side_select (basename rib_path)))) cands
           (zero_mask (geo ct)) = Inr grow_union"
    and "sitk_Or (to_u8 (resample_like (to_u8 rib_raw) ct)) grow_union = Inr pre"
  shows "repair_first_rib tk ct rib_path out_path w =
           (Inr (), print_ev (Saved out_path)
              (write_img (of_u8 (resample_like (BinaryMorphologicalClosing tk pre FINAL_CLOSING) rib_raw))
                 out_path
                 (print_ev (InfoGrowth (max (hd pctls) (target_hu_floor (side_select (basename rib_path))))
                              (length cands))
                    (print_ev (InfoEndpoints (basename rib_path) (side_tag (side_select (basename rib_path)))
                       (length (endpoints_from_skeleton skel))
                       (active_cutoff (side_select (basename rib_path))) (length cands)) w))))"
  using assms by (simp add: repair_first_rib_def Let_def)

lemma repair_growth_failure:
  assumes "read_img w rib_path = Inr rib_raw"
    and "build_spine_mask tk ct = Inr spine"
    and "skeleton tk (to_u8 (resample_like (to_u8 rib_raw) ct)) = Inr skel"
    and "classify_endpoints ct (to_u8 (resample_like (to_u8 rib_raw) ct))
           (active_cutoff (side_select (basename rib_path))) (endpoints_from_skeleton skel) = Inr cands"
    and "cands \<noteq> []"
    and "stats_percentiles_in_mask tk ct (to_u8 (resample_like (to_u8 rib_raw) ct)) [PCTL_ROBUST, 0] = Inr pctls"
    and "grow_loop tk ct (to_u8 (resample_like (to_u8 rib_raw) ct)) spine
           (max (hd pctls) (target_hu_floor (side_select (basename rib_path)))) cands
           (zero_mask (geo ct)) = Inl e"
  shows "repair_first_rib tk ct rib_path out_path w =
           (Inl e,
                 (print_ev (InfoGrowth (max (hd pctls) (target_hu_floor (side_select (basename rib_path))))
                              (length cands))
                    (print_ev (InfoEndpoints (basename rib_path) (side_tag (side_select (basename rib_path)))
                       (length (endpoints_from_skeleton skel))
                       (active_cutoff (side_select (basename rib_path))) (length cands)) w)))"
  using assms by (simp add: repair_first_rib_def Let_def)

lemma files_print_ev [simp]: "files (print_ev e w) = files w"
  by (simp add: print_ev_def)

lemma files_write_img [simp]: "files (write_img img p w) = (files w)(p \<mapsto> img)"
  by (simp add: write_img_def)

lemma repair_error_keeps_files:
  "repair_first_rib tk ct rib_path out_path w = (Inl e, w') \<Longrightarrow> files w' = files w"
  by (auto simp: repair_first_rib_def Let_def split: sum.splits if_splits)


lemma grow_loop_geo:
  "grow_loop tk ct rib spine lower cands gu0 = Inr gu \<Longrightarrow> geo gu = geo gu0"
proof (induction cands arbitrary: gu0)
  case Nil
  then show ?case by simp
next
  case (Cons c cands)
  obtain ep fr where c: "c = (ep, fr)" by (cases c)
  from Cons.prems c obtain g' u where u: "sitk_Or gu0 g' = Inr u"
    and r: "grow_loop tk ct rib spine lower cands u = Inr gu"
    by (auto split: sum.splits)
  from Cons.IH [OF r] u show ?case by (auto simp: sitk_Or_Inr)
qed

text \<open>
  The outcomes of the repair of a rib whose file is read, whose spine mask and skeleton
  are computed and whose endpoints are classified.
\<close>

lemma repair_outcomes:
  assumes "read_img w rib_path = Inr rib_raw"
    and "build_spine_mask tk ct = Inr spine"
    and "skeleton tk (to_u8 (resample_like (to_u8 rib_raw) ct)) = Inr skel"
    and "classify_endpoints ct (to_u8 (resample_like (to_u8 rib_raw) ct))
           (active_cutoff (side_select (basename rib_path))) (endpoints_from_skeleton skel) = Inr cands"
    and "w1 = print_ev (InfoEndpoints (basename rib_path) (side_tag (side_select (basename rib_path)))
                 (length (endpoints_from_skeleton skel))
                 (active_cutoff (side_select (basename rib_path))) (length cands)) w"
  shows "(cands = [] \<longrightarrow>
            repair_first_rib tk ct rib_path out_path w =
              (Inr (), write_img rib_raw out_path (print_ev SkipNoCandidates w1))) \<and>
         (cands \<noteq> [] \<longrightarrow>
            (\<exists>pctls. stats_percentiles_in_mask tk ct (to_u8 (resample_like (to_u8 rib_raw) ct))
                        [PCTL_ROBUST, 0] = Inr pctls \<and>
               (\<forall>e. grow_loop tk ct (to_u8 (resample_like (to_u8 rib_raw) ct)) spine
                       (max (hd pctls) (target_hu_floor (side_select (basename rib_path)))) cands
                       (zero_mask (geo ct)) = Inl e \<longrightarrow>
                    repair_first_rib tk ct rib_path out_path w =
                      (Inl e, print_ev (InfoGrowth (max (hd pctls)
                                (target_hu_floor (side_select (basename rib_path)))) (length cands)) w1)) \<and>
               (\<forall>gu. grow_loop tk ct (to_u8 (resample_like (to_u8 rib_raw) ct)) spine
                       (max (hd pctls) (target_hu_floor (side_select (basename rib_path)))) cands
                       (zero_mask (geo ct)) = Inr gu \<longrightarrow>
                    (\<exists>pre. sitk_Or (to_u8 (resample_like (to_u8 rib_raw) ct)) gu = Inr pre \<and>
                       repair_first_rib tk ct rib_path out_path w =
                         (Inr (), print_ev (Saved out_path)
                            (write_img (of_u8 (resample_like
                                 (BinaryMorphologicalClosing tk pre FINAL_CLOSING) rib_raw)) out_path
                               (print_ev (InfoGrowth (max (hd pctls)
                                  (target_hu_floor (side_select (basename rib_path)))) (length cands))
                                  w1)))))))"
proof (intro conjI impI)
  assume "cands = []"
  with repair_skip [OF assms(1,2,3), of out_path] assms(4,5)
  show "repair_first_rib tk ct rib_path out_path w =
              (Inr (), write_img rib_raw out_path (print_ev SkipNoCandidates w1))"
    by simp
next
  assume ne: "cands \<noteq> []"
  let ?rib = "to_u8 (resample_like (to_u8 rib_raw) ct)"
  let ?lo = "\<lambda>pctls. max (hd pctls) (target_hu_floor (side_select (basename rib_path)))"
  obtain pctls where st: "stats_percentiles_in_mask tk ct ?rib [PCTL_ROBUST, 0] = Inr pctls"
    using stats_percentiles_total [of ?rib ct tk] by auto
  have fail: "repair_first_rib tk ct rib_path out_path w =
                (Inl e, print_ev (InfoGrowth (?lo pctls) (length cands)) w1)"
    if "grow_loop tk ct ?rib spine (?lo pctls) cands (zero_mask (geo ct)) = Inl e" for e
    using repair_growth_failure [OF assms(1,2,3,4) ne st that, of out_path] assms(5) by simp
  have ok: "\<exists>pre. sitk_Or ?rib gu = Inr pre \<and>
              repair_first_rib tk ct rib_path out_path w =
                (Inr (), print_ev (Saved out_path)
                   (write_img (of_u8 (resample_like
                        (BinaryMorphologicalClosing tk pre FINAL_CLOSING) rib_raw)) out_path
                      (print_ev (InfoGrowth (?lo pctls) (length cands)) w1)))"
    if g: "grow_loop tk ct ?rib spine (?lo pctls) cands (zero_mask (geo ct)) = Inr gu" for gu
  proof -
    have "geo gu = geo ct" using grow_loop_geo [OF g] by simp
    then obtain pre where pre: "sitk_Or ?rib gu = Inr pre" by (simp add: sitk_Or_def)
    from repair_growth [OF assms(1,2,3,4) ne st g pre, of out_path] pre assms(5)
    show ?thesis by simp
  qed
  from st fail ok
  show "\<exists>pctls. stats_percentiles_in_mask tk ct ?rib [PCTL_ROBUST, 0] = Inr pctls \<and>
               (\<forall>e. grow_loop tk ct ?rib spine (?lo pctls) cands (zero_mask (geo ct)) = Inl e \<longrightarrow>
                    repair_first_rib tk ct rib_path out_path w =
                      (Inl e, print_ev (InfoGrowth (?lo pctls) (length cands)) w1)) \<and>
               (\<forall>gu. grow_loop tk ct ?rib spine (?lo pctls) cands (zero_mask (geo ct)) = Inr gu \<longrightarrow>
                    (\<exists>pre. sitk_Or ?rib gu = Inr pre \<and>
                       repair_first_rib tk ct rib_path out_path w =
                         (Inr (), print_ev (Saved out_path)
                            (write_img (of_u8 (resample_like
                                 (BinaryMorphologicalClosing tk pre FINAL_CLOSING) rib_raw)) out_path
                               (print_ev (InfoGrowth (?lo pctls) (length cands)) w1)))))"
    by blast
qed

section \<open>The rod volume\<close>

lemma rod_indices:
  "indices rod_geom =
     [(0,0,0),(1,0,0),(2,0,0),(0,1,0),(1,1,0),(2,1,0),(0,2,0),(1,2,0),(2,2,0),
      (0,3,0),(1,3,0),(2,3,0),(0,4,0),(1,4,0),(2,4,0),(0,5,0),(1,5,0),(2,5,0)]"
  by (simp add: indices_def rod_geom_def upto_rec1)

lemma rod_geo [simp]: "geo rod_ct = rod_geom" "geo rod_mask = rod_geom" "geo rod_rib = rod_geom"
  by (simp_all add: rod_ct_def rod_mask_def rod_rib_def)

lemma rod_inside:
  "inside rod_geom i \<longleftrightarrow> c0 i \<in> {0, 1, 2} \<and> c1 i \<in> {0, 1, 2, 3, 4, 5} \<and> c2 i = 0"
  by (auto simp: inside_def rod_geom_def)

lemma rod_roundtrip:
  "TransformPhysicalPointToIndex rod_geom (TransformIndexToPhysicalPoint rod_geom i) = i"
  by (simp add: TransformPhysicalPointToIndex_def TransformIndexToPhysicalPoint_def rod_geom_def)

lemma rod_rib_vox:
  "vox rod_rib i = (if i = (1, 3, 0) \<or> i = (1, 4, 0) then 1 else 0)"
  by (auto simp: rod_rib_def to_u8_def resample_like_def rod_roundtrip rod_mask_def Let_def rod_inside)

lemma rod_spine: "build_spine_mask tk rod_ct = Inr (zero_mask rod_geom)"
  by (simp add: build_spine_mask_def Let_def any_nonzero_iff to_u8_def img_ge_def rod_ct_def SPINE_HU_def)

text \<open>The rod is a thin line away from the border of its slice: thinning leaves it as it is.\<close>

lemma list_ex_conj_filter: "list_ex (\<lambda>i. A i \<and> B i) xs = list_ex B (filter A xs)"
  by (induction xs) auto

lemma rod_fg_list: "filter (\<lambda>i. vox rod_rib i \<noteq> 0) (indices rod_geom) = [(1, 3, 0), (1, 4, 0)]"
  by (simp add: rod_indices rod_rib_vox)

lemma rod_thin: "\<not> list_ex (thinning_candidate rod_rib) (indices rod_geom)"
  unfolding thinning_candidate_def list_ex_conj_filter rod_fg_list
  by (simp add: ring_values_def ring8_def clamp_idx_def idx_add_def transitions_def rod_rib_vox
      rod_geom_def Let_def)

lemma rod_skeleton: "skeleton reference_toolkit rod_rib = Inr \<lparr>geo = rod_geom, vox = vox rod_rib\<rparr>"
proof -
  have t: "thin_line_thinning rod_rib = Inr (\<lambda>i. if vox rod_rib i \<noteq> 0 then 1 else 0)"
    using rod_thin by (simp add: thin_line_thinning_def)
  have "(\<lambda>i. if vox rod_rib i = 0 \<or> (if vox rod_rib i \<noteq> 0 then 1 else (0::u8)) = 0 then 0 else 1)
          = vox rod_rib"
    by (rule ext) (simp add: rod_rib_vox)
  then show ?thesis
    by (simp add: skeleton_def reference_toolkit_def t bindE_Inr)
qed

lemma endpoint_indices_staged:
  "endpoint_indices sk =
     filter (\<lambda>i. convolve_ones sk i = 2) (filter (\<lambda>i. vox sk i = 1) (indices (geo sk)))"
  by (simp add: endpoint_indices_def conj_commute)

lemma rod_endpoints:
  "endpoint_indices \<lparr>geo = rod_geom, vox = vox rod_rib\<rparr> = [(1, 3, 0), (1, 4, 0)]"
proof -
  have f: "filter (\<lambda>i. vox rod_rib i = 1) (indices rod_geom) = [(1, 3, 0), (1, 4, 0)]"
    by (simp add: rod_indices rod_rib_vox)
  show ?thesis
    unfolding endpoint_indices_staged image.select_convs f
    by (simp add: convolve_ones_def offsets27_def idx_add_def rod_rib_vox rod_inside)
qed

lemma rod_endpoints_phys:
  "endpoints_from_skeleton \<lparr>geo = rod_geom, vox = vox rod_rib\<rparr> = [(7, 21, 0), (7, 28, 0)]"
  by (simp add: endpoints_from_skeleton_def rod_endpoints)
     (simp add: TransformIndexToPhysicalPoint_def rod_geom_def)

lemma rod_idx:
  "TransformPhysicalPointToIndex rod_geom (7, 21, 0) = (1, 3, 0)"
  "TransformPhysicalPointToIndex rod_geom (7, 28, 0) = (1, 4, 0)"
  by (simp_all add: TransformPhysicalPointToIndex_def rod_geom_def)

lemma rod_gate:
  "\<not> is_posterior_y rod_ct (7, 21, 0) POSTERIOR_Y_IDX_MIN_FRAC"
  "is_posterior_y rod_ct (7, 28, 0) POSTERIOR_Y_IDX_MIN_FRAC"
  "is_near_midline_x rod_ct (7, 28, 0) MIDLINE_X_TOL_MM"
  by code_simp+

lemma rod_roi:
  "nbhd_roi rod_ct (7, 28, 0) NBHD_RADIUS_MM =
     [(0,2,0),(1,2,0),(2,2,0),(0,3,0),(1,3,0),(2,3,0),(0,4,0),(1,4,0),(2,4,0),(0,5,0),(1,5,0),(2,5,0)]"
  by code_simp

lemma rod_fraction:
  "endpoint_is_posterior_missing_tubercle rod_ct rod_rib (7, 28, 0)
     NBHD_RADIUS_MM NBHD_BONE_HU POSTERIOR_Y_IDX_MIN_FRAC MIDLINE_X_TOL_MM = Inr (Num 0)"
  using rod_gate
  by (simp add: endpoint_is_posterior_missing_tubercle_def Let_def rod_roi mean_bool_def
      NBHD_BONE_HU_def) (simp add: rod_ct_def rod_geom_def)

lemma rod_classify:
  "classify_endpoints rod_ct rod_rib (active_cutoff (side_select (basename ''/in/rib_left_1.nii.gz'')))
     [(7, 21, 0), (7, 28, 0)] = Inr [((7, 28, 0), Num 0)]"
  using rod_gate(1)
  by (simp add: rod_fraction classifier_gate_fail side_select_def basename_def cutoff_values)

lemma rod_classify_right:
  "classify_endpoints rod_ct rod_rib (active_cutoff (side_select (basename ''/in/rib_right_1.nii.gz'')))
     [(7, 21, 0), (7, 28, 0)] = Inr [((7, 28, 0), Num 0)]"
  using rod_gate(1)
  by (simp add: rod_fraction classifier_gate_fail side_select_def basename_def cutoff_values)

section \<open>Growth stays inside the corridor\<close>

lemma flood_funpow_mono: "S \<subseteq> (flood_step g ok ^^ n) S"
  by (induction n) (auto simp: flood_step_def)

lemma ConnectedThreshold_seed:
  assumes "inside (geo img) s" "s \<in> set seeds" "lo \<le> vox img s" "vox img s \<le> hi"
  shows "vox (ConnectedThreshold img seeds lo hi) s = 1"
proof -
  let ?ok = "\<lambda>v. lo \<le> vox img v \<and> vox img v \<le> hi"
  let ?S0 = "Set.filter (\<lambda>v. v \<in> set seeds \<and> ?ok v) (set (indices (geo img)))"
  have "s \<in> ?S0" using assms by (simp add: set_indices)
  then have "s \<in> (flood_step (geo img) ?ok ^^ length (indices (geo img))) ?S0"
    using flood_funpow_mono by blast
  then show ?thesis by (simp add: ConnectedThreshold_def Let_def)
qed

lemma region_grow_seed:
  assumes "region_grow_local ct [ep] lo hi corridor = Inr g"
    and "inside (geo ct) (TransformPhysicalPointToIndex (geo ct) ep)"
    and "vox corridor (TransformPhysicalPointToIndex (geo ct) ep) \<noteq> 0"
    and "lo \<le> vox ct (TransformPhysicalPointToIndex (geo ct) ep)"
    and "vox ct (TransformPhysicalPointToIndex (geo ct) ep) \<le> hi"
  shows "vox g (TransformPhysicalPointToIndex (geo ct) ep) = 1"
proof -
  let ?s = "TransformPhysicalPointToIndex (geo ct) ep"
  from assms(1) obtain m where m: "sitk_Mask ct corridor (- 2000) = Inr m"
    and g: "g = to_u8 (ConnectedThreshold m [?s] lo hi)"
    by (auto simp: region_grow_local_def bindE_eq_Inr Let_def)
  from m assms(3) have v: "vox m ?s = vox ct ?s" and gm: "geo m = geo ct"
    by (auto simp: sitk_Mask_Inr)
  have "vox (ConnectedThreshold m [?s] lo hi) ?s = 1"
    using assms(2,4,5) v gm by (intro ConnectedThreshold_seed) simp_all
  with g show ?thesis by (simp add: to_u8_def)
qed

lemma corridor_seed:
  assumes "corridor_for_tip tk rib spine ep r_rib r_tip = Inr c"
    and "inside (geo rib) (TransformPhysicalPointToIndex (geo rib) ep)"
    and "dist_map_mm tk rib = Inr d"
    and "vox d (TransformPhysicalPointToIndex (geo rib) ep) \<le> r_rib"
    and "\<not> any_nonzero spine"
  shows "vox c (TransformPhysicalPointToIndex (geo rib) ep) = 1"
  using assms
  by (auto simp: corridor_for_tip_def bindE_eq_Inr Let_def sitk_And_Inr to_u8_def img_le_def
      endpoint_sphere_def BinaryDilate_def seed_image_def split: if_splits)

lemma fold_min_le: "fold min xs (a::real) \<le> a"
proof (induction xs arbitrary: a)
  case Nil
  then show ?case by simp
next
  case (Cons y ys)
  have "fold min ys (min y a) \<le> min y a" by (rule Cons.IH)
  also have "\<dots> \<le> a" by simp
  finally show ?case by simp
qed

lemma fold_min_le_elem: "x \<in> set xs \<Longrightarrow> fold min xs (a::real) \<le> x"
proof (induction xs arbitrary: a)
  case Nil
  then show ?case by simp
next
  case (Cons y ys)
  show ?case
  proof (cases "x = y")
    case True
    have "fold min ys (min y a) \<le> min y a" by (rule fold_min_le)
    with True show ?thesis by simp
  next
    case False
    with Cons show ?thesis by simp
  qed
qed

lemma nearest_mm_on_mask:
  assumes "inside (geo m) i" "vox m i \<noteq> 0"
  shows "nearest_mm m i \<le> 0"
proof -
  let ?ds = "map (euclid_mm (geo m) i) (filter (\<lambda>j. vox m j \<noteq> 0) (indices (geo m)))"
  have z: "euclid_mm (geo m) i i = 0" by (simp add: euclid_mm_def)
  have "i \<in> set (filter (\<lambda>j. vox m j \<noteq> 0) (indices (geo m)))"
    using assms by (simp add: set_indices)
  then have "euclid_mm (geo m) i i \<in> set ?ds"
    unfolding set_map by (rule imageI)
  with z have mem: "0 \<in> set ?ds" by simp
  then have ne: "?ds \<noteq> []" by (metis empty_iff list.set(1))
  have "fold min (tl ?ds) (hd ?ds) \<le> 0"
  proof (cases "hd ?ds = 0")
    case True
    with fold_min_le [of "tl ?ds" "hd ?ds"] show ?thesis by simp
  next
    case False
    with mem ne have "0 \<in> set (tl ?ds)" by (cases ?ds) auto
    then show ?thesis by (rule fold_min_le_elem)
  qed
  with ne show ?thesis by (simp add: nearest_mm_def Let_def)
qed

text \<open>
  Claim C5. For every endpoint accepted for growth, each voxel of the result of its region
  growing lies in the corridor built for it: its distance to the rib is at most R1, it lies
  in the endpoint sphere of radius R2, and, when the spine mask is not empty, its distance
  to the spine is at least the clearance.
\<close>

theorem growth_within_corridor:
  assumes "grow_loop tk ct rib spine (max pctl (target_hu_floor (side_select name))) cands gu0 = Inr gu"
    and "(ep, fr) \<in> set cands"
  shows "\<exists>corridor growth.
           corridor_for_tip tk rib spine ep R_RIB_MM_R R_TIP_MM_R = Inr corridor \<and>
           region_grow_local ct [ep] (max pctl (target_hu_floor (side_select name))) UPPER_HU corridor
             = Inr growth \<and>
           (\<forall>i. i \<in> fg growth \<longrightarrow>
                i \<in> fg corridor \<and>
                (\<exists>d_rib. dist_map_mm tk rib = Inr d_rib \<and> vox d_rib i \<le> R_RIB_MM_R) \<and>
                i \<in> fg (endpoint_sphere tk rib ep R_TIP_MM_R) \<and>
                (any_nonzero spine \<longrightarrow>
                   (\<exists>d_spine. dist_map_mm tk spine = Inr d_spine \<and> SPINE_CLEAR_MM \<le> vox d_spine i)))"
proof -
  from grow_loop_steps [OF assms] obtain corridor growth where
    c: "corridor_for_tip tk rib spine ep R_RIB_MM_R R_TIP_MM_R = Inr corridor"
    and g: "region_grow_local ct [ep] (max pctl (target_hu_floor (side_select name))) UPPER_HU corridor
             = Inr growth"
    by blast
  from growth_voxel_in_corridor [OF c g] c g show ?thesis by blast
qed

lemma rod_nonzero_spacing: "nonzero_spacing rod_geom"
  by (simp add: nonzero_spacing_def rod_geom_def)

lemma linear_percentile_constant:
  assumes "hu \<noteq> []" and "\<forall>x \<in> set hu. x = a" and "0 \<le> q" and "q \<le> 100"
  shows "linear_percentile hu q = a"
proof -
  have len: "length (sort hu) = length hu" by simp
  have all: "\<And>k. k < length hu \<Longrightarrow> sort hu ! k = a"
    using assms(2) by (metis len nth_mem set_sort)
  have n: "0 < length hu" using assms(1) by simp
  let ?pos = "q / 100 * real (length hu - 1)"
  have "?pos \<le> 1 * real (length hu - 1)"
    using assms(3,4) by (intro mult_right_mono) simp_all
  then have "\<lfloor>?pos\<rfloor> \<le> int (length hu - 1)"
    by (simp add: floor_le_iff)
  then have lo: "nat \<lfloor>?pos\<rfloor> < length hu" using n by linarith
  have "min (nat \<lfloor>?pos\<rfloor> + 1) (length hu - 1) \<le> length hu - 1" by simp
  with n have hi: "min (nat \<lfloor>?pos\<rfloor> + 1) (length hu - 1) < length hu" by linarith
  from all [OF lo] all [OF hi] show ?thesis
    by (simp add: linear_percentile_def Let_def)
qed

lemma rod_sample:
  "map (vox rod_ct) (filter (\<lambda>i. 0 < vox rod_rib i) (indices (geo rod_rib))) = [300, 300]"
  by (simp add: rod_indices rod_rib_vox) (simp add: rod_ct_def)

lemma rod_percentile:
  "np_percentile reference_toolkit
     (map (vox rod_ct) (filter (\<lambda>i. 0 < vox rod_rib i) (indices (geo rod_rib)))) 40 = 300"
  unfolding rod_sample
  by (simp add: reference_toolkit_def linear_percentile_constant)

lemma rod_stats:
  "stats_percentiles_in_mask reference_toolkit rod_ct rod_rib [PCTL_ROBUST, 0] = Inr [300, 300]"
  using rod_sample
  by (simp add: stats_percentiles_in_mask_def Let_def PCTL_ROBUST_def reference_toolkit_def
      linear_percentile_constant)

lemma rod_dist: "dist_map_mm reference_toolkit rod_rib = Inr \<lparr>geo = rod_geom, vox = nearest_mm rod_rib\<rparr>"
  by (simp add: dist_map_mm_def reference_toolkit_def bindE_Inr)

lemma rod_grow_loop:
  "\<exists>gu. grow_loop reference_toolkit rod_ct rod_rib (zero_mask rod_geom) lower
          [((7, 28, 0), Num 0)] (zero_mask rod_geom) = Inr gu"
  using grow_loop_total [OF reference_toolkit_total, of rod_ct rod_rib "zero_mask rod_geom"
      "zero_mask rod_geom" lower "[((7, 28, 0), Num 0)]"] rod_nonzero_spacing
  by auto

lemma rod_seed_in_growth:
  assumes "corridor_for_tip reference_toolkit rod_rib (zero_mask rod_geom) (7, 28, 0)
             R_RIB_MM_R R_TIP_MM_R = Inr corridor"
    and "region_grow_local rod_ct [(7, 28, 0)] 300 UPPER_HU corridor = Inr growth"
  shows "(1, 4, 0) \<in> fg growth"
proof -
  have d: "vox \<lparr>geo = rod_geom, vox = nearest_mm rod_rib\<rparr>
             (TransformPhysicalPointToIndex (geo rod_rib) (7, 28, 0)) \<le> R_RIB_MM_R"
    using nearest_mm_on_mask [of rod_rib "(1, 4, 0)"]
    by (simp add: rod_idx rod_inside rod_rib_vox R_RIB_MM_R_def)
  have c: "vox corridor (TransformPhysicalPointToIndex (geo rod_rib) (7, 28, 0)) = 1"
    by (rule corridor_seed [OF assms(1) _ rod_dist d])
       (simp_all add: rod_idx rod_inside any_nonzero_iff zero_mask_def)
  have "vox growth (TransformPhysicalPointToIndex (geo rod_ct) (7, 28, 0)) = 1"
    using c by (intro region_grow_seed [OF assms(2)])
      (simp_all add: rod_idx rod_inside UPPER_HU_def, simp_all add: rod_ct_def)
  moreover from region_grow_local_masked [OF assms(2), of "(1, 4, 0)"] this
  have "geo growth = rod_geom" by (simp add: rod_idx)
  ultimately show ?thesis by (simp add: fg_def rod_idx rod_inside)
qed

theorem growth_within_corridor_witness:
  "\<exists>corridor growth d_rib.
     corridor_for_tip reference_toolkit rod_rib (zero_mask rod_geom) (7, 28, 0)
       R_RIB_MM_R R_TIP_MM_R = Inr corridor \<and>
     region_grow_local rod_ct [(7, 28, 0)]
       (max 300 (target_hu_floor (side_select ''rib_left_1.nii.gz''))) UPPER_HU corridor = Inr growth \<and>
     (1, 4, 0) \<in> fg growth \<and> (1, 4, 0) \<in> fg corridor \<and>
     dist_map_mm reference_toolkit rod_rib = Inr d_rib \<and> vox d_rib (1, 4, 0) \<le> R_RIB_MM_R \<and>
     (1, 4, 0) \<in> fg (endpoint_sphere reference_toolkit rod_rib (7, 28, 0) R_TIP_MM_R)"
proof -
  have fl: "max 300 (target_hu_floor (side_select ''rib_left_1.nii.gz'')) = 300"
    by (simp add: side_select_def LOWER_PCTL_FLOOR_R_def)
  obtain gu where gu: "grow_loop reference_toolkit rod_ct rod_rib (zero_mask rod_geom)
       (max 300 (target_hu_floor (side_select ''rib_left_1.nii.gz'')))
       [((7, 28, 0), Num 0)] (zero_mask rod_geom) = Inr gu"
    using rod_grow_loop by blast
  have mem: "((7, 28, 0), Num 0) \<in> set [((7, 28, 0), Num 0)]" by simp
  from growth_within_corridor [OF gu mem] obtain corridor growth where
    c: "corridor_for_tip reference_toolkit rod_rib (zero_mask rod_geom) (7, 28, 0)
          R_RIB_MM_R R_TIP_MM_R = Inr corridor"
    and g: "region_grow_local rod_ct [(7, 28, 0)]
          (max 300 (target_hu_floor (side_select ''rib_left_1.nii.gz''))) UPPER_HU corridor = Inr growth"
    and p: "\<forall>i. i \<in> fg growth \<longrightarrow>
                i \<in> fg corridor \<and>
                (\<exists>d_rib. dist_map_mm reference_toolkit rod_rib = Inr d_rib \<and> vox d_rib i \<le> R_RIB_MM_R) \<and>
                i \<in> fg (endpoint_sphere reference_toolkit rod_rib (7, 28, 0) R_TIP_MM_R) \<and>
                (any_nonzero (zero_mask rod_geom) \<longrightarrow>
                   (\<exists>d_spine. dist_map_mm reference_toolkit (zero_mask rod_geom) = Inr d_spine \<and>
                      SPINE_CLEAR_MM \<le> vox d_spine i))"
    by blast
  have s: "(1, 4, 0) \<in> fg growth"
    using rod_seed_in_growth [OF c] g fl by simp
  from p s c g show ?thesis by blast
qed

lemma ellipsoid_bound:
  "b \<in> set (ellipsoid rad) \<Longrightarrow> \<bar>c1 b\<bar> \<le> int (c1 rad)"
  by (auto simp: ellipsoid_def Let_def)

lemma ellipsoid_unit_y: "(0, 1, 0) \<in> set (ellipsoid (1, 1, 1))"
  by (simp add: ellipsoid_def Let_def image_iff)

lemma rod_tip_radius: "tip_radius rod_rib R_TIP_MM_R = (2, 2, 2)"
  by code_simp

lemma rod_sphere_front:
  "vox (endpoint_sphere reference_toolkit rod_rib (7, 28, 0) R_TIP_MM_R) (1, 0, 0) = 0"
proof -
  have "\<not> list_ex (\<lambda>b. inside rod_geom (idx_sub (1, 0, 0) b) \<and>
            vox (seed_image rod_rib (7, 28, 0)) (idx_sub (1, 0, 0) b) = 1) (ellipsoid (2, 2, 2))"
  proof
    assume "list_ex (\<lambda>b. inside rod_geom (idx_sub (1, 0, 0) b) \<and>
            vox (seed_image rod_rib (7, 28, 0)) (idx_sub (1, 0, 0) b) = 1) (ellipsoid (2, 2, 2))"
    then obtain b where b: "b \<in> set (ellipsoid (2, 2, 2))"
      and v: "vox (seed_image rod_rib (7, 28, 0)) (idx_sub (1, 0, 0) b) = 1"
      by (auto simp: list_ex_iff)
    from v have "idx_sub (1, 0, 0) b = (1, 4, 0)"
      by (simp add: seed_image_def rod_idx rod_inside zero_mask_def split: if_splits)
    then have "c1 b = - 4" by (simp add: idx_sub_def)
    with ellipsoid_bound [OF b] show False by simp
  qed
  then show ?thesis
    by (simp add: endpoint_sphere_def BinaryDilate_def rod_tip_radius reference_toolkit_def
        seed_image_def rod_idx rod_inside)
qed

lemma rod_read: "read_img rod_world ''/in/rib_left_1.nii.gz'' = Inr rod_mask"
  by (simp add: read_img_def rod_world_def)

lemma rod_sk:
  "skeleton reference_toolkit (to_u8 (resample_like (to_u8 rod_mask) rod_ct))
     = Inr \<lparr>geo = rod_geom, vox = vox rod_rib\<rparr>"
  using rod_skeleton by (simp add: rod_rib_def)

lemma rod_cl:
  "classify_endpoints rod_ct (to_u8 (resample_like (to_u8 rod_mask) rod_ct))
      (active_cutoff (side_select (basename ''/in/rib_left_1.nii.gz'')))
      (endpoints_from_skeleton \<lparr>geo = rod_geom, vox = vox rod_rib\<rparr>) = Inr [((7, 28, 0), Num 0)]"
  unfolding rod_rib_def [symmetric] rod_endpoints_phys by (rule rod_classify)

lemma rod_lower:
  "max (np_percentile reference_toolkit
          (map (vox rod_ct) (filter (\<lambda>i. 0 < vox rod_rib i) (indices (geo rod_rib)))) 40)
       (target_hu_floor (side_select (basename ''/in/rib_left_1.nii.gz''))) = 300"
  unfolding rod_percentile by (simp add: side_select_def basename_def LOWER_PCTL_FLOOR_R_def)

section \<open>The intensity bounds of the growth\<close>

text \<open>
  Claim C7. When the repair of a rib reaches the growth phase (the file is read, the spine
  mask and the skeleton are computed and at least one endpoint is a candidate), the lower
  bound it logs and grows with is the maximum of the 40th percentile of the CT inside the
  rib mask and the floor of the side, and the upper bound is 1200 HU: the repair fails
  with the error of the growth loop run with these bounds, or writes the closing of the rib
  joined with the union that loop returns. For each candidate the growth is the connected
  threshold, within these bounds, of the CT in which every voxel outside the corridor is
  set to -2000 HU, below the lower bound; such a voxel is not part of the growth. The
  percentile is the one numpy computes; the rib mask is not empty in the growth phase.
\<close>

theorem growth_intensity_bounds:
  assumes "read_img w rib_path = Inr rib_raw"
    and "build_spine_mask tk ct = Inr spine"
    and "skeleton tk (to_u8 (resample_like (to_u8 rib_raw) ct)) = Inr skel"
    and "classify_endpoints ct (to_u8 (resample_like (to_u8 rib_raw) ct))
           (active_cutoff (side_select (basename rib_path))) (endpoints_from_skeleton skel) = Inr cands"
    and "cands \<noteq> []"
  shows "(let rib = to_u8 (resample_like (to_u8 rib_raw) ct);
              lower_hu = max (np_percentile tk
                                (map (vox ct) (filter (\<lambda>i. 0 < vox rib i) (indices (geo rib)))) 40)
                             (target_hu_floor (side_select (basename rib_path)));
              result = repair_first_rib tk ct rib_path out_path w
          in InfoGrowth lower_hu (length cands) \<in> set (printed (snd result)) \<and>
             UPPER_HU = 1200 \<and>
             (\<forall>e. grow_loop tk ct rib spine lower_hu cands (zero_mask (geo ct)) = Inl e \<longrightarrow>
                  fst result = Inl e) \<and>
             (\<forall>gu. grow_loop tk ct rib spine lower_hu cands (zero_mask (geo ct)) = Inr gu \<longrightarrow>
                  fst result = Inr () \<and>
                  (\<exists>pre. sitk_Or rib gu = Inr pre \<and>
                     files (snd result) out_path =
                       Some (of_u8 (resample_like (BinaryMorphologicalClosing tk pre FINAL_CLOSING)
                                      rib_raw))) \<and>
                  (\<forall>ep fr. (ep, fr) \<in> set cands \<longrightarrow>
                     (\<exists>corridor ct_masked growth.
                        corridor_for_tip tk rib spine ep R_RIB_MM_R R_TIP_MM_R = Inr corridor \<and>
                        sitk_Mask ct corridor (- 2000) = Inr ct_masked \<and>
                        region_grow_local ct [ep] lower_hu UPPER_HU corridor = Inr growth \<and>
                        growth = to_u8 (ConnectedThreshold ct_masked
                                   [TransformPhysicalPointToIndex (geo ct) ep] lower_hu UPPER_HU) \<and>
                        (\<forall>i. inside (geo ct) i \<and> i \<notin> fg corridor \<longrightarrow>
                             vox ct_masked i = - 2000 \<and> vox ct_masked i < lower_hu \<and>
                             i \<notin> fg growth)))))"
proof -
  let ?rib = "to_u8 (resample_like (to_u8 rib_raw) ct)"
  let ?floor = "target_hu_floor (side_select (basename rib_path))"
  let ?lo = "max (np_percentile tk
                    (map (vox ct) (filter (\<lambda>i. 0 < vox ?rib i) (indices (geo ?rib)))) 40) ?floor"
  let ?res = "repair_first_rib tk ct rib_path out_path w"
  define w1 where "w1 = print_ev (InfoEndpoints (basename rib_path)
                 (side_tag (side_select (basename rib_path)))
                 (length (endpoints_from_skeleton skel))
                 (active_cutoff (side_select (basename rib_path))) (length cands)) w"
  from repair_outcomes [OF assms(1,2,3,4) w1_def, of out_path] assms(5)
  obtain pctls where st: "stats_percentiles_in_mask tk ct ?rib [PCTL_ROBUST, 0] = Inr pctls"
    and fail: "\<forall>e. grow_loop tk ct ?rib spine (max (hd pctls) ?floor) cands (zero_mask (geo ct)) = Inl e \<longrightarrow>
                 ?res = (Inl e, print_ev (InfoGrowth (max (hd pctls) ?floor) (length cands)) w1)"
    and ok: "\<forall>gu. grow_loop tk ct ?rib spine (max (hd pctls) ?floor) cands (zero_mask (geo ct)) = Inr gu \<longrightarrow>
                 (\<exists>pre. sitk_Or ?rib gu = Inr pre \<and>
                    ?res = (Inr (), print_ev (Saved out_path)
                       (write_img (of_u8 (resample_like
                            (BinaryMorphologicalClosing tk pre FINAL_CLOSING) rib_raw)) out_path
                          (print_ev (InfoGrowth (max (hd pctls) ?floor) (length cands)) w1))))"
    by blast
  have ne: "fg ?rib \<noteq> {}"
    by (rule candidates_rib_nonempty [OF assms(3,4,5)])
  have "hd pctls = np_percentile tk
                    (map (vox ct) (filter (\<lambda>i. 0 < vox ?rib i) (indices (geo ?rib)))) 40"
    using stats_percentiles_nonempty [OF ne st] by (simp add: PCTL_ROBUST_def)
  then have lo: "max (hd pctls) ?floor = ?lo" by simp
  have low: "- 2000 < ?lo"
    using floor_ge_200 [of "basename rib_path"] by simp
  have a: "?res = (Inl e, print_ev (InfoGrowth ?lo (length cands)) w1)"
    if "grow_loop tk ct ?rib spine ?lo cands (zero_mask (geo ct)) = Inl e" for e
    using fail that unfolding lo by blast
  have b: "\<exists>pre. sitk_Or ?rib gu = Inr pre \<and>
             ?res = (Inr (), print_ev (Saved out_path)
                (write_img (of_u8 (resample_like
                     (BinaryMorphologicalClosing tk pre FINAL_CLOSING) rib_raw)) out_path
                   (print_ev (InfoGrowth ?lo (length cands)) w1)))"
    if "grow_loop tk ct ?rib spine ?lo cands (zero_mask (geo ct)) = Inr gu" for gu
    using ok that unfolding lo by blast
  have logged: "InfoGrowth ?lo (length cands) \<in> set (printed (snd ?res))"
  proof (cases "grow_loop tk ct ?rib spine ?lo cands (zero_mask (geo ct))")
    case (Inl e)
    from a [OF Inl] show ?thesis by (simp add: print_ev_def)
  next
    case (Inr gu)
    from b [OF Inr] show ?thesis by (auto simp: print_ev_def write_img_def)
  qed
  have m: "\<exists>corridor ct_masked growth.
              corridor_for_tip tk ?rib spine ep R_RIB_MM_R R_TIP_MM_R = Inr corridor \<and>
              sitk_Mask ct corridor (- 2000) = Inr ct_masked \<and>
              region_grow_local ct [ep] ?lo UPPER_HU corridor = Inr growth \<and>
              growth = to_u8 (ConnectedThreshold ct_masked
                         [TransformPhysicalPointToIndex (geo ct) ep] ?lo UPPER_HU) \<and>
              (\<forall>i. inside (geo ct) i \<and> i \<notin> fg corridor \<longrightarrow>
                   vox ct_masked i = - 2000 \<and> vox ct_masked i < ?lo \<and> i \<notin> fg growth)"
    if g: "grow_loop tk ct ?rib spine ?lo cands (zero_mask (geo ct)) = Inr gu"
      and mem: "(ep, fr) \<in> set cands" for gu ep fr
  proof -
    from grow_loop_steps [OF g mem] obtain corridor growth where
      c: "corridor_for_tip tk ?rib spine ep R_RIB_MM_R R_TIP_MM_R = Inr corridor"
      and gr: "region_grow_local ct [ep] ?lo UPPER_HU corridor = Inr growth"
      by blast
    from masked_growth [OF low gr] c gr show ?thesis by blast
  qed
  show ?thesis
    unfolding Let_def
  proof (intro conjI allI impI)
    show "InfoGrowth ?lo (length cands) \<in> set (printed (snd ?res))" by (rule logged)
    show "UPPER_HU = 1200" by (simp add: UPPER_HU_def)
  next
    fix e assume "grow_loop tk ct ?rib spine ?lo cands (zero_mask (geo ct)) = Inl e"
    from a [OF this] show "fst ?res = Inl e" by simp
  next
    fix gu assume "grow_loop tk ct ?rib spine ?lo cands (zero_mask (geo ct)) = Inr gu"
    from b [OF this] show "fst ?res = Inr ()" by auto
  next
    fix gu assume "grow_loop tk ct ?rib spine ?lo cands (zero_mask (geo ct)) = Inr gu"
    from b [OF this]
    show "\<exists>pre. sitk_Or ?rib gu = Inr pre \<and>
            files (snd ?res) out_path =
              Some (of_u8 (resample_like (BinaryMorphologicalClosing tk pre FINAL_CLOSING) rib_raw))"
      by auto
  next
    fix gu ep fr
    assume "grow_loop tk ct ?rib spine ?lo cands (zero_mask (geo ct)) = Inr gu"
      and "(ep, fr) \<in> set cands"
    then show "\<exists>corridor ct_masked growth.
              corridor_for_tip tk ?rib spine ep R_RIB_MM_R R_TIP_MM_R = Inr corridor \<and>
              sitk_Mask ct corridor (- 2000) = Inr ct_masked \<and>
              region_grow_local ct [ep] ?lo UPPER_HU corridor = Inr growth \<and>
              growth = to_u8 (ConnectedThreshold ct_masked
                         [TransformPhysicalPointToIndex (geo ct) ep] ?lo UPPER_HU) \<and>
              (\<forall>i. inside (geo ct) i \<and> i \<notin> fg corridor \<longrightarrow>
                   vox ct_masked i = - 2000 \<and> vox ct_masked i < ?lo \<and> i \<notin> fg growth)"
      by (rule m)
  qed
qed

theorem growth_intensity_bounds_witness:
  "\<exists>gu corridor ct_masked growth.
     grow_loop reference_toolkit rod_ct rod_rib (zero_mask rod_geom) 300
       [((7, 28, 0), Num 0)] (zero_mask rod_geom) = Inr gu \<and>
     fst (repair_first_rib reference_toolkit rod_ct ''/in/rib_left_1.nii.gz''
            ''/out/CF01_rib_left_1_postprocessed.nii.gz'' rod_world) = Inr () \<and>
     InfoGrowth 300 1 \<in> set (printed (snd (repair_first_rib reference_toolkit rod_ct
            ''/in/rib_left_1.nii.gz'' ''/out/CF01_rib_left_1_postprocessed.nii.gz'' rod_world))) \<and>
     corridor_for_tip reference_toolkit rod_rib (zero_mask rod_geom) (7, 28, 0)
       R_RIB_MM_R R_TIP_MM_R = Inr corridor \<and>
     sitk_Mask rod_ct corridor (- 2000) = Inr ct_masked \<and>
     region_grow_local rod_ct [(7, 28, 0)] 300 UPPER_HU corridor = Inr growth \<and>
     (1, 0, 0) \<notin> fg corridor \<and> vox ct_masked (1, 0, 0) = - 2000 \<and> (1, 0, 0) \<notin> fg growth"
proof -
  let ?res = "repair_first_rib reference_toolkit rod_ct ''/in/rib_left_1.nii.gz''
            ''/out/CF01_rib_left_1_postprocessed.nii.gz'' rod_world"
  have ne: "[((7, 28, 0), Num 0)] \<noteq> ([] :: (pnt \<times> pyfloat) list)" by simp
  obtain gu where gu: "grow_loop reference_toolkit rod_ct rod_rib (zero_mask rod_geom) 300
       [((7, 28, 0), Num 0)] (zero_mask (geo rod_ct)) = Inr gu"
    using rod_grow_loop by auto
  note t = growth_intensity_bounds [OF rod_read rod_spine rod_sk rod_cl ne,
      of "''/out/CF01_rib_left_1_postprocessed.nii.gz''", unfolded Let_def,
      folded rod_rib_def, unfolded rod_lower]
  from t have logged: "InfoGrowth 300 (length [((7 :: real, 28 :: real, 0 :: real), Num 0)])
      \<in> set (printed (snd ?res))"
    by blast
  from t gu have ok: "fst ?res = Inr ()" by blast
  have mem: "((7, 28, 0), Num 0) \<in> set [((7, 28, 0), Num 0)]" by simp
  from t gu mem obtain corridor ct_masked growth where
    c: "corridor_for_tip reference_toolkit rod_rib (zero_mask rod_geom) (7, 28, 0)
          R_RIB_MM_R R_TIP_MM_R = Inr corridor"
    and m: "sitk_Mask rod_ct corridor (- 2000) = Inr ct_masked"
    and g: "region_grow_local rod_ct [(7, 28, 0)] 300 UPPER_HU corridor = Inr growth"
    and p: "\<forall>i. inside (geo rod_ct) i \<and> i \<notin> fg corridor \<longrightarrow>
                 vox ct_masked i = - 2000 \<and> vox ct_masked i < 300 \<and> i \<notin> fg growth"
    by blast
  have "vox corridor (1, 0, 0) = 0"
  proof (rule ccontr)
    assume "vox corridor (1, 0, 0) \<noteq> 0"
    from corridor_for_tip_voxel [OF c this] rod_sphere_front show False by simp
  qed
  then have out: "(1, 0, 0) \<notin> fg corridor" by (simp add: fg_def)
  have "inside (geo rod_ct) (1, 0, 0)" by (simp add: rod_inside)
  with p out have "vox ct_masked (1, 0, 0) = - 2000 \<and> (1, 0, 0) \<notin> fg growth" by blast
  with gu logged ok c m g out show ?thesis by auto
qed

lemma flood_funpow_closed:
  assumes "S \<subseteq> A"
    and "\<And>v. inside g v \<Longrightarrow> ok v \<Longrightarrow> list_ex (\<lambda>d. idx_add v d \<in> A) face_offsets \<Longrightarrow> v \<in> A"
  shows "(flood_step g ok ^^ n) S \<subseteq> A"
proof (induction n)
  case 0
  with assms(1) show ?case by simp
next
  case (Suc n)
  show ?case
  proof
    fix v assume "v \<in> (flood_step g ok ^^ Suc n) S"
    then have "v \<in> (flood_step g ok ^^ n) S \<or>
        (inside g v \<and> ok v \<and> list_ex (\<lambda>d. idx_add v d \<in> (flood_step g ok ^^ n) S) face_offsets)"
      by (auto simp: flood_step_def set_indices)
    then show "v \<in> A"
    proof
      assume "v \<in> (flood_step g ok ^^ n) S"
      with Suc show ?thesis by blast
    next
      assume a: "inside g v \<and> ok v \<and> list_ex (\<lambda>d. idx_add v d \<in> (flood_step g ok ^^ n) S) face_offsets"
      then have "list_ex (\<lambda>d. idx_add v d \<in> A) face_offsets"
        using Suc by (auto simp: list_ex_iff)
      with a assms(2) show ?thesis by blast
    qed
  qed
qed

lemma component_label_nonzero: "component_label m i \<noteq> 0 \<longleftrightarrow> vox m i \<noteq> 0"
  by (simp add: component_label_def)

lemma component_of_self: "i \<in> component_of m i"
  unfolding component_of_def using flood_funpow_mono [of "{i}"] by blast

lemma blob_vox: "vox blob_grow i = (if i = (0, 0, 0) \<or> i = (1, 4, 0) \<or> i = (1, 5, 0) then 1 else 0)"
  by (simp add: blob_grow_def)

lemma blob_geo [simp]: "geo blob_grow = rod_geom"
  by (simp add: blob_grow_def)

lemma blob_component_back:
  assumes "w = (1, 4, 0) \<or> w = (1, 5, 0)"
  shows "component_of blob_grow w \<subseteq> {(1, 4, 0), (1, 5, 0)}"
  unfolding component_of_def
proof (rule flood_funpow_closed)
  show "{w} \<subseteq> {(1, 4, 0), (1, 5, 0)}" using assms by auto
next
  fix v
  assume "inside (geo blob_grow) v" "vox blob_grow v \<noteq> 0"
    "list_ex (\<lambda>d. idx_add v d \<in> {(1, 4, 0), (1, 5, 0)}) face_offsets"
  then show "v \<in> {(1, 4, 0), (1, 5, 0)}"
    by (auto simp: blob_vox face_offsets_def idx_add_def split: if_splits)
qed

lemma blob_labels:
  "component_label blob_grow (0, 0, 0) = 1"
  "w = (1, 4, 0) \<or> w = (1, 5, 0) \<Longrightarrow> component_label blob_grow w \<noteq> 1"
proof -
  show "component_label blob_grow (0, 0, 0) = 1"
    using component_of_self [of "(0, 0, 0)" blob_grow]
    by (simp add: component_label_def blob_vox rod_indices)
next
  assume w: "w = (1, 4, 0) \<or> w = (1, 5, 0)"
  then have "(0, 0, 0) \<notin> component_of blob_grow w"
    using blob_component_back [OF w] by auto
  with w show "component_label blob_grow w \<noteq> 1"
    by (auto simp: component_label_def blob_vox rod_indices)
qed


lemma rod_rib_binary: "binary rod_rib"
  unfolding rod_rib_def by (rule binary_to_u8)

lemma blob_cc:
  "ConnectedComponent reference_toolkit blob_grow = Inr \<lparr>geo = rod_geom, vox = component_label blob_grow\<rparr>"
  by (simp add: ConnectedComponent_def reference_toolkit_def bindE_Inr)

lemma rod_dilated_back:
  "(1, 5, 0) \<in> fg (BinaryDilate reference_toolkit rod_rib (1, 1, 1))"
proof -
  have "list_ex (\<lambda>b. inside rod_geom (idx_sub (1, 5, 0) b) \<and> vox rod_rib (idx_sub (1, 5, 0) b) = 1)
          (ellipsoid (1, 1, 1))"
    unfolding list_ex_iff
    by (rule bexI [OF _ ellipsoid_unit_y]) (simp add: idx_sub_def rod_inside rod_rib_vox)
  then show ?thesis
    by (simp add: fg_def BinaryDilate_def reference_toolkit_def rod_inside)
qed

lemma rod_dilated_front:
  "(0, 0, 0) \<notin> fg (BinaryDilate reference_toolkit rod_rib (1, 1, 1))"
proof -
  have "\<not> list_ex (\<lambda>b. inside rod_geom (idx_sub (0, 0, 0) b) \<and> vox rod_rib (idx_sub (0, 0, 0) b) = 1)
          (ellipsoid (1, 1, 1))"
  proof
    assume "list_ex (\<lambda>b. inside rod_geom (idx_sub (0, 0, 0) b) \<and> vox rod_rib (idx_sub (0, 0, 0) b) = 1)
          (ellipsoid (1, 1, 1))"
    then obtain b where b: "b \<in> set (ellipsoid (1, 1, 1))"
      and v: "vox rod_rib (idx_sub (0, 0, 0) b) = 1"
      by (auto simp: list_ex_iff)
    from v have "idx_sub (0, 0, 0) b = (1, 3, 0) \<or> idx_sub (0, 0, 0) b = (1, 4, 0)"
      by (simp add: rod_rib_vox split: if_splits)
    then have "c1 b = - 3 \<or> c1 b = - 4" by (auto simp: idx_sub_def)
    with ellipsoid_bound [OF b] show False by auto
  qed
  then show ?thesis
    by (simp add: fg_def BinaryDilate_def reference_toolkit_def rod_rib_vox)
qed

theorem component_filter_witness:
  "\<exists>out. keep_growth_touching_rib reference_toolkit blob_grow rod_rib = Inr out \<and>
         (1, 5, 0) \<in> fg out \<and> (0, 0, 0) \<in> fg blob_grow \<and> (0, 0, 0) \<notin> fg out"
proof -
  let ?cc = "\<lparr>geo = rod_geom, vox = component_label blob_grow\<rparr>"
  obtain out where out: "keep_growth_touching_rib reference_toolkit blob_grow rod_rib = Inr out"
    using keep_growth_total [OF reference_toolkit_total, of blob_grow rod_rib] by auto
  have lab: "\<forall>i. inside (geo blob_grow) i \<longrightarrow> (vox ?cc i \<noteq> 0 \<longleftrightarrow> vox blob_grow i \<noteq> 0)"
    using component_label_nonzero [of blob_grow] by simp
  note t = component_filter_keeps_touching [OF rod_rib_binary out blob_cc lab]
  have kept: "(1, 5, 0) \<in> fg out"
  proof -
    have "(1, 5, 0) \<in> fg blob_grow" by (simp add: fg_def blob_vox rod_inside)
    moreover have "inside (geo blob_grow) (1, 5, 0)" by (simp add: rod_inside)
    ultimately show ?thesis using t rod_dilated_back by blast
  qed
  have front_in: "(0, 0, 0) \<in> fg blob_grow" by (simp add: fg_def blob_vox rod_inside)
  have front: "(0, 0, 0) \<notin> fg out"
  proof
    assume "(0, 0, 0) \<in> fg out"
    with t obtain w where w: "w \<in> fg (BinaryDilate reference_toolkit rod_rib (1, 1, 1))"
      "inside (geo blob_grow) w" "vox ?cc w = vox ?cc (0, 0, 0)"
      by blast
    from w(3) have l: "component_label blob_grow w = 1" by (simp add: blob_labels(1))
    then have "vox blob_grow w \<noteq> 0" using component_label_nonzero [of blob_grow w] by simp
    then have "w = (0, 0, 0) \<or> w = (1, 4, 0) \<or> w = (1, 5, 0)"
      by (simp add: blob_vox split: if_splits)
    with l blob_labels(2) [of w] have "w = (0, 0, 0)" by blast
    with w(1) rod_dilated_front show False by simp
  qed
  from out kept front_in front show ?thesis by blast
qed
section \<open>What the repair writes\<close>

lemma read_img_Inr: "read_img w p = Inr img \<longleftrightarrow> files w p = Some img"
  by (simp add: read_img_def split: option.splits)

lemma repair_total:
  assumes "toolkit_total tk" and "nonzero_spacing (geo ct)" and "read_img w rib_path = Inr rib_raw"
    and "skeleton tk (to_u8 (resample_like (to_u8 rib_raw) ct)) = Inr skel"
  shows "\<exists>w'. repair_first_rib tk ct rib_path out_path w = (Inr (), w')"
proof -
  let ?rib = "to_u8 (resample_like (to_u8 rib_raw) ct)"
  have gr: "geo ?rib = geo ct" by simp
  obtain spine where sp: "build_spine_mask tk ct = Inr spine" "geo spine = geo ct"
    using build_spine_mask_total [OF assms(1)] by blast
  note sk = assms(4)
  obtain cands where cl: "classify_endpoints ct ?rib (active_cutoff (side_select (basename rib_path)))
      (endpoints_from_skeleton skel) = Inr cands"
    using classify_endpoints_succeeds [OF assms(2), of ?rib] by auto
  show ?thesis
  proof (cases "cands = []")
    case True
    with repair_skip [OF assms(3) sp(1) sk] cl show ?thesis by blast
  next
    case False
    obtain pctls where st: "stats_percentiles_in_mask tk ct ?rib [PCTL_ROBUST, 0] = Inr pctls"
      using stats_percentiles_total [of ?rib ct tk] by auto
    obtain gu where gu: "grow_loop tk ct ?rib spine
        (max (hd pctls) (target_hu_floor (side_select (basename rib_path)))) cands
        (zero_mask (geo ct)) = Inr gu" "geo gu = geo ct"
      using grow_loop_total [OF assms(1,2) gr sp(2), of "zero_mask (geo ct)"] by auto
    obtain pre where pre: "sitk_Or ?rib gu = Inr pre"
      using gu(2) by (simp add: sitk_Or_def)
    from repair_growth [OF assms(3) sp(1) sk cl False st gu(1) pre] show ?thesis by blast
  qed
qed

lemma roundtrip_same_grid:
  assumes "nonzero_spacing g"
  shows "TransformPhysicalPointToIndex g (TransformIndexToPhysicalPoint g i) = i"
  using assms
  by (simp add: TransformPhysicalPointToIndex_def TransformIndexToPhysicalPoint_def nonzero_spacing_def)




lemma repair_candidates_written:
  assumes "read_img w rib_path = Inr rib_raw"
    and "build_spine_mask tk ct = Inr spine"
    and "skeleton tk (to_u8 (resample_like (to_u8 rib_raw) ct)) = Inr skel"
    and "classify_endpoints ct (to_u8 (resample_like (to_u8 rib_raw) ct))
           (active_cutoff (side_select (basename rib_path))) (endpoints_from_skeleton skel) = Inr cands"
    and "cands \<noteq> []"
    and "repair_first_rib tk ct rib_path out_path w = (Inr (), w')"
  shows "\<exists>pre. geo pre = geo ct \<and>
      files w' out_path =
        Some (of_u8 (resample_like (BinaryMorphologicalClosing tk pre FINAL_CLOSING) rib_raw))"
proof -
  from assms obtain gu pre where
    o: "sitk_Or (to_u8 (resample_like (to_u8 rib_raw) ct)) gu = Inr pre"
    and f: "files w' out_path =
        Some (of_u8 (resample_like (BinaryMorphologicalClosing tk pre FINAL_CLOSING) rib_raw))"
    by (fastforce simp: repair_first_rib_def Let_def split: sum.splits if_splits)
  from o have "geo pre = geo ct" by (auto simp: sitk_Or_Inr)
  with f show ?thesis by blast
qed
text \<open>
  Claim C3. When no endpoint passes classification, the repair ends without error and the
  file written is the input rib file itself, the original mask and not a resampled one;
  when there are candidates and the repair succeeds, the file written is the closed mask
  resampled onto the grid of the input file.
\<close>

theorem skip_writes_original_mask:
  assumes "read_img w rib_path = Inr rib_raw"
    and "build_spine_mask tk ct = Inr spine"
    and "skeleton tk (to_u8 (resample_like (to_u8 rib_raw) ct)) = Inr skel"
    and "classify_endpoints ct (to_u8 (resample_like (to_u8 rib_raw) ct))
           (active_cutoff (side_select (basename rib_path))) (endpoints_from_skeleton skel) = Inr cands"
  shows "(cands = [] \<longrightarrow>
            (\<exists>w'. repair_first_rib tk ct rib_path out_path w = (Inr (), w') \<and>
                  files w' out_path = Some rib_raw \<and> files w' out_path = files w rib_path)) \<and>
         (cands \<noteq> [] \<longrightarrow>
            (\<forall>w'. repair_first_rib tk ct rib_path out_path w = (Inr (), w') \<longrightarrow>
                  (\<exists>pre. geo pre = geo ct \<and>
                     files w' out_path =
                       Some (of_u8 (resample_like (BinaryMorphologicalClosing tk pre FINAL_CLOSING)
                                      rib_raw)))))"
proof (intro conjI impI allI)
  assume "cands = []"
  with repair_skip [OF assms(1,2,3), of out_path] assms(4) assms(1)
  show "\<exists>w'. repair_first_rib tk ct rib_path out_path w = (Inr (), w') \<and>
          files w' out_path = Some rib_raw \<and> files w' out_path = files w rib_path"
    by (simp add: read_img_Inr)
next
  fix w'
  assume ne: "cands \<noteq> []" and r: "repair_first_rib tk ct rib_path out_path w = (Inr (), w')"
  from repair_candidates_written [OF assms ne r]
  show "\<exists>pre. geo pre = geo ct \<and>
      files w' out_path =
        Some (of_u8 (resample_like (BinaryMorphologicalClosing tk pre FINAL_CLOSING) rib_raw))" .
qed



lemma resample_like_geo: "geo a = geo b \<Longrightarrow> resample_like m a = resample_like m b"
  by (simp add: resample_like_def)

lemma dense_rib: "to_u8 (resample_like (to_u8 rod_mask) dense_rod_ct) = rod_rib"
proof -
  have "resample_like (to_u8 rod_mask) dense_rod_ct = resample_like (to_u8 rod_mask) rod_ct"
    by (rule resample_like_geo) (simp add: dense_rod_ct_def rod_ct_def)
  then show ?thesis by (simp add: rod_rib_def)
qed

lemma dense_gate:
  "\<not> is_posterior_y dense_rod_ct (7, 21, 0) POSTERIOR_Y_IDX_MIN_FRAC"
  using rod_gate(1)
  by (simp add: is_posterior_y_def dense_rod_ct_def rod_ct_def)

lemma dense_fraction:
  "endpoint_is_posterior_missing_tubercle dense_rod_ct rod_rib (7, 28, 0)
     NBHD_RADIUS_MM NBHD_BONE_HU POSTERIOR_Y_IDX_MIN_FRAC MIDLINE_X_TOL_MM
   = Inr (Num (fl64 (10 / 12)))"
  by code_simp

lemma dense_fraction_large: "\<not> fl64 (10 / 12) \<le> NBHD_BONE_FRAC_LEFT_CUTOFF"
  unfolding NBHD_BONE_FRAC_LEFT_CUTOFF_def by code_simp

lemma dense_classify:
  "classify_endpoints dense_rod_ct rod_rib
     (active_cutoff (side_select (basename ''/in/rib_left_1.nii.gz'')))
     [(7, 21, 0), (7, 28, 0)] = Inr []"
  using dense_gate dense_fraction_large
  by (simp add: dense_fraction classifier_gate_fail side_select_def basename_def cutoff_values)

theorem skip_writes_original_mask_witness:
  "(\<exists>w'. repair_first_rib reference_toolkit dense_rod_ct ''/in/rib_left_1.nii.gz''
            ''/out/CF01_rib_left_1_postprocessed.nii.gz'' rod_world = (Inr (), w') \<and>
         files w' ''/out/CF01_rib_left_1_postprocessed.nii.gz'' = Some rod_mask) \<and>
   (\<exists>w' pre. repair_first_rib reference_toolkit rod_ct ''/in/rib_left_1.nii.gz''
            ''/out/CF01_rib_left_1_postprocessed.nii.gz'' rod_world = (Inr (), w') \<and>
         geo pre = rod_geom \<and>
         files w' ''/out/CF01_rib_left_1_postprocessed.nii.gz'' =
           Some (of_u8 (resample_like (BinaryMorphologicalClosing reference_toolkit pre FINAL_CLOSING)
                          rod_mask)))"
proof
  obtain spine where sp: "build_spine_mask reference_toolkit dense_rod_ct = Inr spine"
    using build_spine_mask_total [OF reference_toolkit_total] by blast
  have sk: "skeleton reference_toolkit (to_u8 (resample_like (to_u8 rod_mask) dense_rod_ct))
      = Inr \<lparr>geo = rod_geom, vox = vox rod_rib\<rparr>"
    by (simp add: dense_rib rod_skeleton)
  have cl: "classify_endpoints dense_rod_ct (to_u8 (resample_like (to_u8 rod_mask) dense_rod_ct))
      (active_cutoff (side_select (basename ''/in/rib_left_1.nii.gz'')))
      (endpoints_from_skeleton \<lparr>geo = rod_geom, vox = vox rod_rib\<rparr>) = Inr []"
    unfolding dense_rib rod_endpoints_phys by (rule dense_classify)
  from skip_writes_original_mask [OF rod_read sp sk cl,
      of "''/out/CF01_rib_left_1_postprocessed.nii.gz''"]
  show "\<exists>w'. repair_first_rib reference_toolkit dense_rod_ct ''/in/rib_left_1.nii.gz''
            ''/out/CF01_rib_left_1_postprocessed.nii.gz'' rod_world = (Inr (), w') \<and>
         files w' ''/out/CF01_rib_left_1_postprocessed.nii.gz'' = Some rod_mask"
    by blast
next
  obtain w' where r: "repair_first_rib reference_toolkit rod_ct ''/in/rib_left_1.nii.gz''
            ''/out/CF01_rib_left_1_postprocessed.nii.gz'' rod_world = (Inr (), w')"
    using repair_total [OF reference_toolkit_total _ rod_read rod_sk] rod_nonzero_spacing
    by auto
  from skip_writes_original_mask [OF rod_read rod_spine rod_sk rod_cl,
      of "''/out/CF01_rib_left_1_postprocessed.nii.gz''"] r
  show "\<exists>w' pre. repair_first_rib reference_toolkit rod_ct ''/in/rib_left_1.nii.gz''
            ''/out/CF01_rib_left_1_postprocessed.nii.gz'' rod_world = (Inr (), w') \<and>
         geo pre = rod_geom \<and>
         files w' ''/out/CF01_rib_left_1_postprocessed.nii.gz'' =
           Some (of_u8 (resample_like (BinaryMorphologicalClosing reference_toolkit pre FINAL_CLOSING)
                          rod_mask))"
    by auto
qed


section \<open>A rib file that extends beyond the CT\<close>




lemma long_rib_geo [simp]: "geo long_rib = rod_geom" "geo long_mask = long_geom"
  by (simp_all add: long_rib_def long_mask_def)










section \<open>An exception in the growth of one endpoint\<close>

lemma grow_loop_Cons:
  "grow_loop tk ct rib spine lower ((ep, fr) # rest) gu =
     (case endpoint_growth tk ct rib spine lower ep of
        Inl e \<Rightarrow> Inl e
      | Inr growth \<Rightarrow>
          (case sitk_Or gu growth of
             Inl e \<Rightarrow> Inl e
           | Inr gu' \<Rightarrow> grow_loop tk ct rib spine lower rest gu'))"
  by (simp add: endpoint_growth_def bindE_def split: sum.splits)

lemma grow_loop_endpoint_failure:
  assumes "(ep, fr) \<in> set cands" and "endpoint_growth tk ct rib spine lower ep = Inl e"
  shows "\<exists>e'. grow_loop tk ct rib spine lower cands gu0 = Inl e'"
proof (cases "grow_loop tk ct rib spine lower cands gu0")
  case (Inl a)
  then show ?thesis by blast
next
  case (Inr gu)
  from grow_loop_steps [OF Inr assms(1)] assms(2) show ?thesis
    by (auto simp: endpoint_growth_def bindE_def)
qed

lemma rib_loop_error:
  assumes "repair_first_rib tk ct rib_path (rib_out_path out_dir subj rib_path) w = (Inl e, w')"
  shows "rib_loop tk ct out_dir subj (rib_path # rest) w =
           rib_loop tk ct out_dir subj rest (print_ev (ErrorRib subj (rib_base rib_path) e) w')"
  using assms by simp

text \<open>
  Claim C2, as amended. An exception raised while building the corridor or growing from one
  accepted endpoint is not caught in the growth loop: it ends the repair of the rib, no
  output file is written for it, and the loop over the rib files catches and logs the
  exception and goes on with the next file.
\<close>

theorem endpoint_failure_aborts_rib:
  assumes "read_img w rib_path = Inr rib_raw"
    and "build_spine_mask tk ct = Inr spine"
    and "skeleton tk (to_u8 (resample_like (to_u8 rib_raw) ct)) = Inr skel"
    and "classify_endpoints ct (to_u8 (resample_like (to_u8 rib_raw) ct))
           (active_cutoff (side_select (basename rib_path))) (endpoints_from_skeleton skel) = Inr cands"
    and "stats_percentiles_in_mask tk ct (to_u8 (resample_like (to_u8 rib_raw) ct)) [PCTL_ROBUST, 0]
           = Inr pctls"
    and "(ep, fr) \<in> set cands"
    and "endpoint_growth tk ct (to_u8 (resample_like (to_u8 rib_raw) ct)) spine
           (max (hd pctls) (target_hu_floor (side_select (basename rib_path)))) ep = Inl e"
  shows "\<exists>e' w'.
           repair_first_rib tk ct rib_path (rib_out_path out_dir subj rib_path) w = (Inl e', w') \<and>
           files w' = files w \<and>
           rib_loop tk ct out_dir subj (rib_path # rest) w =
             rib_loop tk ct out_dir subj rest (print_ev (ErrorRib subj (rib_base rib_path) e') w')"
proof -
  from assms(6) have ne: "cands \<noteq> []" by auto
  obtain e' where g: "grow_loop tk ct (to_u8 (resample_like (to_u8 rib_raw) ct)) spine
      (max (hd pctls) (target_hu_floor (side_select (basename rib_path)))) cands
      (zero_mask (geo ct)) = Inl e'"
    using grow_loop_endpoint_failure [OF assms(6,7)] by blast
  note r = repair_growth_failure [OF assms(1,2,3,4) ne assms(5) g,
      of "rib_out_path out_dir subj rib_path"]
  from r rib_loop_error [OF r, of rest] repair_error_keeps_files [OF r] show ?thesis by blast
qed

section \<open>The bar volume\<close>

lemma bar_geo [simp]: "geo bar_ct = bar_geom" "geo bar_mask = bar_geom" "geo bar_rib = bar_geom"
  by (simp_all add: bar_ct_def bar_mask_def bar_rib_def)

lemma bar_inside:
  "inside bar_geom i \<longleftrightarrow> 0 \<le> c0 i \<and> c0 i \<le> 6 \<and> 0 \<le> c1 i \<and> c1 i \<le> 5 \<and> c2 i = 0"
  by (auto simp: inside_def bar_geom_def)

lemma bar_nonzero_spacing: "nonzero_spacing bar_geom"
  by (simp add: nonzero_spacing_def bar_geom_def)

lemma bar_rib_vox:
  "vox bar_rib i = (if c1 i = 4 \<and> c2 i = 0 \<and> 1 \<le> c0 i \<and> c0 i \<le> 5 then 1 else 0)"
  by (simp add: bar_rib_def to_u8_def resample_like_def bar_mask_def Let_def bar_inside
      roundtrip_same_grid [OF bar_nonzero_spacing])

lemma bar_indices:
  "indices bar_geom =
     [(0,0,0),(1,0,0),(2,0,0),(3,0,0),(4,0,0),(5,0,0),(6,0,0),
      (0,1,0),(1,1,0),(2,1,0),(3,1,0),(4,1,0),(5,1,0),(6,1,0),
      (0,2,0),(1,2,0),(2,2,0),(3,2,0),(4,2,0),(5,2,0),(6,2,0),
      (0,3,0),(1,3,0),(2,3,0),(3,3,0),(4,3,0),(5,3,0),(6,3,0),
      (0,4,0),(1,4,0),(2,4,0),(3,4,0),(4,4,0),(5,4,0),(6,4,0),
      (0,5,0),(1,5,0),(2,5,0),(3,5,0),(4,5,0),(5,5,0),(6,5,0)]"
  by (simp add: indices_def bar_geom_def upto_rec1)

lemma bar_read: "read_img bar_world ''/in/rib_left_1.nii.gz'' = Inr bar_mask"
  by (simp add: read_img_def bar_world_def)

lemma bar_spine: "build_spine_mask tk bar_ct = Inr (zero_mask bar_geom)"
  by (simp add: build_spine_mask_def Let_def any_nonzero_iff to_u8_def img_ge_def bar_ct_def SPINE_HU_def)

text \<open>The bar is a thin line away from the border of its slice: thinning leaves it as it is.\<close>

lemma bar_fg_list:
  "filter (\<lambda>i. vox bar_rib i \<noteq> 0) (indices bar_geom) = [(1,4,0),(2,4,0),(3,4,0),(4,4,0),(5,4,0)]"
  by (simp add: bar_indices bar_rib_vox)

lemma bar_thin: "\<not> list_ex (thinning_candidate bar_rib) (indices bar_geom)"
  unfolding thinning_candidate_def list_ex_conj_filter bar_fg_list
  by (simp add: ring_values_def ring8_def clamp_idx_def idx_add_def transitions_def bar_rib_vox
      bar_geom_def Let_def)

lemma bar_skeleton: "skeleton fragile_toolkit bar_rib = Inr \<lparr>geo = bar_geom, vox = vox bar_rib\<rparr>"
proof -
  have t: "thin_line_thinning bar_rib = Inr (\<lambda>i. if vox bar_rib i \<noteq> 0 then 1 else 0)"
    using bar_thin by (simp add: thin_line_thinning_def)
  have "(\<lambda>i. if vox bar_rib i = 0 \<or> (if vox bar_rib i \<noteq> 0 then 1 else (0::u8)) = 0 then 0 else 1)
          = vox bar_rib"
    by (rule ext) (simp add: bar_rib_vox)
  then show ?thesis
    by (simp add: skeleton_def fragile_toolkit_def reference_toolkit_def t bindE_Inr)
qed

lemma bar_endpoints:
  "endpoint_indices \<lparr>geo = bar_geom, vox = vox bar_rib\<rparr> = [(1, 4, 0), (5, 4, 0)]"
proof -
  have f: "filter (\<lambda>i. vox bar_rib i = 1) (indices bar_geom) = [(1,4,0),(2,4,0),(3,4,0),(4,4,0),(5,4,0)]"
    by (simp add: bar_indices bar_rib_vox)
  show ?thesis
    unfolding endpoint_indices_staged image.select_convs f
    by (simp add: convolve_ones_def offsets27_def idx_add_def bar_rib_vox bar_inside)
qed

lemma bar_endpoints_phys:
  "endpoints_from_skeleton \<lparr>geo = bar_geom, vox = vox bar_rib\<rparr> = [(7, 28, 0), (35, 28, 0)]"
  by (simp add: endpoints_from_skeleton_def bar_endpoints)
     (simp add: TransformIndexToPhysicalPoint_def bar_geom_def)

lemma bar_gate:
  "is_posterior_y bar_ct (7, 28, 0) POSTERIOR_Y_IDX_MIN_FRAC"
  "is_near_midline_x bar_ct (7, 28, 0) MIDLINE_X_TOL_MM"
  "is_posterior_y bar_ct (35, 28, 0) POSTERIOR_Y_IDX_MIN_FRAC"
  "is_near_midline_x bar_ct (35, 28, 0) MIDLINE_X_TOL_MM"
  by code_simp+

lemma bar_roi_nonempty:
  "nbhd_roi bar_ct (7, 28, 0) NBHD_RADIUS_MM \<noteq> []"
  "nbhd_roi bar_ct (35, 28, 0) NBHD_RADIUS_MM \<noteq> []"
  by code_simp+

lemma mean_bool_all_False: "bs \<noteq> [] \<Longrightarrow> mean_bool (map (\<lambda>i. False) bs) = Num 0"
  by (simp add: mean_bool_def)

lemma bar_fraction:
  "endpoint_is_posterior_missing_tubercle bar_ct bar_rib (7, 28, 0)
     NBHD_RADIUS_MM NBHD_BONE_HU POSTERIOR_Y_IDX_MIN_FRAC MIDLINE_X_TOL_MM = Inr (Num 0)"
  "endpoint_is_posterior_missing_tubercle bar_ct bar_rib (35, 28, 0)
     NBHD_RADIUS_MM NBHD_BONE_HU POSTERIOR_Y_IDX_MIN_FRAC MIDLINE_X_TOL_MM = Inr (Num 0)"
proof -
  have v: "\<And>i. (NBHD_BONE_HU \<le> vox bar_ct i \<and> vox bar_rib i = 0) = False"
    by (simp add: bar_ct_def NBHD_BONE_HU_def)
  have s: "c0 (gspacing bar_geom) \<noteq> 0 \<and> c1 (gspacing bar_geom) \<noteq> 0 \<and> c2 (gspacing bar_geom) \<noteq> 0"
    by (simp add: bar_geom_def)
  show "endpoint_is_posterior_missing_tubercle bar_ct bar_rib (7, 28, 0)
     NBHD_RADIUS_MM NBHD_BONE_HU POSTERIOR_Y_IDX_MIN_FRAC MIDLINE_X_TOL_MM = Inr (Num 0)"
    using bar_gate s
    by (simp add: endpoint_is_posterior_missing_tubercle_def Let_def v
        mean_bool_all_False [OF bar_roi_nonempty(1)])
  show "endpoint_is_posterior_missing_tubercle bar_ct bar_rib (35, 28, 0)
     NBHD_RADIUS_MM NBHD_BONE_HU POSTERIOR_Y_IDX_MIN_FRAC MIDLINE_X_TOL_MM = Inr (Num 0)"
    using bar_gate s
    by (simp add: endpoint_is_posterior_missing_tubercle_def Let_def v
        mean_bool_all_False [OF bar_roi_nonempty(2)])
qed

lemma bar_classify:
  "classify_endpoints bar_ct bar_rib (active_cutoff (side_select (basename ''/in/rib_left_1.nii.gz'')))
     [(7, 28, 0), (35, 28, 0)] = Inr [((7, 28, 0), Num 0), ((35, 28, 0), Num 0)]"
  by (simp add: bar_fraction side_select_def basename_def cutoff_values)

lemma bar_stats:
  "stats_percentiles_in_mask fragile_toolkit bar_ct bar_rib [PCTL_ROBUST, 0] = Inr [300, 300]"
proof -
  let ?hu = "map (vox bar_ct) (filter (\<lambda>i. 0 < vox bar_rib i) (indices (geo bar_rib)))"
  have "(1, 4, 0) \<in> set (filter (\<lambda>i. 0 < vox bar_rib i) (indices (geo bar_rib)))"
    by (simp add: set_indices bar_inside bar_rib_vox)
  then have ne: "?hu \<noteq> []" by (metis empty_iff list.set(1) map_is_Nil_conv)
  have c: "\<forall>x \<in> set ?hu. x = 300" by (auto simp: bar_ct_def)
  have "linear_percentile ?hu 40 = 300" "linear_percentile ?hu 0 = 300"
    by (rule linear_percentile_constant [OF ne c]; simp)+
  with ne show ?thesis
    by (simp add: stats_percentiles_in_mask_def Let_def PCTL_ROBUST_def fragile_toolkit_def
        reference_toolkit_def)
qed

lemma bar_lower:
  "max (hd [300, 300]) (target_hu_floor (side_select (basename ''/in/rib_left_1.nii.gz''))) = (300::real)"
  by (simp add: side_select_def basename_def LOWER_PCTL_FLOOR_R_def)

text \<open>The distance map raises, so that building the corridor of an endpoint raises.\<close>

lemma bar_corridor_fails:
  "corridor_for_tip fragile_toolkit bar_rib (zero_mask bar_geom) ep R_RIB_MM_R R_TIP_MM_R
     = Inl (ToolkitFailure ''SignedMaurerDistanceMap'')"
  by (simp add: corridor_for_tip_def dist_map_mm_def fragile_toolkit_def bindE_Inl)

lemma bar_endpoint_fails:
  "endpoint_growth fragile_toolkit bar_ct bar_rib (zero_mask bar_geom) 300 ep
     = Inl (ToolkitFailure ''SignedMaurerDistanceMap'')"
  by (simp add: endpoint_growth_def bar_corridor_fails bindE_Inl)

lemma bar_paths:
  "rib_base ''/in/rib_left_1.nii.gz'' = ''rib_left_1''"
  "rib_out_path ''/out'' ''CF01'' ''/in/rib_left_1.nii.gz'' = ''/out/CF01_rib_left_1_postprocessed.nii.gz''"
  by code_simp+

lemma bar_sk:
  "skeleton fragile_toolkit (to_u8 (resample_like (to_u8 bar_mask) bar_ct))
     = Inr \<lparr>geo = bar_geom, vox = vox bar_rib\<rparr>"
  unfolding bar_rib_def [symmetric] by (rule bar_skeleton)

lemma bar_cl:
  "classify_endpoints bar_ct (to_u8 (resample_like (to_u8 bar_mask) bar_ct))
     (active_cutoff (side_select (basename ''/in/rib_left_1.nii.gz'')))
     (endpoints_from_skeleton \<lparr>geo = bar_geom, vox = vox bar_rib\<rparr>)
   = Inr [((7, 28, 0), Num 0), ((35, 28, 0), Num 0)]"
  unfolding bar_rib_def [symmetric] bar_endpoints_phys by (rule bar_classify)

lemma bar_st:
  "stats_percentiles_in_mask fragile_toolkit bar_ct (to_u8 (resample_like (to_u8 bar_mask) bar_ct))
     [PCTL_ROBUST, 0] = Inr [300, 300]"
  unfolding bar_rib_def [symmetric] by (rule bar_stats)

lemma bar_fail:
  "endpoint_growth fragile_toolkit bar_ct (to_u8 (resample_like (to_u8 bar_mask) bar_ct))
     (zero_mask bar_geom)
     (max (hd [300, 300]) (target_hu_floor (side_select (basename ''/in/rib_left_1.nii.gz''))))
     (7, 28, 0) = Inl (ToolkitFailure ''SignedMaurerDistanceMap'')"
  unfolding bar_rib_def [symmetric] bar_lower by (rule bar_endpoint_fails)

lemma bar_repair:
  "repair_first_rib fragile_toolkit bar_ct ''/in/rib_left_1.nii.gz'' out_path bar_world =
     (Inl (ToolkitFailure ''SignedMaurerDistanceMap''),
      print_ev (InfoGrowth 300 2)
        (print_ev (InfoEndpoints ''rib_left_1.nii.gz'' ''Left'' 2 NBHD_BONE_FRAC_LEFT_CUTOFF 2)
           bar_world))"
proof -
  have g: "grow_loop fragile_toolkit bar_ct (to_u8 (resample_like (to_u8 bar_mask) bar_ct))
      (zero_mask bar_geom)
      (max (hd [300, 300]) (target_hu_floor (side_select (basename ''/in/rib_left_1.nii.gz''))))
      [((7, 28, 0), Num 0), ((35, 28, 0), Num 0)] (zero_mask (geo bar_ct))
      = Inl (ToolkitFailure ''SignedMaurerDistanceMap'')"
    unfolding grow_loop_Cons bar_fail by simp
  have ne: "[((7, 28, 0), Num 0), ((35, 28, 0), Num 0)] \<noteq> ([] :: (pnt \<times> pyfloat) list)" by simp
  from repair_growth_failure [OF bar_read bar_spine bar_sk bar_cl ne bar_st g, of out_path]
  show ?thesis
    by (simp add: bar_endpoints_phys side_select_def basename_def LOWER_PCTL_FLOOR_R_def
        numeral_2_eq_2)
qed

text \<open>
  A bar of five voxels in the interior of its slice, a thin line that thinning leaves as
  it is, with both ends accepted. Building the corridor of the first end raises. Nothing
  catches the exception in the growth loop: the repair of the rib ends, the driver logs
  the exception, and no file is written for the rib.
\<close>

theorem endpoint_failure_counterexample:
  "skeleton fragile_toolkit bar_rib = Inr \<lparr>geo = bar_geom, vox = vox bar_rib\<rparr> \<and>
   classify_endpoints bar_ct bar_rib (active_cutoff (side_select (basename ''/in/rib_left_1.nii.gz'')))
     (endpoints_from_skeleton \<lparr>geo = bar_geom, vox = vox bar_rib\<rparr>)
     = Inr [((7, 28, 0), Num 0), ((35, 28, 0), Num 0)] \<and>
   corridor_for_tip fragile_toolkit bar_rib (zero_mask bar_geom) (7, 28, 0) R_RIB_MM_R R_TIP_MM_R
     = Inl (ToolkitFailure ''SignedMaurerDistanceMap'') \<and>
   files (process_rib_files fragile_toolkit bar_ct ''/out'' ''CF01'' [''/in/rib_left_1.nii.gz'']
            bar_world) ''/out/CF01_rib_left_1_postprocessed.nii.gz'' = None \<and>
   last (printed (process_rib_files fragile_toolkit bar_ct ''/out'' ''CF01''
            [''/in/rib_left_1.nii.gz''] bar_world))
     = ErrorRib ''CF01'' ''rib_left_1'' (ToolkitFailure ''SignedMaurerDistanceMap'')"
proof -
  have c: "classify_endpoints bar_ct bar_rib
     (active_cutoff (side_select (basename ''/in/rib_left_1.nii.gz'')))
     (endpoints_from_skeleton \<lparr>geo = bar_geom, vox = vox bar_rib\<rparr>)
     = Inr [((7, 28, 0), Num 0), ((35, 28, 0), Num 0)]"
    unfolding bar_endpoints_phys by (rule bar_classify)
  have p: "process_rib_files fragile_toolkit bar_ct ''/out'' ''CF01'' [''/in/rib_left_1.nii.gz'']
            bar_world =
        print_ev (ErrorRib ''CF01'' ''rib_left_1'' (ToolkitFailure ''SignedMaurerDistanceMap''))
          (print_ev (InfoGrowth 300 2)
            (print_ev (InfoEndpoints ''rib_left_1.nii.gz'' ''Left'' 2 NBHD_BONE_FRAC_LEFT_CUTOFF 2)
               bar_world))"
    by (simp add: process_rib_files_def bar_repair bar_paths)
  have f: "files (process_rib_files fragile_toolkit bar_ct ''/out'' ''CF01''
        [''/in/rib_left_1.nii.gz''] bar_world) ''/out/CF01_rib_left_1_postprocessed.nii.gz'' = None"
    unfolding p by (simp add: bar_world_def)
  have l: "last (printed (process_rib_files fragile_toolkit bar_ct ''/out'' ''CF01''
            [''/in/rib_left_1.nii.gz''] bar_world))
     = ErrorRib ''CF01'' ''rib_left_1'' (ToolkitFailure ''SignedMaurerDistanceMap'')"
    unfolding p by (simp add: print_ev_def)
  from bar_skeleton c bar_corridor_fails f l show ?thesis by blast
qed

theorem endpoint_failure_witness:
  "\<exists>e' w'.
     repair_first_rib fragile_toolkit bar_ct ''/in/rib_left_1.nii.gz''
       (rib_out_path ''/out'' ''CF01'' ''/in/rib_left_1.nii.gz'') bar_world = (Inl e', w') \<and>
     files w' = files bar_world \<and>
     rib_loop fragile_toolkit bar_ct ''/out'' ''CF01'' [''/in/rib_left_1.nii.gz''] bar_world =
       print_ev (ErrorRib ''CF01'' (rib_base ''/in/rib_left_1.nii.gz'') e') w'"
proof -
  have mem: "((7, 28, 0), Num 0) \<in> set [((7, 28, 0), Num 0), ((35, 28, 0), Num 0)]" by simp
  from endpoint_failure_aborts_rib [OF bar_read bar_spine bar_sk bar_cl bar_st mem bar_fail,
      of "''/out''" "''CF01''" "[]"]
  show ?thesis by simp
qed

section \<open>Side selection by file name\<close>

lemma str_contains_sublist: "str_contains t s \<longleftrightarrow> sublist t s"
  by (induction s) (auto simp: sublist_Cons_right)

lemma str_contains_iff: "str_contains t s \<longleftrightarrow> (\<exists>u v. s = u @ t @ v)"
  by (simp add: str_contains_sublist sublist_def)

lemma side_select_cases:
  "side_select name =
     (if (\<exists>u v. name = u @ ''rib_right_1'' @ v)
      then \<lparr>active_cutoff = NBHD_BONE_FRAC_RIGHT_CUTOFF, side_tag = ''Right'', target_hu_floor = 400\<rparr>
      else \<lparr>active_cutoff = NBHD_BONE_FRAC_LEFT_CUTOFF, side_tag = ''Left'', target_hu_floor = 200\<rparr>)"
  by (simp add: side_select_def str_contains_iff LOWER_HU_RIGHT_MIN_def LOWER_PCTL_FLOOR_R_def)

text \<open>
  Names the file matcher accepts but that do not contain the substring (a hyphen, upper
  case, a leading zero) are treated as the left side.
\<close>

lemma matched_names_selected_left:
  "is_first_rib_file ''rib-right-1.nii.gz'' \<and>
   side_tag (side_select (basename ''/d/rib-right-1.nii.gz'')) = ''Left'' \<and>
   is_first_rib_file ''RIB_RIGHT_1.nii'' \<and>
   side_tag (side_select (basename ''/d/RIB_RIGHT_1.nii'')) = ''Left'' \<and>
   is_first_rib_file ''rib_right_01.nii.gz'' \<and>
   side_tag (side_select (basename ''/d/rib_right_01.nii.gz'')) = ''Left'' \<and>
   is_first_rib_file ''rib_right_1.nii.gz'' \<and>
   side_tag (side_select (basename ''/d/rib_right_1.nii.gz'')) = ''Right''"
  by code_simp

text \<open>
  Claim C10. For every rib file the repair processes, the side depends only on whether the
  base name of the file contains the substring \<^verbatim>\<open>rib_right_1\<close>, and the cutoff and the
  floor of that side are the ones the repair applies: with the substring the cutoff is
  0.005 and the floor 400 HU, for any other name the cutoff is 0.05 and the floor 200 HU.
  The candidates are the endpoints classified with that cutoff; the repair logs the side,
  the cutoff and the number of candidates, writes the input file back when there is no
  candidate, and otherwise grows with the lower bound \<open>max (percentile, floor)\<close>: it fails
  with the error of the growth loop run with that bound, or writes the closing of the rib
  joined with the union that loop returns.
\<close>

theorem side_selection_by_filename:
  assumes "read_img w rib_path = Inr rib_raw"
    and "build_spine_mask tk ct = Inr spine"
    and "skeleton tk (to_u8 (resample_like (to_u8 rib_raw) ct)) = Inr skel"
    and "classify_endpoints ct (to_u8 (resample_like (to_u8 rib_raw) ct))
           (if (\<exists>u v. basename rib_path = u @ ''rib_right_1'' @ v)
            then NBHD_BONE_FRAC_RIGHT_CUTOFF else NBHD_BONE_FRAC_LEFT_CUTOFF)
           (endpoints_from_skeleton skel) = Inr cands"
  shows "(let rib = to_u8 (resample_like (to_u8 rib_raw) ct);
              right = (\<exists>u v. basename rib_path = u @ ''rib_right_1'' @ v);
              cutoff = (if right then NBHD_BONE_FRAC_RIGHT_CUTOFF else NBHD_BONE_FRAC_LEFT_CUTOFF);
              hu_floor = (if right then 400 else 200);
              tag = (if right then ''Right'' else ''Left'');
              w1 = print_ev (InfoEndpoints (basename rib_path) tag
                     (length (endpoints_from_skeleton skel)) cutoff (length cands)) w
          in NBHD_BONE_FRAC_RIGHT_CUTOFF = fl64 (5 / 1000) \<and>
             NBHD_BONE_FRAC_LEFT_CUTOFF = fl64 (5 / 100) \<and>
             (cands = [] \<longrightarrow>
                repair_first_rib tk ct rib_path out_path w =
                  (Inr (), write_img rib_raw out_path (print_ev SkipNoCandidates w1))) \<and>
             (cands \<noteq> [] \<longrightarrow>
                (\<exists>pctls. stats_percentiles_in_mask tk ct rib [PCTL_ROBUST, 0] = Inr pctls \<and>
                   (\<forall>e. grow_loop tk ct rib spine (max (hd pctls) hu_floor) cands
                           (zero_mask (geo ct)) = Inl e \<longrightarrow>
                        repair_first_rib tk ct rib_path out_path w =
                          (Inl e, print_ev (InfoGrowth (max (hd pctls) hu_floor) (length cands)) w1)) \<and>
                   (\<forall>gu. grow_loop tk ct rib spine (max (hd pctls) hu_floor) cands
                           (zero_mask (geo ct)) = Inr gu \<longrightarrow>
                        (\<exists>pre. sitk_Or rib gu = Inr pre \<and>
                           repair_first_rib tk ct rib_path out_path w =
                             (Inr (), print_ev (Saved out_path)
                                (write_img (of_u8 (resample_like
                                     (BinaryMorphologicalClosing tk pre FINAL_CLOSING) rib_raw))
                                   out_path
                                   (print_ev (InfoGrowth (max (hd pctls) hu_floor) (length cands))
                                      w1))))))))"
proof (cases "\<exists>u v. basename rib_path = u @ ''rib_right_1'' @ v")
  case True
  then have s: "side_select (basename rib_path) =
      \<lparr>active_cutoff = NBHD_BONE_FRAC_RIGHT_CUTOFF, side_tag = ''Right'', target_hu_floor = 400\<rparr>"
    unfolding side_select_cases by (rule if_P)
  from assms(4) have cl: "classify_endpoints ct (to_u8 (resample_like (to_u8 rib_raw) ct))
      (active_cutoff (side_select (basename rib_path))) (endpoints_from_skeleton skel) = Inr cands"
    unfolding s if_P [OF True] by simp
  note o = repair_outcomes [OF assms(1,2,3) cl refl, of out_path, unfolded s side_cfg.simps]
  have v: "NBHD_BONE_FRAC_RIGHT_CUTOFF = fl64 (5 / 1000)" "NBHD_BONE_FRAC_LEFT_CUTOFF = fl64 (5 / 100)"
    by (fact NBHD_BONE_FRAC_RIGHT_CUTOFF_def NBHD_BONE_FRAC_LEFT_CUTOFF_def)+
  show ?thesis
    unfolding Let_def if_P [OF True]
    using o v by blast
next
  case False
  then have s: "side_select (basename rib_path) =
      \<lparr>active_cutoff = NBHD_BONE_FRAC_LEFT_CUTOFF, side_tag = ''Left'', target_hu_floor = 200\<rparr>"
    unfolding side_select_cases by (rule if_not_P)
  from assms(4) have cl: "classify_endpoints ct (to_u8 (resample_like (to_u8 rib_raw) ct))
      (active_cutoff (side_select (basename rib_path))) (endpoints_from_skeleton skel) = Inr cands"
    unfolding s if_not_P [OF False] by simp
  note o = repair_outcomes [OF assms(1,2,3) cl refl, of out_path, unfolded s side_cfg.simps]
  have v: "NBHD_BONE_FRAC_RIGHT_CUTOFF = fl64 (5 / 1000)" "NBHD_BONE_FRAC_LEFT_CUTOFF = fl64 (5 / 100)"
    by (fact NBHD_BONE_FRAC_RIGHT_CUTOFF_def NBHD_BONE_FRAC_LEFT_CUTOFF_def)+
  show ?thesis
    unfolding Let_def if_not_P [OF False]
    using o v by blast
qed

lemma rod_not_right: "\<not> (\<exists>u v. basename ''/in/rib_left_1.nii.gz'' = u @ ''rib_right_1'' @ v)"
  unfolding str_contains_iff [symmetric] by code_simp

lemma rod_is_right: "\<exists>u v. basename ''/in/rib_right_1.nii.gz'' = u @ ''rib_right_1'' @ v"
  unfolding str_contains_iff [symmetric] by code_simp

lemma rod_read_right: "read_img rod_world_right ''/in/rib_right_1.nii.gz'' = Inr rod_mask"
  by (simp add: read_img_def rod_world_right_def)

lemma rod_grow_exists:
  "\<exists>gu. grow_loop reference_toolkit rod_ct rod_rib (zero_mask rod_geom) lower
          [((7, 28, 0), Num 0)] (zero_mask (geo rod_ct)) = Inr gu"
  using rod_grow_loop [of lower] by simp

theorem side_selection_witness:
  "(\<exists>gu pre.
      grow_loop reference_toolkit rod_ct rod_rib (zero_mask rod_geom) (max 300 200)
        [((7, 28, 0), Num 0)] (zero_mask (geo rod_ct)) = Inr gu \<and>
      sitk_Or rod_rib gu = Inr pre \<and>
      repair_first_rib reference_toolkit rod_ct ''/in/rib_left_1.nii.gz'' ''/out/left.nii.gz'' rod_world =
        (Inr (), print_ev (Saved ''/out/left.nii.gz'')
           (write_img (of_u8 (resample_like
                (BinaryMorphologicalClosing reference_toolkit pre FINAL_CLOSING) rod_mask))
              ''/out/left.nii.gz''
              (print_ev (InfoGrowth (max 300 200) (length [((7 :: real, 28 :: real, 0 :: real), Num 0)]))
                 (print_ev (InfoEndpoints (basename ''/in/rib_left_1.nii.gz'') ''Left''
                      (length (endpoints_from_skeleton \<lparr>geo = rod_geom, vox = vox rod_rib\<rparr>))
                      NBHD_BONE_FRAC_LEFT_CUTOFF
                      (length [((7 :: real, 28 :: real, 0 :: real), Num 0)])) rod_world))))) \<and>
   (\<exists>gu pre.
      grow_loop reference_toolkit rod_ct rod_rib (zero_mask rod_geom) (max 300 400)
        [((7, 28, 0), Num 0)] (zero_mask (geo rod_ct)) = Inr gu \<and>
      sitk_Or rod_rib gu = Inr pre \<and>
      repair_first_rib reference_toolkit rod_ct ''/in/rib_right_1.nii.gz'' ''/out/right.nii.gz''
          rod_world_right =
        (Inr (), print_ev (Saved ''/out/right.nii.gz'')
           (write_img (of_u8 (resample_like
                (BinaryMorphologicalClosing reference_toolkit pre FINAL_CLOSING) rod_mask))
              ''/out/right.nii.gz''
              (print_ev (InfoGrowth (max 300 400) (length [((7 :: real, 28 :: real, 0 :: real), Num 0)]))
                 (print_ev (InfoEndpoints (basename ''/in/rib_right_1.nii.gz'') ''Right''
                      (length (endpoints_from_skeleton \<lparr>geo = rod_geom, vox = vox rod_rib\<rparr>))
                      NBHD_BONE_FRAC_RIGHT_CUTOFF
                      (length [((7 :: real, 28 :: real, 0 :: real), Num 0)])) rod_world_right)))))"
proof
  have ne: "[((7, 28, 0), Num 0)] \<noteq> ([] :: (pnt \<times> pyfloat) list)" by simp
  have cl: "classify_endpoints rod_ct (to_u8 (resample_like (to_u8 rod_mask) rod_ct))
      (if (\<exists>u v. basename ''/in/rib_left_1.nii.gz'' = u @ ''rib_right_1'' @ v)
       then NBHD_BONE_FRAC_RIGHT_CUTOFF else NBHD_BONE_FRAC_LEFT_CUTOFF)
      (endpoints_from_skeleton \<lparr>geo = rod_geom, vox = vox rod_rib\<rparr>) = Inr [((7, 28, 0), Num 0)]"
    using rod_cl unfolding side_select_cases if_not_P [OF rod_not_right] side_cfg.select_convs .
  note t = side_selection_by_filename [OF rod_read rod_spine rod_sk cl,
      of "''/out/left.nii.gz''", unfolded Let_def if_not_P [OF rod_not_right],
      folded rod_rib_def, unfolded rod_stats]
  from t ne obtain pctls where p: "Inr [300, 300] = (Inr pctls :: error + real list)"
    and g: "\<forall>gu. grow_loop reference_toolkit rod_ct rod_rib (zero_mask rod_geom)
                  (max (hd pctls) 200) [((7, 28, 0), Num 0)] (zero_mask (geo rod_ct)) = Inr gu \<longrightarrow>
              (\<exists>pre. sitk_Or rod_rib gu = Inr pre \<and>
                 repair_first_rib reference_toolkit rod_ct ''/in/rib_left_1.nii.gz''
                     ''/out/left.nii.gz'' rod_world =
                   (Inr (), print_ev (Saved ''/out/left.nii.gz'')
                      (write_img (of_u8 (resample_like
                           (BinaryMorphologicalClosing reference_toolkit pre FINAL_CLOSING) rod_mask))
                         ''/out/left.nii.gz''
                         (print_ev (InfoGrowth (max (hd pctls) 200)
                              (length [((7 :: real, 28 :: real, 0 :: real), Num 0)]))
                            (print_ev (InfoEndpoints (basename ''/in/rib_left_1.nii.gz'') ''Left''
                                 (length (endpoints_from_skeleton \<lparr>geo = rod_geom, vox = vox rod_rib\<rparr>))
                                 NBHD_BONE_FRAC_LEFT_CUTOFF
                                 (length [((7 :: real, 28 :: real, 0 :: real), Num 0)])) rod_world)))))"
    by blast
  from p have h: "hd pctls = 300" by auto
  from rod_grow_exists [of "max 300 200"] g [unfolded h]
  show "\<exists>gu pre.
      grow_loop reference_toolkit rod_ct rod_rib (zero_mask rod_geom) (max 300 200)
        [((7, 28, 0), Num 0)] (zero_mask (geo rod_ct)) = Inr gu \<and>
      sitk_Or rod_rib gu = Inr pre \<and>
      repair_first_rib reference_toolkit rod_ct ''/in/rib_left_1.nii.gz'' ''/out/left.nii.gz'' rod_world =
        (Inr (), print_ev (Saved ''/out/left.nii.gz'')
           (write_img (of_u8 (resample_like
                (BinaryMorphologicalClosing reference_toolkit pre FINAL_CLOSING) rod_mask))
              ''/out/left.nii.gz''
              (print_ev (InfoGrowth (max 300 200) (length [((7 :: real, 28 :: real, 0 :: real), Num 0)]))
                 (print_ev (InfoEndpoints (basename ''/in/rib_left_1.nii.gz'') ''Left''
                      (length (endpoints_from_skeleton \<lparr>geo = rod_geom, vox = vox rod_rib\<rparr>))
                      NBHD_BONE_FRAC_LEFT_CUTOFF
                      (length [((7 :: real, 28 :: real, 0 :: real), Num 0)])) rod_world))))"
    by blast
next
  have ne: "[((7, 28, 0), Num 0)] \<noteq> ([] :: (pnt \<times> pyfloat) list)" by simp
  have cl: "classify_endpoints rod_ct (to_u8 (resample_like (to_u8 rod_mask) rod_ct))
      (if (\<exists>u v. basename ''/in/rib_right_1.nii.gz'' = u @ ''rib_right_1'' @ v)
       then NBHD_BONE_FRAC_RIGHT_CUTOFF else NBHD_BONE_FRAC_LEFT_CUTOFF)
      (endpoints_from_skeleton \<lparr>geo = rod_geom, vox = vox rod_rib\<rparr>) = Inr [((7, 28, 0), Num 0)]"
    using rod_classify_right
    unfolding side_select_cases if_P [OF rod_is_right] side_cfg.select_convs
      rod_rib_def [symmetric] rod_endpoints_phys .
  note t = side_selection_by_filename [OF rod_read_right rod_spine rod_sk cl,
      of "''/out/right.nii.gz''", unfolded Let_def if_P [OF rod_is_right],
      folded rod_rib_def, unfolded rod_stats]
  from t ne obtain pctls where p: "Inr [300, 300] = (Inr pctls :: error + real list)"
    and g: "\<forall>gu. grow_loop reference_toolkit rod_ct rod_rib (zero_mask rod_geom)
                  (max (hd pctls) 400) [((7, 28, 0), Num 0)] (zero_mask (geo rod_ct)) = Inr gu \<longrightarrow>
              (\<exists>pre. sitk_Or rod_rib gu = Inr pre \<and>
                 repair_first_rib reference_toolkit rod_ct ''/in/rib_right_1.nii.gz''
                     ''/out/right.nii.gz'' rod_world_right =
                   (Inr (), print_ev (Saved ''/out/right.nii.gz'')
                      (write_img (of_u8 (resample_like
                           (BinaryMorphologicalClosing reference_toolkit pre FINAL_CLOSING) rod_mask))
                         ''/out/right.nii.gz''
                         (print_ev (InfoGrowth (max (hd pctls) 400)
                              (length [((7 :: real, 28 :: real, 0 :: real), Num 0)]))
                            (print_ev (InfoEndpoints (basename ''/in/rib_right_1.nii.gz'') ''Right''
                                 (length (endpoints_from_skeleton \<lparr>geo = rod_geom, vox = vox rod_rib\<rparr>))
                                 NBHD_BONE_FRAC_RIGHT_CUTOFF
                                 (length [((7 :: real, 28 :: real, 0 :: real), Num 0)]))
                               rod_world_right)))))"
    by blast
  from p have h: "hd pctls = 300" by auto
  from rod_grow_exists [of "max 300 400"] g [unfolded h]
  show "\<exists>gu pre.
      grow_loop reference_toolkit rod_ct rod_rib (zero_mask rod_geom) (max 300 400)
        [((7, 28, 0), Num 0)] (zero_mask (geo rod_ct)) = Inr gu \<and>
      sitk_Or rod_rib gu = Inr pre \<and>
      repair_first_rib reference_toolkit rod_ct ''/in/rib_right_1.nii.gz'' ''/out/right.nii.gz''
          rod_world_right =
        (Inr (), print_ev (Saved ''/out/right.nii.gz'')
           (write_img (of_u8 (resample_like
                (BinaryMorphologicalClosing reference_toolkit pre FINAL_CLOSING) rod_mask))
              ''/out/right.nii.gz''
              (print_ev (InfoGrowth (max 300 400) (length [((7 :: real, 28 :: real, 0 :: real), Num 0)]))
                 (print_ev (InfoEndpoints (basename ''/in/rib_right_1.nii.gz'') ''Right''
                      (length (endpoints_from_skeleton \<lparr>geo = rod_geom, vox = vox rod_rib\<rparr>))
                      NBHD_BONE_FRAC_RIGHT_CUTOFF
                      (length [((7 :: real, 28 :: real, 0 :: real), Num 0)])) rod_world_right))))"
    by blast
qed

end
